theory Spec2Isabelle
  imports Complex_Main "HOL-Library.Sublist" "HOL-Library.AList"
begin

section \<open>JavaScript values\<close>

text \<open>
  Upstream bodies, response bodies and token payloads are JSON-shaped JavaScript values.
  Numbers are kept as exact real numbers; \<open>JUndefined\<close> is the value of a property that is
  not there.
\<close>

datatype jsval =
    JUndefined
  | JNull
  | JBool bool
  | JNum real
  | JStr string
  | JArr "jsval list"
  | JObj "(string \<times> jsval) list"

text \<open>A thrown JavaScript \<open>Error\<close>, with its message.\<close>

datatype js_exn = JsError string

fun truthy :: "jsval \<Rightarrow> bool" where
  "truthy JUndefined = False"
| "truthy JNull = False"
| "truthy (JBool b) = b"
| "truthy (JNum n) = (n \<noteq> 0)"
| "truthy (JStr s) = (s \<noteq> [])"
| "truthy (JArr xs) = True"
| "truthy (JObj kvs) = True"

text \<open>\<open>a || b\<close>\<close>

definition js_or :: "jsval \<Rightarrow> jsval \<Rightarrow> jsval" where
  "js_or a b = (if truthy a then a else b)"

text \<open>
  \<open>v.k\<close> for a property name \<open>k\<close> that is no built-in of strings or arrays: a
  \<open>TypeError\<close> on \<open>null\<close> and \<open>undefined\<close>, \<open>undefined\<close> when the property is absent.
\<close>

fun js_get :: "jsval \<Rightarrow> string \<Rightarrow> js_exn + jsval" where
  "js_get JUndefined k = Inl (JsError (''Cannot read properties of undefined (reading '' @ k @ '')''))"
| "js_get JNull k = Inl (JsError (''Cannot read properties of null (reading '' @ k @ '')''))"
| "js_get (JObj kvs) k = Inr (case map_of kvs k of Some v \<Rightarrow> v | None \<Rightarrow> JUndefined)"
| "js_get v k = Inr JUndefined"

text \<open>The same read where the receiver is known not to be \<open>null\<close> or \<open>undefined\<close>.\<close>

definition js_field :: "jsval \<Rightarrow> string \<Rightarrow> jsval" where
  "js_field v k = (case js_get v k of Inr x \<Rightarrow> x | Inl e \<Rightarrow> JUndefined)"

text \<open>An optional string (a \<open>string | undefined\<close> of the source) as a value.\<close>

definition js_of_opt :: "string option \<Rightarrow> jsval" where
  "js_of_opt s = (case s of Some x \<Rightarrow> JStr x | None \<Rightarrow> JUndefined)"

text \<open>The double quote character, as a string.\<close>

definition dquote :: string where
  "dquote = [CHR 0x22]"

text \<open>Decimal digits of a natural number, as \<open>String(n)\<close> prints them.\<close>

definition digit_char :: "nat \<Rightarrow> char" where
  "digit_char d = ''0123456789'' ! d"

fun show_nat :: "nat \<Rightarrow> string" where
  "show_nat n =
     (if n < 10 then [digit_char n] else show_nat (n div 10) @ [digit_char (n mod 10)])"

declare show_nat.simps [simp del]

text \<open>The own enumerable properties that an object spread \<open>{...v}\<close> copies.\<close>

fun js_spread :: "jsval \<Rightarrow> (string \<times> jsval) list" where
  "js_spread (JObj kvs) = kvs"
| "js_spread (JArr xs) = zip (map show_nat [0..<length xs]) xs"
| "js_spread (JStr s) = zip (map show_nat [0..<length s]) (map (\<lambda>c. JStr [c]) s)"
| "js_spread v = []"

section \<open>Configuration\<close>

text \<open>The environment read once at start-up; an unset variable is the empty string.\<close>

record env =
  VPS_METRICS_ENDPOINT :: string
  INTERNAL_JWT_SECRET :: string

definition INTERNAL_JWT_ISSUER :: string where
  "INTERNAL_JWT_ISSUER = ''supabase-metrics-proxy''"

definition INTERNAL_JWT_AUDIENCE :: string where
  "INTERNAL_JWT_AUDIENCE = ''vps-metrics-api''"

definition INTERNAL_JWT_TTL_SECONDS :: nat where
  "INTERNAL_JWT_TTL_SECONDS = 60"

definition API_VERSION :: string where
  "API_VERSION = ''v1''"

definition HEALTH_WINDOW_SIZE :: nat where
  "HEALTH_WINDOW_SIZE = 20"

definition ALLOWED_PATHS :: "string list" where
  "ALLOWED_PATHS =
     [''/health'', ''/brokers/status'', ''/trades/live'', ''/trades/history'',
      ''/strategies/proving'', ''/strategies/promotions'', ''/metrics/gate-pressure'']"

definition AGGREGATE_ENDPOINTS :: "string list" where
  "AGGREGATE_ENDPOINTS =
     [''/brokers/status'', ''/trades/live'', ''/strategies/proving'',
      ''/strategies/promotions'', ''/metrics/gate-pressure'']"

text \<open>
  The wall clock of one call: \<open>Date.now()\<close> in milliseconds and the text that
  \<open>new Date().toISOString()\<close> gives for it.
\<close>

record clock =
  now_ms :: nat
  now_iso :: string

definition epoch_seconds :: "clock \<Rightarrow> nat" where
  "epoch_seconds t = now_ms t div 1000"

section \<open>Credential verification\<close>

record AuthResult =
  valid :: bool
  userId :: "string option"
  email :: "string option"
  role :: "string option"
  error :: "string option"

text \<open>
  What the identity provider's \<open>auth.getUser(token)\<close> answers: it throws, or it returns
  a user (id, email, role) and an error message, either of which may be missing.
\<close>

datatype provider_reply =
    ProviderThrows string
  | ProviderReply "(string \<times> string option \<times> string option) option" "string option"

definition auth_failure :: "string \<Rightarrow> AuthResult" where
  "auth_failure msg =
     \<lparr>valid = False, userId = None, email = None, role = None, error = Some msg\<rparr>"

definition verifySupabaseJWT :: "(string \<Rightarrow> provider_reply) \<Rightarrow> string \<Rightarrow> AuthResult" where
  "verifySupabaseJWT getUser authHeader =
     (if authHeader = [] \<or> \<not> prefix ''Bearer '' authHeader
      then auth_failure ''Missing or invalid Authorization header''
      else
        (case getUser (drop 7 authHeader) of
           ProviderThrows msg \<Rightarrow> auth_failure msg
         | ProviderReply user err \<Rightarrow>
             (case (err, user) of
                (Some m, _) \<Rightarrow> auth_failure (if m = [] then ''Invalid token'' else m)
              | (None, None) \<Rightarrow> auth_failure ''Invalid token''
              | (None, Some (uid, mail, rl)) \<Rightarrow>
                  \<lparr>valid = True, userId = Some uid, email = mail,
                   role = Some (case rl of None \<Rightarrow> ''authenticated''
                                | Some r \<Rightarrow> if r = [] then ''authenticated'' else r),
                   error = None\<rparr>)))"

section \<open>Internal token\<close>

text \<open>
  A signed token, symbolically: the protected header's algorithm, the payload, and the
  key under which the signature was computed. The compact text of a token is what the
  signing library produces; it is a parameter \<open>serialise\<close> of the minting function.
\<close>

record jws =
  alg :: string
  payload :: jsval
  signing_key :: string

text \<open>
  Modelled from the spec: the \<open>sign\<close> step of the signing library, which is not part of
  the repository. Signing fails only on misconfiguration, a missing key; otherwise it
  gives the compact text of the token with the given protected header and payload, signed
  under the key.
\<close>

definition sign :: "(jws \<Rightarrow> string) \<Rightarrow> string \<Rightarrow> jsval \<Rightarrow> string \<Rightarrow> js_exn + string" where
  "sign serialise header_alg claims secret =
     (if secret = [] then Inl (JsError ''Key length is zero'')
      else Inr (serialise \<lparr>alg = header_alg, payload = claims, signing_key = secret\<rparr>))"

text \<open>
  The token builder reads the clock where it is asked for a time: once in
  \<open>setIssuedAt()\<close> and once more in \<open>setExpirationTime("60s")\<close>. These are the two
  readings of one mint, in the order in which the source's chain of calls takes them.
\<close>

record mint_clock =
  at_setIssuedAt :: clock
  at_setExpirationTime :: clock

text \<open>
  \<open>createInternalJWT\<close>: the payload object of the source, then \<open>iat\<close>, \<open>iss\<close> and
  \<open>exp\<close> as the builder's \<open>setIssuedAt()\<close>, \<open>setIssuer\<close> and
  \<open>setExpirationTime("60s")\<close> add them: \<open>iat\<close> is the first reading of the clock in
  epoch seconds, \<open>exp\<close> is the second reading in epoch seconds plus the 60 seconds of
  the span. The protected header names HS256 and the key is the configured secret.
\<close>

definition createInternalJWT ::
  "(jws \<Rightarrow> string) \<Rightarrow> env \<Rightarrow> mint_clock \<Rightarrow> jsval \<Rightarrow> jsval \<Rightarrow> jsval \<Rightarrow> js_exn + string" where
  "createInternalJWT serialise e mt uid mail rl =
     (let secret = INTERNAL_JWT_SECRET e;
          claims = JObj
            [(''sub'', uid),
             (''email'', mail),
             (''roles'', JArr [rl]),
             (''aud'', JStr INTERNAL_JWT_AUDIENCE),
             (''iat'', JNum (of_nat (epoch_seconds (at_setIssuedAt mt)))),
             (''iss'', JStr INTERNAL_JWT_ISSUER),
             (''exp'', JNum (of_nat (epoch_seconds (at_setExpirationTime mt) +
                                      INTERNAL_JWT_TTL_SECONDS)))]
      in sign serialise ''HS256'' claims secret)"

section \<open>HTTP responses and the effects of a handler\<close>

record response =
  status :: nat
  headers :: "(string \<times> string) list"
  body :: jsval

text \<open>\<open>c.json(body, status)\<close> with the headers set on the context so far.\<close>

definition c_json :: "(string \<times> string) list \<Rightarrow> jsval \<Rightarrow> nat \<Rightarrow> response" where
  "c_json hs b st = \<lparr>status = st, headers = hs, body = b\<rparr>"

text \<open>
  What a handler does to the outside while it runs, in order: it asks for the bearer
  credential to be verified, it mints an internal token, it fetches an upstream URL with a
  token, it hands a session event to the recorder without awaiting it.
\<close>

datatype effect =
    CredentialCheck string
  | TokenMint
  | UpstreamFetch string string
  | SessionEvent string jsval string jsval

text \<open>
  The outcome of one \<open>fetch\<close>: a network-level exception, or a response with its status,
  status text and the result of \<open>res.json()\<close> (\<open>None\<close> when the body is not JSON and
  parsing throws).
\<close>

datatype fetch_result =
    FetchThrows string
  | FetchResponse nat string "jsval option"

definition res_ok :: "nat \<Rightarrow> bool" where
  "res_ok st = (200 \<le> st \<and> st \<le> 299)"

section \<open>Legacy generic proxy\<close>

definition path_allowed :: "string \<Rightarrow> bool" where
  "path_allowed path = list_ex (\<lambda>p. path = p \<or> prefix (p @ ''/'') path) ALLOWED_PATHS"

definition string_list_js :: "string list \<Rightarrow> jsval" where
  "string_list_js xs = JArr (map JStr xs)"

text \<open>
  \<open>c.json(body, status)\<close> builds a \<open>Response\<close> with a body, which the runtime
  refuses for a status outside 200 to 599 (a \<open>RangeError\<close>, 101 apart) and for a
  null-body status (a \<open>TypeError\<close>); the messages are the runtime's.
\<close>

definition null_body_status :: "nat \<Rightarrow> bool" where
  "null_body_status st \<longleftrightarrow> st \<in> {101, 204, 205, 304}"

definition body_allowed :: "nat \<Rightarrow> bool" where
  "body_allowed st \<longleftrightarrow> 200 \<le> st \<and> st \<le> 599 \<and> \<not> null_body_status st"

definition response_error :: "nat \<Rightarrow> string" where
  "response_error st =
     (if null_body_status st then ''Response with null body status cannot have body''
      else ''The status provided ('' @ show_nat st @
           '') is not equal to 101 and outside the range [200, 599]'')"

text \<open>
  \<open>GET /metrics-proxy-jwt/proxy\<close>. \<open>q\<close> is the \<open>path\<close> query parameter and \<open>hdr\<close> the
  \<open>Authorization\<close> header, each possibly absent; \<open>mt\<close> holds the clock readings of the
  mint and \<open>t\<close> the one of the response's timestamp. The result is the response and the
  effects performed, in order. An upstream status that is relayed is passed to
  \<open>c.json\<close> inside the \<open>try\<close>; where that throws, the \<open>catch\<close> answers 500.
\<close>

definition route_proxy ::
  "(jws \<Rightarrow> string) \<Rightarrow> env \<Rightarrow> (string \<Rightarrow> provider_reply) \<Rightarrow> (string \<Rightarrow> string \<Rightarrow> fetch_result) \<Rightarrow>
   mint_clock \<Rightarrow> clock \<Rightarrow> string option \<Rightarrow> string option \<Rightarrow> response \<times> effect list" where
  "route_proxy serialise e getUser fetch mt t q hdr =
     (let path = (case q of Some p \<Rightarrow> p | None \<Rightarrow> [])
      in if path = [] \<or> \<not> path_allowed path
         then (c_json []
                 (JObj [(''error'', JStr ''Invalid path''),
                        (''allowed'', string_list_js ALLOWED_PATHS),
                        (''received'', JStr path)]) 400, [])
         else
           (let authHeader = (case hdr of Some h \<Rightarrow> h | None \<Rightarrow> []);
                authResult = verifySupabaseJWT getUser authHeader
            in if \<not> valid authResult
               then (c_json []
                       (JObj [(''error'', JStr ''Unauthorized''),
                              (''message'', js_of_opt (error authResult))]) 401,
                     [CredentialCheck authHeader])
               else if VPS_METRICS_ENDPOINT e = []
               then (c_json [] (JObj [(''error'', JStr ''VPS endpoint not configured'')]) 503,
                     [CredentialCheck authHeader])
               else
                 (case createInternalJWT serialise e mt (js_of_opt (userId authResult))
                         (js_of_opt (email authResult)) (js_of_opt (role authResult)) of
                    Inl (JsError m) \<Rightarrow>
                      (c_json [] (JObj [(''error'', JStr ''Proxy error''), (''message'', JStr m)]) 500,
                       [CredentialCheck authHeader, TokenMint])
                  | Inr internalJWT \<Rightarrow>
                      (let vpsUrl = VPS_METRICS_ENDPOINT e @ path;
                           effs = [CredentialCheck authHeader, TokenMint,
                                   UpstreamFetch vpsUrl internalJWT]
                       in case fetch vpsUrl internalJWT of
                            FetchThrows m \<Rightarrow>
                              (c_json [] (JObj [(''error'', JStr ''Proxy error''),
                                                (''message'', JStr m)]) 500, effs)
                          | FetchResponse st txt parsed \<Rightarrow>
                              if \<not> res_ok st
                              then (if body_allowed st
                                    then c_json []
                                           (JObj [(''error'', JStr ''VPS request failed''),
                                                  (''status'', JNum (of_nat st)),
                                                  (''statusText'', JStr txt)]) st
                                    else c_json []
                                           (JObj [(''error'', JStr ''Proxy error''),
                                                  (''message'', JStr (response_error st))]) 500,
                                    effs)
                              else
                                (case parsed of
                                   None \<Rightarrow>
                                     (c_json [] (JObj [(''error'', JStr ''Proxy error''),
                                                       (''message'', JStr ''Unexpected token in JSON'')]) 500,
                                      effs)
                                 | Some data \<Rightarrow>
                                     (c_json []
                                        (JObj (AList.update ''_proxy''
                                           (JObj [(''source'', JStr ''vps''),
                                                  (''auth'', JStr ''jwt''),
                                                  (''user'', js_of_opt (email authResult)),
                                                  (''timestamp'', JStr (now_iso t)),
                                                  (''path'', JStr path)])
                                           (js_spread data))) 200, effs))))))"

section \<open>Endpoint health monitor\<close>

record EndpointHealthEntry =
  endpoint :: string
  lastSuccess :: "string option"
  lastFailure :: "string option"
  successCount :: nat
  failureCount :: nat
  avgLatencyMs :: real
  latencies :: "real list"

text \<open>
  The module-level \<open>Map\<close>, in insertion order: \<open>get\<close> is \<open>map_of\<close>, and \<open>set\<close> on a
  new key appends while an entry already there is changed in place. Latencies, their sums
  and their means are kept as exact numbers.
\<close>

type_synonym health_map = "(string \<times> EndpointHealthEntry) list"

definition initEndpointHealth :: "string \<Rightarrow> EndpointHealthEntry" where
  "initEndpointHealth ep =
     \<lparr>endpoint = ep, lastSuccess = None, lastFailure = None, successCount = 0,
      failureCount = 0, avgLatencyMs = 0, latencies = []\<rparr>"

definition recordEndpointResult ::
  "clock \<Rightarrow> string \<Rightarrow> bool \<Rightarrow> real \<Rightarrow> health_map \<Rightarrow> health_map" where
  "recordEndpointResult t ep success latencyMs healthState =
     (let entry = (case map_of healthState ep of
                     Some en \<Rightarrow> en
                   | None \<Rightarrow> initEndpointHealth ep);
          counted =
            (if success
             then entry\<lparr>lastSuccess := Some (now_iso t), successCount := successCount entry + 1\<rparr>
             else entry\<lparr>lastFailure := Some (now_iso t), failureCount := failureCount entry + 1\<rparr>);
          pushed = latencies counted @ [latencyMs];
          window = (if length pushed > HEALTH_WINDOW_SIZE then tl pushed else pushed)
      in AList.update ep
           (counted\<lparr>latencies := window,
                    avgLatencyMs := foldl (+) 0 window / of_nat (length window)\<rparr>)
           healthState)"

datatype health_status = healthy | degraded | down

record endpoint_health =
  ep_status :: health_status
  ep_lastSuccess :: "string option"
  ep_lastFailure :: "string option"
  ep_successRate :: int
  ep_avgLatencyMs :: int

record HealthSnapshot =
  vpsReachable :: bool
  totalEndpoints :: nat
  healthyEndpoints :: nat
  degradedEndpoints :: nat
  avgOverallLatencyMs :: int
  endpoints :: "(string \<times> endpoint_health) list"
  lastChecked :: string

text \<open>\<open>Math.round\<close>: the nearest integer, a half going up.\<close>

definition js_round :: "real \<Rightarrow> int" where
  "js_round x = \<lfloor>x + 1 / 2\<rfloor>"

text \<open>
  The two locals \<open>successRate\<close> and \<open>status\<close> of the snapshot loop's body. The source
  computes in doubles. For a ratio of two counters the comparisons with 0.9 and 0.5 come
  out the same on the exact ratio as long as the counters stay below \<open>10^15\<close>, and the
  status is taken from the exact ratio.
\<close>

definition successRate :: "EndpointHealthEntry \<Rightarrow> real" where
  "successRate entry =
     (let total = successCount entry + failureCount entry
      in if total > 0 then of_nat (successCount entry) / of_nat total else 0)"

definition status_of :: "real \<Rightarrow> health_status" where
  "status_of rate = (if rate \<ge> 9 / 10 then healthy else if rate \<ge> 1 / 2 then degraded else down)"

text \<open>
  The reported percentage \<open>Math.round(successRate * 100)\<close> does depend on the rounding
  of doubles: the division rounds, and the product rounds again (23 successes in 40 give
  57, where the exact product 57.5 would round to 58). It is computed as the source
  computes it. A nonnegative double is kept as a significand and a binary shift, standing
  for \<open>significand / 2 ^ shift\<close>.
\<close>

record binary64 =
  significand :: nat
  shift :: nat

definition double_value :: "binary64 \<Rightarrow> real" where
  "double_value d = of_nat (significand d) / 2 ^ shift d"

text \<open>The integer nearest to \<open>a / b\<close>, a tie going to the even one.\<close>

definition nearest_even :: "nat \<Rightarrow> nat \<Rightarrow> nat" where
  "nearest_even a b =
     (let d = a div b; r = a mod b
      in if 2 * r < b then d else if b < 2 * r then d + 1 else if even d then d else d + 1)"

text \<open>The least shift from \<open>k\<close> on that brings \<open>p / q\<close> up to \<open>2 ^ 52\<close>.\<close>

function find_shift :: "nat \<Rightarrow> nat \<Rightarrow> nat \<Rightarrow> nat" where
  "find_shift p q k = (if p = 0 \<or> 2 ^ 52 * q \<le> p * 2 ^ k then k else find_shift p q (k + 1))"
  by pat_completeness auto
termination
proof (relation "measure (\<lambda>(p, q, k). 2 ^ 52 * q - p * 2 ^ k)")
  show "wf (measure (\<lambda>(p, q, k). 2 ^ 52 * q - p * 2 ^ k))" by simp
next
  fix p q k :: nat
  assume a: "\<not> (p = 0 \<or> 2 ^ 52 * q \<le> p * 2 ^ k)"
  then have 1: "p * 2 ^ k < p * 2 ^ (k + 1)" by simp
  from a have 2: "p * 2 ^ k < 2 ^ 52 * q" by simp
  from 1 2 have "2 ^ 52 * q - p * 2 ^ (k + 1) < 2 ^ 52 * q - p * 2 ^ k"
    by (rule diff_less_mono2)
  then show "((p, q, k + 1), (p, q, k)) \<in> measure (\<lambda>(p, q, k). 2 ^ 52 * q - p * 2 ^ k)"
    by (simp only: in_measure prod.case)
qed

declare find_shift.simps [simp del]

text \<open>
  The double nearest to the quotient \<open>p / q\<close> of two natural numbers, the result of the
  division \<open>p / q\<close> of the source (round to nearest, ties to even, with a significand of
  53 bits), for a quotient below \<open>2 ^ 53\<close> that is no subnormal; and the product of a
  double with a natural number, rounded the same way.
\<close>

definition double_of_quotient :: "nat \<Rightarrow> nat \<Rightarrow> binary64" where
  "double_of_quotient p q =
     (if p = 0 then \<lparr>significand = 0, shift = 0\<rparr>
      else (let k = find_shift p q 0
            in \<lparr>significand = nearest_even (p * 2 ^ k) q, shift = k\<rparr>))"

definition double_times :: "binary64 \<Rightarrow> nat \<Rightarrow> binary64" where
  "double_times d c = double_of_quotient (significand d * c) (2 ^ shift d)"

text \<open>
  \<open>Math.round(successRate * 100)\<close> for the counters of an entry, with
  \<open>successRate = total > 0 ? successCount / total : 0\<close>.
\<close>

definition successPercent :: "nat \<Rightarrow> nat \<Rightarrow> int" where
  "successPercent successes failures =
     (let total = successes + failures;
          rate = (if total > 0 then double_of_quotient successes total
                  else \<lparr>significand = 0, shift = 0\<rparr>)
      in js_round (double_value (double_times rate 100)))"

text \<open>The variables that the loop of \<open>getHealthSnapshot\<close> updates.\<close>

record snapshot_vars =
  v_endpoints :: "(string \<times> endpoint_health) list"
  v_totalLatency :: real
  v_healthyCount :: nat
  v_degradedCount :: nat
  v_totalEndpoints :: nat

fun snapshot_loop :: "health_map \<Rightarrow> snapshot_vars \<Rightarrow> snapshot_vars" where
  "snapshot_loop [] v = v"
| "snapshot_loop ((ep, entry) # rest) v =
     (let st = status_of (successRate entry)
      in snapshot_loop rest
           \<lparr>v_endpoints = AList.update ep
              \<lparr>ep_status = st,
               ep_lastSuccess = lastSuccess entry,
               ep_lastFailure = lastFailure entry,
               ep_successRate = successPercent (successCount entry) (failureCount entry),
               ep_avgLatencyMs = js_round (avgLatencyMs entry)\<rparr> (v_endpoints v),
            v_totalLatency = v_totalLatency v + avgLatencyMs entry,
            v_healthyCount = (if st = healthy then v_healthyCount v + 1 else v_healthyCount v),
            v_degradedCount =
              (if st = healthy then v_degradedCount v
               else if st = degraded then v_degradedCount v + 1 else v_degradedCount v),
            v_totalEndpoints = v_totalEndpoints v + 1\<rparr>)"

definition getHealthSnapshot :: "clock \<Rightarrow> health_map \<Rightarrow> HealthSnapshot" where
  "getHealthSnapshot t healthState =
     (let v = snapshot_loop healthState
                \<lparr>v_endpoints = [], v_totalLatency = 0, v_healthyCount = 0,
                 v_degradedCount = 0, v_totalEndpoints = 0\<rparr>
      in \<lparr>vpsReachable = (v_healthyCount v > 0),
          totalEndpoints = v_totalEndpoints v,
          healthyEndpoints = v_healthyCount v,
          degradedEndpoints = v_degradedCount v,
          avgOverallLatencyMs =
            (if v_totalEndpoints v > 0
             then js_round (v_totalLatency v / of_nat (v_totalEndpoints v)) else 0),
          endpoints = v_endpoints v,
          lastChecked = now_iso t\<rparr>)"

text \<open>
  One completed fan-out call as the monitor sees it, and the state of the map after a
  history of such observations, recorded in order on the empty map of a cold start.
\<close>

record observation =
  obs_at :: clock
  obs_endpoint :: string
  obs_success :: bool
  obs_latency :: real

definition record_obs :: "observation \<Rightarrow> health_map \<Rightarrow> health_map" where
  "record_obs ob = recordEndpointResult (obs_at ob) (obs_endpoint ob) (obs_success ob) (obs_latency ob)"

definition record_all :: "observation list \<Rightarrow> health_map" where
  "record_all obs = fold record_obs obs []"

text \<open>
  The observations of one endpoint within a history, what the entry of an endpoint holds
  after such observations, and the report the snapshot loop builds from an entry.
\<close>

definition observed :: "string \<Rightarrow> observation list \<Rightarrow> observation list" where
  "observed ep obs = filter (\<lambda>ob. obs_endpoint ob = ep) obs"

definition entry_matches :: "string \<Rightarrow> observation list \<Rightarrow> EndpointHealthEntry \<Rightarrow> bool" where
  "entry_matches ep mine en \<longleftrightarrow>
     endpoint en = ep \<and>
     successCount en = length (filter obs_success mine) \<and>
     failureCount en = length (filter (\<lambda>ob. \<not> obs_success ob) mine) \<and>
     latencies en = drop (length mine - HEALTH_WINDOW_SIZE) (map obs_latency mine) \<and>
     avgLatencyMs en = sum_list (latencies en) / of_nat (length (latencies en))"

definition report :: "EndpointHealthEntry \<Rightarrow> endpoint_health" where
  "report entry =
     \<lparr>ep_status = status_of (successRate entry),
      ep_lastSuccess = lastSuccess entry,
      ep_lastFailure = lastFailure entry,
      ep_successRate = successPercent (successCount entry) (failureCount entry),
      ep_avgLatencyMs = js_round (avgLatencyMs entry)\<rparr>"

text \<open>Concrete histories, for evaluation.\<close>

definition demo_clock :: clock where
  "demo_clock = \<lparr>now_ms = 1767225600000, now_iso = ''2026-01-01T00:00:00.000Z''\<rparr>"


definition demo_pair :: "observation list" where
  "demo_pair =
     [\<lparr>obs_at = demo_clock, obs_endpoint = ''/trades/live'', obs_success = True, obs_latency = 10\<rparr>,
      \<lparr>obs_at = demo_clock, obs_endpoint = ''/trades/live'', obs_success = False, obs_latency = 21\<rparr>]"

definition demo_report :: endpoint_health where
  "demo_report =
     \<lparr>ep_status = degraded, ep_lastSuccess = Some (now_iso demo_clock),
      ep_lastFailure = Some (now_iso demo_clock), ep_successRate = 50, ep_avgLatencyMs = 16\<rparr>"

section \<open>Internal gatekeeper\<close>

text \<open>
  The validator service behind the reverse proxy's \<open>auth_request\<close>. The token library
  is outside the repository; \<open>jwt_decode\<close> models its \<open>decode\<close> on a token as the
  library reads it: \<open>parse\<close> gives the reading of the compact text (\<open>None\<close> when the
  text cannot be decoded), with the algorithm of the protected header, the key under which
  the signature verifies, and the registered claims.
\<close>

datatype aud_claim = AudString string | AudList "string list"

record token_view =
  tv_alg :: string
  tv_key :: string
  tv_iat :: "int option"
  tv_nbf :: "int option"
  tv_exp :: "int option"
  tv_iss :: "string option"
  tv_aud :: "aud_claim option"
  tv_sub :: "string option"
  tv_email :: "string option"

text \<open>
  The exceptions of the library that \<open>validate_jwt\<close> tells apart; every other one is an
  \<open>InvalidTokenError\<close> with its message.
\<close>

datatype jwt_error =
    ExpiredSignatureError
  | InvalidIssuerError
  | InvalidAudienceError
  | InvalidTokenError string

definition EXPECTED_ISSUER :: string where
  "EXPECTED_ISSUER = ''supabase-metrics-proxy''"

definition EXPECTED_AUDIENCE :: string where
  "EXPECTED_AUDIENCE = ''vps-metrics-api''"

definition aud_values :: "aud_claim \<Rightarrow> string list" where
  "aud_values a = (case a of AudString s \<Rightarrow> [s] | AudList xs \<Rightarrow> xs)"

definition aud_empty :: "aud_claim \<Rightarrow> bool" where
  "aud_empty a = (case a of AudString s \<Rightarrow> s = [] | AudList xs \<Rightarrow> xs = [])"

text \<open>
  \<open>jwt.decode(token, secret, algorithms, issuer, audience)\<close>: the algorithm and the
  signature first, then the claims in the library's order: issued-at and not-before,
  expiry, issuer, audience. \<open>now\<close> is the validator's clock in epoch seconds.
\<close>

definition jwt_decode ::
  "(string \<Rightarrow> token_view option) \<Rightarrow> real \<Rightarrow> string \<Rightarrow> string \<Rightarrow> string list \<Rightarrow> string \<Rightarrow> string
     \<Rightarrow> jwt_error + token_view" where
  "jwt_decode parse now token secret algorithms issuer audience =
     (case parse token of
        None \<Rightarrow> Inl (InvalidTokenError ''Not enough segments'')
      | Some v \<Rightarrow>
          if tv_alg v \<notin> set algorithms
          then Inl (InvalidTokenError ''The specified alg value is not allowed'')
          else if tv_key v \<noteq> secret
          then Inl (InvalidTokenError ''Signature verification failed'')
          else if (case tv_iat v of Some i \<Rightarrow> now < of_int i | None \<Rightarrow> False)
          then Inl (InvalidTokenError ''The token is not yet valid (iat)'')
          else if (case tv_nbf v of Some n \<Rightarrow> now < of_int n | None \<Rightarrow> False)
          then Inl (InvalidTokenError ''The token is not yet valid (nbf)'')
          else if (case tv_exp v of Some x \<Rightarrow> of_int x \<le> now | None \<Rightarrow> False)
          then Inl ExpiredSignatureError
          else
            (case tv_iss v of
               None \<Rightarrow> Inl (InvalidTokenError (''Token is missing the '' @ dquote @ ''iss'' @ dquote @ '' claim''))
             | Some i \<Rightarrow>
                 if i \<noteq> issuer then Inl InvalidIssuerError
                 else
                   (case tv_aud v of
                      None \<Rightarrow> Inl (InvalidTokenError (''Token is missing the '' @ dquote @ ''aud'' @ dquote @ '' claim''))
                    | Some a \<Rightarrow>
                        if aud_empty a
                        then Inl (InvalidTokenError (''Token is missing the '' @ dquote @ ''aud'' @ dquote @ '' claim''))
                        else if audience \<notin> set (aud_values a) then Inl InvalidAudienceError
                        else Inr v)))"

text \<open>\<open>authorization.replace("Bearer ", "")\<close>: every occurrence is removed.\<close>

fun remove_bearer :: "nat \<Rightarrow> string \<Rightarrow> string" where
  "remove_bearer k [] = []"
| "remove_bearer (Suc k) (c # cs) = remove_bearer k cs"
| "remove_bearer 0 (c # cs) =
     (if prefix ''Bearer '' (c # cs) then remove_bearer 6 cs else c # remove_bearer 0 cs)"

text \<open>\<open>raise HTTPException(status_code=401, detail=...)\<close> as the response it becomes.\<close>

definition http_401 :: "string \<Rightarrow> response" where
  "http_401 detail = \<lparr>status = 401, headers = [], body = JObj [(''detail'', JStr detail)]\<rparr>"

text \<open>
  \<open>GET /validate\<close>. \<open>secret_file\<close> is what \<open>get_secret\<close> reads, the stripped content of
  the secret file, and \<open>None\<close> when the file is missing, in which case \<open>get_secret\<close>
  raises and the framework answers 500.
\<close>

definition validate_jwt ::
  "(string \<Rightarrow> token_view option) \<Rightarrow> string option \<Rightarrow> real \<Rightarrow> string option \<Rightarrow> response" where
  "validate_jwt parse secret_file now authorization =
     (case authorization of
        None \<Rightarrow> http_401 ''Missing Authorization header''
      | Some a \<Rightarrow>
          if a = [] then http_401 ''Missing Authorization header''
          else if \<not> prefix ''Bearer '' a then http_401 ''Invalid Authorization format''
          else
            (case secret_file of
               None \<Rightarrow> \<lparr>status = 500, headers = [], body = JStr ''Internal Server Error''\<rparr>
             | Some secret \<Rightarrow>
                 (case jwt_decode parse now (remove_bearer 0 a) secret [''HS256'']
                         EXPECTED_ISSUER EXPECTED_AUDIENCE of
                    Inr v \<Rightarrow>
                      \<lparr>status = 200,
                       headers =
                         [(''X-Auth-User-Id'', case tv_sub v of Some s \<Rightarrow> s | None \<Rightarrow> []),
                          (''X-Auth-User-Email'', case tv_email v of Some s \<Rightarrow> s | None \<Rightarrow> [])],
                       body = JObj [(''valid'', JBool True),
                                    (''sub'', case tv_sub v of Some s \<Rightarrow> JStr s | None \<Rightarrow> JNull),
                                    (''email'', case tv_email v of Some s \<Rightarrow> JStr s | None \<Rightarrow> JNull)]\<rparr>
                  | Inl ExpiredSignatureError \<Rightarrow> http_401 ''Token expired''
                  | Inl InvalidIssuerError \<Rightarrow> http_401 ''Invalid issuer''
                  | Inl InvalidAudienceError \<Rightarrow> http_401 ''Invalid audience''
                  | Inl (InvalidTokenError m) \<Rightarrow> http_401 (''Invalid token: '' @ m))))"

text \<open>
  The reverse proxy's protected location: the request is passed to the metrics service
  only when the validation subrequest answers 2xx, with the two attribution headers taken
  from the validator's response; 401 and 403 are returned as they are, anything else is an
  error.
\<close>

datatype gate_decision = Forward "(string \<times> string) list" | Reject nat

definition upstream_header :: "response \<Rightarrow> string \<Rightarrow> string" where
  "upstream_header r k = (case map_of (headers r) k of Some v \<Rightarrow> v | None \<Rightarrow> [])"

definition auth_request :: "response \<Rightarrow> gate_decision" where
  "auth_request r =
     (if 200 \<le> status r \<and> status r \<le> 299
      then Forward [(''X-Auth-User-Id'', upstream_header r ''X-Auth-User-Id''),
                    (''X-Auth-User-Email'', upstream_header r ''X-Auth-User-Email'')]
      else if status r = 401 \<or> status r = 403 then Reject (status r)
      else Reject 500)"

definition gatekeeper ::
  "(string \<Rightarrow> token_view option) \<Rightarrow> string option \<Rightarrow> real \<Rightarrow> string option \<Rightarrow> gate_decision" where
  "gatekeeper parse secret_file now authorization =
     auth_request (validate_jwt parse secret_file now authorization)"

text \<open>
  A token as the gatekeeper's checks see it: signed under the shared key with the expected
  algorithm, already valid, not expired, and carrying the expected issuer and audience.
\<close>

definition signature_ok :: "string \<Rightarrow> token_view \<Rightarrow> bool" where
  "signature_ok secret v \<longleftrightarrow> tv_alg v = ''HS256'' \<and> tv_key v = secret"

definition not_yet_valid :: "real \<Rightarrow> token_view \<Rightarrow> bool" where
  "not_yet_valid now v \<longleftrightarrow>
     (case tv_iat v of Some i \<Rightarrow> now < of_int i | None \<Rightarrow> False) \<or>
     (case tv_nbf v of Some n \<Rightarrow> now < of_int n | None \<Rightarrow> False)"

definition expired :: "real \<Rightarrow> token_view \<Rightarrow> bool" where
  "expired now v \<longleftrightarrow> (case tv_exp v of Some x \<Rightarrow> of_int x \<le> now | None \<Rightarrow> False)"

definition issuer_ok :: "token_view \<Rightarrow> bool" where
  "issuer_ok v \<longleftrightarrow> tv_iss v = Some EXPECTED_ISSUER"

definition audience_ok :: "token_view \<Rightarrow> bool" where
  "audience_ok v \<longleftrightarrow>
     (case tv_aud v of Some a \<Rightarrow> EXPECTED_AUDIENCE \<in> set (aud_values a) | None \<Rightarrow> False)"

definition detail_of :: "response \<Rightarrow> jsval" where
  "detail_of r = js_field (body r) ''detail''"

definition demo_env :: env where
  "demo_env = \<lparr>VPS_METRICS_ENDPOINT = ''https://metrics.example'', INTERNAL_JWT_SECRET = ''s3cret''\<rparr>"

definition demo_token :: token_view where
  "demo_token =
     \<lparr>tv_alg = ''HS256'', tv_key = ''s3cret'', tv_iat = Some 1767225600, tv_nbf = None,
      tv_exp = Some 1767225660, tv_iss = Some ''supabase-metrics-proxy'',
      tv_aud = Some (AudString ''orders-api''), tv_sub = Some ''u-1'', tv_email = Some ''a@b.c''\<rparr>"

definition demo_valid_token :: token_view where
  "demo_valid_token = demo_token\<lparr>tv_aud := Some (AudString ''vps-metrics-api'')\<rparr>"

definition demo_parse :: "string \<Rightarrow> token_view option" where
  "demo_parse s =
     (if s = ''e30.e30.sig'' then Some demo_token
      else if s = ''e30.e31.sig'' then Some demo_valid_token else None)"

section \<open>Aggregator\<close>

record EndpointResult =
  r_endpoint :: string
  r_data :: jsval
  r_success :: bool
  r_status :: "nat option"
  r_error :: "string option"
  r_latencyMs :: real

text \<open>
  What one fan-out call meets: the outcome of the fetch, the latency the call measures
  on the path it takes, the clock when the outcome is recorded, and when the call settles
  among the calls of its aggregation (a smaller number is earlier).
\<close>

record fetched =
  f_result :: fetch_result
  f_latencyMs :: real
  f_at :: clock
  f_settled :: nat

text \<open>
  The clock readings of one aggregation (those of the mint, \<open>evalTime\<close>, the snapshot's
  \<open>now\<close>, \<open>serverTime\<close>) and its measured total latency.
\<close>

record call_times =
  mint_at :: mint_clock
  eval_at :: clock
  snapshot_at :: clock
  server_at :: clock
  total_latency :: real

text \<open>
  The body of one element of \<open>fetchPromises\<close>: every path records the outcome in the
  health map exactly once. A body that is not JSON makes \<open>res.json()\<close> throw inside the
  \<open>try\<close>, so it ends in the \<open>catch\<close> like a network error.
\<close>

definition fetch_endpoint :: "fetched \<Rightarrow> string \<Rightarrow> health_map \<Rightarrow> EndpointResult \<times> health_map" where
  "fetch_endpoint f ep hs =
     (case f_result f of
        FetchThrows m \<Rightarrow>
          (\<lparr>r_endpoint = ep, r_data = JNull, r_success = False, r_status = None,
            r_error = Some m, r_latencyMs = f_latencyMs f\<rparr>,
           recordEndpointResult (f_at f) ep False (f_latencyMs f) hs)
      | FetchResponse st txt parsed \<Rightarrow>
          if res_ok st
          then (case parsed of
                  Some data \<Rightarrow>
                    (\<lparr>r_endpoint = ep, r_data = data, r_success = True, r_status = Some st,
                      r_error = None, r_latencyMs = f_latencyMs f\<rparr>,
                     recordEndpointResult (f_at f) ep True (f_latencyMs f) hs)
                | None \<Rightarrow>
                    (\<lparr>r_endpoint = ep, r_data = JNull, r_success = False, r_status = None,
                      r_error = Some ''SyntaxError: Unexpected token in JSON'',
                      r_latencyMs = f_latencyMs f\<rparr>,
                     recordEndpointResult (f_at f) ep False (f_latencyMs f) hs))
          else
            (\<lparr>r_endpoint = ep, r_data = JNull, r_success = False, r_status = Some st,
              r_error = None, r_latencyMs = f_latencyMs f\<rparr>,
             recordEndpointResult (f_at f) ep False (f_latencyMs f) hs))"

text \<open>
  The fan-out over the configured endpoints. \<open>Promise.all\<close> gives the results in the
  order of the list, whatever the order in which the calls settle; each call records its
  outcome in the health map when it settles, so the map is updated in settling order
  (calls that settle together, in list order).
\<close>

definition settle_order :: "(string \<Rightarrow> fetched) \<Rightarrow> string list \<Rightarrow> string list" where
  "settle_order fetch eps = sort_key (\<lambda>ep. f_settled (fetch ep)) eps"

definition fan_out :: "(string \<Rightarrow> fetched) \<Rightarrow> string list \<Rightarrow> health_map \<Rightarrow> EndpointResult list \<times> health_map" where
  "fan_out fetch eps hs =
     (map (\<lambda>ep. fst (fetch_endpoint (fetch ep) ep hs)) eps,
      fold (\<lambda>ep h. snd (fetch_endpoint (fetch ep) ep h)) (settle_order fetch eps) hs)"

text \<open>\<open>results.find((r) => r.endpoint === ep)?.data || {}\<close>\<close>

definition result_data :: "EndpointResult list \<Rightarrow> string \<Rightarrow> jsval" where
  "result_data results ep =
     (case find (\<lambda>r. r_endpoint r = ep) results of
        Some r \<Rightarrow> js_or (r_data r) (JObj [])
      | None \<Rightarrow> JObj [])"

text \<open>
  \<open>xs.filter((s) => s.state === tag)\<close> on the elements of an array: reading \<open>state\<close>
  of a \<open>null\<close> element throws.
\<close>

fun filter_by_state :: "string \<Rightarrow> jsval list \<Rightarrow> js_exn + jsval list" where
  "filter_by_state tag [] = Inr []"
| "filter_by_state tag (s # ss) =
     (case js_get s ''state'' of
        Inl e \<Rightarrow> Inl e
      | Inr v \<Rightarrow>
          (case filter_by_state tag ss of
             Inl e \<Rightarrow> Inl e
           | Inr kept \<Rightarrow> Inr (if v = JStr tag then s # kept else kept)))"

text \<open>
  \<open>v?.filter((s) => s.state === tag)?.length || 0\<close>: zero when \<open>v\<close> is \<open>null\<close> or
  \<open>undefined\<close>, a \<open>TypeError\<close> when \<open>v\<close> is anything but an array.
\<close>

definition count_by_state :: "jsval \<Rightarrow> string \<Rightarrow> js_exn + nat" where
  "count_by_state v tag =
     (case v of
        JUndefined \<Rightarrow> Inr 0
      | JNull \<Rightarrow> Inr 0
      | JArr xs \<Rightarrow> (case filter_by_state tag xs of Inl e \<Rightarrow> Inl e | Inr kept \<Rightarrow> Inr (length kept))
      | _ \<Rightarrow> Inl (JsError ''proving.strategies?.filter is not a function''))"

text \<open>\<open>v?.length || 0\<close>, reached only when \<open>v\<close> is an array, \<open>null\<close> or \<open>undefined\<close>.\<close>

definition length_or_zero :: "jsval \<Rightarrow> nat" where
  "length_or_zero v = (case v of JArr xs \<Rightarrow> length xs | _ \<Rightarrow> 0)"

text \<open>\<open>v?.slice(0, 5) || []\<close>: arrays and strings have \<open>slice\<close>.\<close>

definition slice5_or_empty :: "jsval \<Rightarrow> js_exn + jsval" where
  "slice5_or_empty v =
     (case v of
        JUndefined \<Rightarrow> Inr (JArr [])
      | JNull \<Rightarrow> Inr (JArr [])
      | JArr xs \<Rightarrow> Inr (JArr (take 5 xs))
      | JStr s \<Rightarrow> Inr (js_or (JStr (take 5 s)) (JArr []))
      | _ \<Rightarrow> Inl (JsError ''promotions.history?.slice is not a function''))"

text \<open>The callback of \<open>positions.map\<close>, for the element \<open>p\<close> at index \<open>i\<close>.\<close>

definition position_of :: "nat \<Rightarrow> jsval \<Rightarrow> js_exn + jsval" where
  "position_of i p =
     (case js_get p ''symbol'' of
        Inl e \<Rightarrow> Inl e
      | Inr symbol \<Rightarrow>
          Inr (JObj
            [(''id'', JStr (''p'' @ show_nat (i + 1))),
             (''symbol'', symbol),
             (''market'', JStr ''FUT''),
             (''size'', js_or (js_field p ''size'') (js_field p ''quantity'')),
             (''entryPrice'', js_or (js_field p ''entry_price'') (js_field p ''avg_price'')),
             (''currentPrice'', js_or (js_field p ''current_price'') (js_field p ''mark_price'')),
             (''pnl'', js_or (js_field p ''unrealized_pnl'') (js_field p ''pnl'')),
             (''openTime'', js_or (js_field p ''open_time'') (js_field p ''timestamp''))]))"

fun positions_from :: "nat \<Rightarrow> jsval list \<Rightarrow> js_exn + jsval list" where
  "positions_from i [] = Inr []"
| "positions_from i (p # ps) =
     (case position_of i p of
        Inl e \<Rightarrow> Inl e
      | Inr x \<Rightarrow> (case positions_from (i + 1) ps of Inl e \<Rightarrow> Inl e | Inr xs \<Rightarrow> Inr (x # xs)))"

text \<open>\<open>(trades.positions || []).map(...)\<close>\<close>

definition map_positions :: "jsval \<Rightarrow> js_exn + jsval" where
  "map_positions v =
     (case js_or v (JArr []) of
        JArr xs \<Rightarrow> (case positions_from 0 xs of Inl e \<Rightarrow> Inl e | Inr ps \<Rightarrow> Inr (JArr ps))
      | _ \<Rightarrow> Inl (JsError ''(trades.positions || []).map is not a function''))"

definition proxy_endpoint_entry :: "EndpointResult \<Rightarrow> jsval" where
  "proxy_endpoint_entry r =
     JObj [(''path'', JStr (r_endpoint r)),
           (''success'', JBool (r_success r)),
           (''status'', JNum (if r_success r then 200
                              else (case r_status r of Some st \<Rightarrow> of_nat st | None \<Rightarrow> 0))),
           (''latencyMs'', JNum (r_latencyMs r))]"

text \<open>
  The merge of \<open>fetchAndAggregateMetrics\<close>, from the extraction of the five data objects
  to the payload literal. It throws where the source does, in the source's order of
  evaluation.
\<close>

definition merge_results ::
  "call_times \<Rightarrow> AuthResult \<Rightarrow> EndpointResult list \<Rightarrow> HealthSnapshot \<Rightarrow> js_exn + jsval" where
  "merge_results tm authResult results healthSnapshot =
     (let broker = result_data results ''/brokers/status'';
          trades = result_data results ''/trades/live'';
          proving = result_data results ''/strategies/proving'';
          promotions = result_data results ''/strategies/promotions'';
          gatePressure = result_data results ''/metrics/gate-pressure'';
          evalTime = JStr (now_iso (eval_at tm));
          isConnected = (js_field broker ''connected'' = JBool True)
      in case count_by_state (js_field proving ''strategies'') ''active'' of
           Inl e \<Rightarrow> Inl e
         | Inr activeStrategies \<Rightarrow>
        (case count_by_state (js_field proving ''strategies'') ''queued'' of
           Inl e \<Rightarrow> Inl e
         | Inr queued \<Rightarrow>
        (case slice5_or_empty (js_field promotions ''history'') of
           Inl e \<Rightarrow> Inl e
         | Inr history \<Rightarrow>
        (case map_positions (js_field trades ''positions'') of
           Inl e \<Rightarrow> Inl e
         | Inr positions \<Rightarrow>
           Inr (JObj
             [(''systemVerdict'', JObj
                [(''state'', JStr (if isConnected then ''NOMINAL'' else ''DEGRADED'')),
                 (''reason'', JStr (if isConnected then ''All systems operational''
                                    else ''Broker connection issue detected'')),
                 (''timestamp'', evalTime)]),
              (''operatorRecommendation'', JObj
                [(''value'', JStr (if activeStrategies > 0 then ''MONITOR'' else ''INVESTIGATE'')),
                 (''details'', JStr (if activeStrategies > 0
                      then show_nat activeStrategies @ '' strategies active. System operating normally.''
                      else ''No active strategies. Check proving pipeline.'')),
                 (''computedAt'', evalTime)]),
              (''systemConfidence'', JObj
                [(''score'', JNum (if isConnected then 189 / 2 else 65)),
                 (''evaluatedAt'', evalTime)]),
              (''markets'', JObj
                [(''futures'', JObj
                   [(''id'', JStr ''FUT''),
                    (''connected'', JBool isConnected),
                    (''latencyMs'', js_or (js_field broker ''latency_ms'') (JNum 0)),
                    (''lastUpdate'', js_or (js_field broker ''timestamp_utc'') evalTime),
                    (''drift'', JNum (1 / 50)),
                    (''activeStrategies'', JNum (of_nat activeStrategies)),
                    (''lastSignal'', js_or (js_field proving ''last_signal'') JNull),
                    (''lastDenial'', js_or (js_field gatePressure ''last_denial'') JNull)]),
                 (''crypto'', JObj
                   [(''id'', JStr ''CRY''),
                    (''connected'', JBool False),
                    (''latencyMs'', JNum 0),
                    (''lastUpdate'', evalTime),
                    (''drift'', JNum 0),
                    (''activeStrategies'', JNum 0),
                    (''lastSignal'', JNull),
                    (''lastDenial'', JNull)])]),
              (''dataFreshness'', JObj
                [(''brokerStatus'', js_or (js_field broker ''timestamp_utc'') JNull),
                 (''trades'', js_or (js_field trades ''timestamp_utc'') JNull),
                 (''strategies'', js_or (js_field proving ''timestamp_utc'') JNull),
                 (''gatePressure'', js_or (js_field gatePressure ''timestamp_utc'') JNull)]),
              (''strategyActivity'', JObj
                [(''provingPipeline'', JObj
                   [(''total'', JNum (of_nat (length_or_zero (js_field proving ''strategies'')))),
                    (''active'', JNum (of_nat activeStrategies)),
                    (''queued'', JNum (of_nat queued)),
                    (''health'', js_or (js_field proving ''pipeline_health'') (JNum 100))]),
                 (''promotions'', JObj
                   [(''recentCount'', js_or (js_field promotions ''recent_count'') (JNum 0)),
                    (''lastPromotion'', js_or (js_field promotions ''last_promotion'') JNull),
                    (''history'', history)]),
                 (''gatePressure'', JObj
                   [(''current'', js_or (js_field gatePressure ''current_pressure'') (JNum 0)),
                    (''pendingAction'', js_or (js_field gatePressure ''pending_action'') (JStr ''None'')),
                    (''recentDenials'', js_or (js_field gatePressure ''recent_denials'') (JArr []))])]),
              (''positions'', positions),
              (''sessionTimeline'', JArr
                [JObj [(''at'', evalTime),
                       (''market'', JStr ''FUT''),
                       (''event'', JStr ''Dashboard data fetched via JWT proxy''),
                       (''actor'', js_of_opt (email authResult))]]),
              (''timestamps'', JObj
                [(''lastUpdatedMetrics'', evalTime),
                 (''serverTime'', JStr (now_iso (server_at tm)))]),
              (''_health'', JObj
                [(''vpsReachable'', JBool (vpsReachable healthSnapshot)),
                 (''totalEndpoints'', JNum (of_nat (totalEndpoints healthSnapshot))),
                 (''healthyEndpoints'', JNum (of_nat (healthyEndpoints healthSnapshot))),
                 (''degradedEndpoints'', JNum (of_nat (degradedEndpoints healthSnapshot))),
                 (''avgLatencyMs'', JNum (of_int (avgOverallLatencyMs healthSnapshot))),
                 (''lastChecked'', JStr (lastChecked healthSnapshot))]),
              (''riskCoupling'', JNull),
              (''_roles'', JNull),
              (''_proxy'', JObj
                [(''source'', JStr ''vps-live''),
                 (''auth'', JStr ''jwt''),
                 (''user'', js_of_opt (email authResult)),
                 (''userId'', js_of_opt (userId authResult)),
                 (''timestamp'', evalTime),
                 (''endpoints'', JArr (map proxy_endpoint_entry results)),
                 (''totalLatencyMs'', JNum (total_latency tm))])])))))"

text \<open>The effects of the fan-out: one fetch per configured endpoint.\<close>

definition fan_out_effects :: "env \<Rightarrow> string \<Rightarrow> effect list" where
  "fan_out_effects e internalJWT =
     map (\<lambda>ep. UpstreamFetch (VPS_METRICS_ENDPOINT e @ ep) internalJWT) AGGREGATE_ENDPOINTS"

record aggregation =
  payload_of :: jsval
  endpointResults :: "EndpointResult list"
  totalLatencyMs :: real

text \<open>
  \<open>fetchAndAggregateMetrics\<close>. The result is what the function returns or the exception
  it throws, the health map as the call leaves it, and the effects performed. An exception
  of the merge is thrown after the fan-out has been recorded.
\<close>

definition fetchAndAggregateMetrics ::
  "(jws \<Rightarrow> string) \<Rightarrow> env \<Rightarrow> (string \<Rightarrow> string \<Rightarrow> fetched) \<Rightarrow> call_times \<Rightarrow> health_map \<Rightarrow>
   AuthResult \<Rightarrow> string \<Rightarrow> (js_exn + aggregation) \<times> health_map \<times> effect list" where
  "fetchAndAggregateMetrics serialise e fetch tm healthState authResult sessionId =
     (case createInternalJWT serialise e (mint_at tm) (js_of_opt (userId authResult))
             (js_of_opt (email authResult)) (js_of_opt (role authResult)) of
        Inl ex \<Rightarrow> (Inl ex, healthState, [TokenMint])
      | Inr internalJWT \<Rightarrow>
          (case fan_out (\<lambda>ep. fetch (VPS_METRICS_ENDPOINT e @ ep) internalJWT)
                  AGGREGATE_ENDPOINTS healthState of
             (results, healthState') \<Rightarrow>
               (case merge_results tm authResult results
                       (getHealthSnapshot (snapshot_at tm) healthState') of
                  Inl ex \<Rightarrow> (Inl ex, healthState', TokenMint # fan_out_effects e internalJWT)
                | Inr merged \<Rightarrow>
                    (Inr \<lparr>payload_of = merged, endpointResults = results,
                          totalLatencyMs = total_latency tm\<rparr>,
                     healthState',
                     TokenMint # fan_out_effects e internalJWT @
                       (if sessionId \<noteq> [] \<and> userId authResult \<noteq> None \<and> userId authResult \<noteq> Some []
                        then [SessionEvent sessionId (js_of_opt (userId authResult)) ''metrics_fetch''
                                (JObj [(''systemState'',
                                          js_field (js_field merged ''systemVerdict'') ''state''),
                                       (''endpointCount'', JNum (of_nat (length results))),
                                       (''successCount'',
                                          JNum (of_nat (length (filter r_success results)))),
                                       (''totalLatencyMs'', JNum (total_latency tm))])]
                        else [])))))"

section \<open>Routes of the edge function\<close>

text \<open>
  Only the headers that the handlers themselves set are modelled, not those the
  framework adds to every response.
\<close>

definition rate_limit_headers :: "clock \<Rightarrow> (string \<times> string) list" where
  "rate_limit_headers t =
     [(''X-RateLimit-Limit'', ''60''),
      (''X-RateLimit-Remaining'', ''59''),
      (''X-RateLimit-Reset'', show_nat (now_ms t div 1000 + 60)),
      (''X-API-Version'', API_VERSION)]"

text \<open>
  The middleware of \<open>/metrics-proxy-jwt/v1/*\<close>: it verifies the credential, and on
  success sets the advisory headers on the context before the handler \<open>next\<close> runs with
  the verified identity and the context's headers.
\<close>

definition v1_middleware ::
  "(string \<Rightarrow> provider_reply) \<Rightarrow> clock \<Rightarrow> string option \<Rightarrow> health_map \<Rightarrow>
   (AuthResult \<Rightarrow> (string \<times> string) list \<Rightarrow> response \<times> health_map \<times> effect list) \<Rightarrow>
   response \<times> health_map \<times> effect list" where
  "v1_middleware getUser t hdr healthState next =
     (let authHeader = (case hdr of Some h \<Rightarrow> h | None \<Rightarrow> []);
          authResult = verifySupabaseJWT getUser authHeader
      in if \<not> valid authResult
         then (c_json []
                 (JObj [(''error'', JStr ''Unauthorized''),
                        (''message'', js_of_opt (error authResult)),
                        (''hint'', JStr ''Provide a valid Supabase JWT in Authorization header'')]) 401,
               healthState, [CredentialCheck authHeader])
         else (case next authResult (rate_limit_headers t) of
                 (r, hs, effs) \<Rightarrow> (r, hs, CredentialCheck authHeader # effs)))"

text \<open>The handler of \<open>GET /metrics-proxy-jwt/v1/metrics/aggregate\<close>.\<close>

definition v1_aggregate_handler ::
  "(jws \<Rightarrow> string) \<Rightarrow> env \<Rightarrow> (string \<Rightarrow> string \<Rightarrow> fetched) \<Rightarrow> call_times \<Rightarrow> health_map \<Rightarrow>
   string option \<Rightarrow> AuthResult \<Rightarrow> (string \<times> string) list \<Rightarrow> response \<times> health_map \<times> effect list" where
  "v1_aggregate_handler serialise e fetch tm healthState session authResult ctx =
     (let sessionId = (case session of Some s \<Rightarrow> s | None \<Rightarrow> [])
      in if VPS_METRICS_ENDPOINT e = []
         then (c_json ctx (JObj [(''error'', JStr ''VPS endpoint not configured'')]) 503,
               healthState, [])
         else (case fetchAndAggregateMetrics serialise e fetch tm healthState authResult sessionId of
                 (Inr agg, hs, effs) \<Rightarrow> (c_json ctx (payload_of agg) 200, hs, effs)
               | (Inl (JsError m), hs, effs) \<Rightarrow>
                   (c_json ctx (JObj [(''error'', JStr ''Aggregation error''),
                                      (''message'', JStr m)]) 500, hs, effs)))"

definition route_v1_aggregate ::
  "(jws \<Rightarrow> string) \<Rightarrow> env \<Rightarrow> (string \<Rightarrow> provider_reply) \<Rightarrow> (string \<Rightarrow> string \<Rightarrow> fetched) \<Rightarrow>
   clock \<Rightarrow> call_times \<Rightarrow> health_map \<Rightarrow> string option \<Rightarrow> string option \<Rightarrow>
   response \<times> health_map \<times> effect list" where
  "route_v1_aggregate serialise e getUser fetch t tm healthState hdr session =
     v1_middleware getUser t hdr healthState
       (v1_aggregate_handler serialise e fetch tm healthState session)"

definition deprecation_headers :: "(string \<times> string) list" where
  "deprecation_headers =
     [(''Deprecation'', ''true''),
      (''Sunset'', ''2026-06-01''),
      (''Link'', ''</metrics-proxy-jwt/v1/metrics/aggregate>; rel='' @ dquote @ ''successor-version'' @ dquote)]"

text \<open>The legacy \<open>GET /metrics-proxy-jwt/dashboard\<close>.\<close>

definition route_dashboard ::
  "(jws \<Rightarrow> string) \<Rightarrow> env \<Rightarrow> (string \<Rightarrow> provider_reply) \<Rightarrow> (string \<Rightarrow> string \<Rightarrow> fetched) \<Rightarrow>
   call_times \<Rightarrow> health_map \<Rightarrow> string option \<Rightarrow> string option \<Rightarrow>
   response \<times> health_map \<times> effect list" where
  "route_dashboard serialise e getUser fetch tm healthState hdr session =
     (let authHeader = (case hdr of Some h \<Rightarrow> h | None \<Rightarrow> []);
          authResult = verifySupabaseJWT getUser authHeader
      in if \<not> valid authResult
         then (c_json []
                 (JObj [(''error'', JStr ''Unauthorized''),
                        (''message'', js_of_opt (error authResult))]) 401,
               healthState, [CredentialCheck authHeader])
         else if VPS_METRICS_ENDPOINT e = []
         then (c_json [] (JObj [(''error'', JStr ''VPS endpoint not configured'')]) 503,
               healthState, [CredentialCheck authHeader])
         else
           (let sessionId = (case session of Some s \<Rightarrow> s | None \<Rightarrow> [])
            in case fetchAndAggregateMetrics serialise e fetch tm healthState authResult sessionId of
                 (Inr agg, hs, effs) \<Rightarrow>
                   (c_json deprecation_headers (payload_of agg) 200, hs,
                    CredentialCheck authHeader # effs)
               | (Inl (JsError m), hs, effs) \<Rightarrow>
                   (c_json [] (JObj [(''error'', JStr ''Dashboard proxy error''),
                                     (''message'', JStr m)]) 500, hs,
                    CredentialCheck authHeader # effs)))"

section \<open>Notions used to state the properties of the aggregator and the routes\<close>

text \<open>
  A fan-out call has failed when the fetch threw, the status is not 2xx, or the body is
  not JSON.
\<close>

definition call_failed :: "fetched \<Rightarrow> bool" where
  "call_failed f =
     (case f_result f of
        FetchThrows m \<Rightarrow> True
      | FetchResponse st txt parsed \<Rightarrow> \<not> res_ok st \<or> parsed = None)"

text \<open>The value at a path of property names.\<close>

fun js_path :: "jsval \<Rightarrow> string list \<Rightarrow> jsval" where
  "js_path v [] = v"
| "js_path v (k # ks) = js_path (js_field v k) ks"

text \<open>The token that minting returns for a verified identity when the secret is set.\<close>

definition internal_token :: "(jws \<Rightarrow> string) \<Rightarrow> env \<Rightarrow> mint_clock \<Rightarrow> AuthResult \<Rightarrow> string" where
  "internal_token serialise e mt a =
     serialise
       \<lparr>alg = ''HS256'',
        payload = JObj
          [(''sub'', js_of_opt (userId a)),
           (''email'', js_of_opt (email a)),
           (''roles'', JArr [js_of_opt (role a)]),
           (''aud'', JStr INTERNAL_JWT_AUDIENCE),
           (''iat'', JNum (of_nat (epoch_seconds (at_setIssuedAt mt)))),
           (''iss'', JStr INTERNAL_JWT_ISSUER),
           (''exp'', JNum (of_nat (epoch_seconds (at_setExpirationTime mt) +
                                    INTERNAL_JWT_TTL_SECONDS)))],
        signing_key = INTERNAL_JWT_SECRET e\<rparr>"

text \<open>
  The shapes of an upstream body that the merge reads without throwing: \<open>strategies\<close>
  and \<open>positions\<close> absent or arrays without \<open>null\<close> elements, \<open>history\<close> absent, an
  array or a string. A fan-out call is absorbed when it failed or its body has such a
  shape.
\<close>

fun elements_ok :: "jsval \<Rightarrow> bool" where
  "elements_ok JUndefined = True"
| "elements_ok JNull = True"
| "elements_ok (JArr xs) = list_all (\<lambda>x. x \<noteq> JNull \<and> x \<noteq> JUndefined) xs"
| "elements_ok v = False"

fun sliceable :: "jsval \<Rightarrow> bool" where
  "sliceable JUndefined = True"
| "sliceable JNull = True"
| "sliceable (JArr xs) = True"
| "sliceable (JStr s) = True"
| "sliceable v = False"

definition mergeable :: "jsval \<Rightarrow> bool" where
  "mergeable d \<longleftrightarrow>
     elements_ok (js_field d ''strategies'') \<and>
     sliceable (js_field d ''history'') \<and>
     (\<not> truthy (js_field d ''positions'') \<or> elements_ok (js_field d ''positions''))"

definition absorbed :: "fetched \<Rightarrow> bool" where
  "absorbed f =
     (case f_result f of
        FetchThrows m \<Rightarrow> True
      | FetchResponse st txt parsed \<Rightarrow>
          (case parsed of None \<Rightarrow> True | Some d \<Rightarrow> \<not> res_ok st \<or> mergeable d))"

text \<open>The names of the advisory headers.\<close>

definition advisory_names :: "string list" where
  "advisory_names = [''X-RateLimit-Limit'', ''X-RateLimit-Remaining'', ''X-RateLimit-Reset'', ''X-API-Version'']"

text \<open>
  A concrete world for evaluation: an identity provider that accepts the credential, an
  upstream that answers every call, one that refuses every call, and the health map after
  nine aggregations against the answering upstream from a cold start.
\<close>

definition demo_getUser :: "string \<Rightarrow> provider_reply" where
  "demo_getUser tok = ProviderReply (Some (''u-1'', Some ''a@b.c'', None)) None"

definition demo_mint :: mint_clock where
  "demo_mint = \<lparr>at_setIssuedAt = demo_clock, at_setExpirationTime = demo_clock\<rparr>"

text \<open>A mint during which the clock passes from one second to the next.\<close>

definition demo_mint_late :: mint_clock where
  "demo_mint_late =
     \<lparr>at_setIssuedAt = \<lparr>now_ms = 999, now_iso = ''1970-01-01T00:00:00.999Z''\<rparr>,
      at_setExpirationTime = \<lparr>now_ms = 1000, now_iso = ''1970-01-01T00:00:01.000Z''\<rparr>\<rparr>"

definition demo_times :: call_times where
  "demo_times = \<lparr>mint_at = demo_mint, eval_at = demo_clock, snapshot_at = demo_clock,
                 server_at = demo_clock, total_latency = 40\<rparr>"

definition demo_fetch_ok :: "string \<Rightarrow> string \<Rightarrow> fetched" where
  "demo_fetch_ok url tok =
     \<lparr>f_result = FetchResponse 200 ''OK'' (Some (JObj [(''connected'', JBool True)])),
      f_latencyMs = 8, f_at = demo_clock, f_settled = 0\<rparr>"

definition demo_fetch_down :: "string \<Rightarrow> string \<Rightarrow> fetched" where
  "demo_fetch_down url tok =
     \<lparr>f_result = FetchThrows ''TypeError: error sending request'', f_latencyMs = 30, f_at = demo_clock, f_settled = 0\<rparr>"

definition demo_serialise :: "jws \<Rightarrow> string" where
  "demo_serialise j = alg j @ ''.'' @ signing_key j"


definition demo_warm :: health_map where
  "demo_warm =
     ((\<lambda>hs. fst (snd (route_v1_aggregate demo_serialise demo_env demo_getUser demo_fetch_ok
                         demo_clock demo_times hs (Some ''Bearer abc'') None))) ^^ 9) []"

definition demo_round :: "bool \<Rightarrow> real \<Rightarrow> observation list" where
  "demo_round ok l =
     map (\<lambda>ep. \<lparr>obs_at = demo_clock, obs_endpoint = ep, obs_success = ok, obs_latency = l\<rparr>)
       AGGREGATE_ENDPOINTS"

definition demo_env_no_key :: env where
  "demo_env_no_key = \<lparr>VPS_METRICS_ENDPOINT = ''https://metrics.example'', INTERNAL_JWT_SECRET = []\<rparr>"

definition demo_env_no_upstream :: env where
  "demo_env_no_upstream = \<lparr>VPS_METRICS_ENDPOINT = [], INTERNAL_JWT_SECRET = ''s3cret''\<rparr>"

text \<open>A response with the three deprecation headers taken away.\<close>

definition without_deprecation :: "response \<Rightarrow> response" where
  "without_deprecation r =
     r\<lparr>headers := filter (\<lambda>h. fst h \<notin> {''Deprecation'', ''Sunset'', ''Link''}) (headers r)\<rparr>"

section \<open>Session events: listing and export\<close>

text \<open>
  A row of the \<open>session_events\<close> table. The timestamp is kept as a number of
  microseconds; the text the database client returns for it is a parameter of the
  handlers.
\<close>

record session_event =
  ev_id :: nat
  ev_session_id :: string
  ev_user_id :: string
  ev_event_type :: string
  ev_event_payload :: jsval
  ev_timestamp_utc :: nat

text \<open>
  The storage backend as the handlers meet it: whether the service client is configured,
  whether a query fails, and the rows of the table.
\<close>

record session_db =
  db_configured :: bool
  db_failure :: "string option"
  db_rows :: "session_event list"

text \<open>
  The two queries. The database does the ordering; \<open>order("timestamp_utc", ascending)\<close>
  is modelled as a stable sort on the timestamp and the descending order as its reverse.
\<close>

definition export_query :: "session_event list \<Rightarrow> string option \<Rightarrow> string \<Rightarrow> session_event list" where
  "export_query rows uid sid =
     sort_key ev_timestamp_utc
       (filter (\<lambda>ev. Some (ev_user_id ev) = uid \<and> ev_session_id ev = sid) rows)"

definition events_query ::
  "session_event list \<Rightarrow> string option \<Rightarrow> string \<Rightarrow> nat \<Rightarrow> nat \<Rightarrow> session_event list" where
  "events_query rows uid sid offset limit =
     take limit (drop offset
       (rev (sort_key ev_timestamp_utc
          (filter (\<lambda>ev. Some (ev_user_id ev) = uid \<and> (sid = [] \<or> ev_session_id ev = sid)) rows))))"

text \<open>\<open>xs.join(sep)\<close>\<close>

fun join :: "string \<Rightarrow> string list \<Rightarrow> string" where
  "join sep [] = []"
| "join sep [x] = x"
| "join sep (x # y # ys) = x @ sep @ join sep (y # ys)"

definition newline :: string where
  "newline = [CHR 0x0A]"

text \<open>
  \<open>JSON.stringify\<close> for a value. The text of a number is a parameter; a string is
  quoted, with its double quotes, backslashes and control characters escaped; an
  \<open>undefined\<close> member of an object is dropped and an \<open>undefined\<close> element of an array
  is written \<open>null\<close>.
\<close>

definition hex_digit :: "nat \<Rightarrow> char" where
  "hex_digit d = ''0123456789abcdef'' ! d"

definition json_escape :: "char \<Rightarrow> string" where
  "json_escape c =
     (if c = CHR 0x22 then [CHR 0x5C, CHR 0x22]
      else if c = CHR 0x5C then [CHR 0x5C, CHR 0x5C]
      else if c = CHR 0x08 then [CHR 0x5C, CHR ''b'']
      else if c = CHR 0x0C then [CHR 0x5C, CHR ''f'']
      else if c = CHR 0x0A then [CHR 0x5C, CHR ''n'']
      else if c = CHR 0x0D then [CHR 0x5C, CHR ''r'']
      else if c = CHR 0x09 then [CHR 0x5C, CHR ''t'']
      else if (of_char c :: nat) < 32
      then [CHR 0x5C, CHR ''u'', CHR ''0'', CHR ''0'',
            hex_digit ((of_char c :: nat) div 16), hex_digit ((of_char c :: nat) mod 16)]
      else [c])"

definition json_quote :: "string \<Rightarrow> string" where
  "json_quote s = dquote @ concat (map json_escape s) @ dquote"

fun json_stringify :: "(real \<Rightarrow> string) \<Rightarrow> jsval \<Rightarrow> string"
  and json_elements :: "(real \<Rightarrow> string) \<Rightarrow> jsval list \<Rightarrow> string list"
  and json_members :: "(real \<Rightarrow> string) \<Rightarrow> (string \<times> jsval) list \<Rightarrow> string list" where
  "json_stringify num JUndefined = ''undefined''"
| "json_stringify num JNull = ''null''"
| "json_stringify num (JBool b) = (if b then ''true'' else ''false'')"
| "json_stringify num (JNum x) = num x"
| "json_stringify num (JStr s) = json_quote s"
| "json_stringify num (JArr xs) = ''['' @ join '','' (json_elements num xs) @ '']''"
| "json_stringify num (JObj kvs) = ''{'' @ join '','' (json_members num kvs) @ ''}''"
| "json_elements num [] = []"
| "json_elements num (x # xs) =
     (if x = JUndefined then ''null'' else json_stringify num x) # json_elements num xs"
| "json_members num [] = []"
| "json_members num ((k, v) # kvs) =
     (if v = JUndefined then json_members num kvs
      else (json_quote k @ '':'' @ json_stringify num v) # json_members num kvs)"

text \<open>\<open>s.replace(/"/g, '""')\<close>\<close>

definition double_quotes :: "string \<Rightarrow> string" where
  "double_quotes s = concat (map (\<lambda>c. if c = CHR 0x22 then [CHR 0x22, CHR 0x22] else [c]) s)"

text \<open>The rows of the three export formats.\<close>

definition csv_header :: string where
  "csv_header = ''id,session_id,event_type,timestamp_utc,event_payload'' @ newline"

definition csv_row :: "(real \<Rightarrow> string) \<Rightarrow> (nat \<Rightarrow> string) \<Rightarrow> session_event \<Rightarrow> string" where
  "csv_row num ts ev =
     show_nat (ev_id ev) @ '','' @
     dquote @ ev_session_id ev @ dquote @ '','' @
     dquote @ ev_event_type ev @ dquote @ '','' @
     dquote @ ts (ev_timestamp_utc ev) @ dquote @ '','' @
     dquote @ double_quotes (json_stringify num (ev_event_payload ev)) @ dquote"

definition text_line :: "(real \<Rightarrow> string) \<Rightarrow> (nat \<Rightarrow> string) \<Rightarrow> session_event \<Rightarrow> string" where
  "text_line num ts ev =
     ''['' @ ts (ev_timestamp_utc ev) @ ''] '' @ ev_event_type ev @ '': '' @
     json_stringify num (ev_event_payload ev)"

definition event_json :: "(nat \<Rightarrow> string) \<Rightarrow> session_event \<Rightarrow> jsval" where
  "event_json ts ev =
     JObj [(''id'', JNum (of_nat (ev_id ev))),
           (''session_id'', JStr (ev_session_id ev)),
           (''user_id'', JStr (ev_user_id ev)),
           (''event_type'', JStr (ev_event_type ev)),
           (''event_payload'', ev_event_payload ev),
           (''timestamp_utc'', JStr (ts (ev_timestamp_utc ev)))]"

text \<open>
  A response that a handler builds itself, \<open>new Response(text, { headers })\<close>, has
  status 200. When the handler returns it, the framework copies the headers that were set
  on the context onto it, a content type apart: such a response carries its own headers
  and those of the context.
\<close>

definition raw_response :: "(string \<times> string) list \<Rightarrow> (string \<times> string) list \<Rightarrow> string \<Rightarrow> response" where
  "raw_response ctx own txt =
     \<lparr>status = 200,
      headers = fold (\<lambda>h. AList.update (fst h) (snd h))
                  (filter (\<lambda>h. fst h \<noteq> ''Content-Type'') ctx) own,
      body = JStr txt\<rparr>"

text \<open>
  The handler of \<open>GET /metrics-proxy-jwt/v1/sessions/export\<close>, behind the middleware.
  The csv and text answers are responses the handler builds itself, with a text body.
\<close>

definition session_export ::
  "(real \<Rightarrow> string) \<Rightarrow> (nat \<Rightarrow> string) \<Rightarrow> session_db \<Rightarrow> clock \<Rightarrow> string option \<Rightarrow> string option \<Rightarrow>
   AuthResult \<Rightarrow> (string \<times> string) list \<Rightarrow> response" where
  "session_export num ts db t session_q format_q authResult ctx =
     (let sessionId = (case session_q of Some s \<Rightarrow> s | None \<Rightarrow> []);
          format = (case format_q of Some f \<Rightarrow> (if f = [] then ''json'' else f) | None \<Rightarrow> ''json'')
      in if sessionId = []
         then c_json ctx (JObj [(''error'', JStr ''session_id query parameter is required'')]) 400
         else if \<not> db_configured db
         then c_json ctx (JObj [(''error'', JStr ''Session recording not configured'')]) 503
         else
           (case db_failure db of
              Some m \<Rightarrow> c_json ctx (JObj [(''error'', JStr ''Export failed''), (''detail'', JStr m)]) 500
            | None \<Rightarrow>
                (let events = export_query (db_rows db) (userId authResult) sessionId
                 in if format = ''csv''
                    then raw_response ctx
                           [(''Content-Type'', ''text/csv''),
                            (''Content-Disposition'',
                             ''attachment; filename='' @ dquote @ ''session_'' @ sessionId @ ''.csv'' @ dquote)]
                           (csv_header @ join newline (map (csv_row num ts) events))
                    else if format = ''text''
                    then raw_response ctx
                           [(''Content-Type'', ''text/plain''),
                            (''Content-Disposition'',
                             ''attachment; filename='' @ dquote @ ''session_'' @ sessionId @ ''.txt'' @ dquote)]
                           (let lines = join newline (map (text_line num ts) events)
                            in if lines = [] then ''No events found'' else lines)
                    else c_json ctx
                           (JObj [(''sessionId'', JStr sessionId),
                                  (''eventCount'', JNum (of_nat (length events))),
                                  (''events'', JArr (map (event_json ts) events)),
                                  (''exportedAt'', JStr (now_iso t)),
                                  (''user'', js_of_opt (email authResult))]) 200)))"

text \<open>
  The handler of \<open>GET /metrics-proxy-jwt/v1/sessions/events\<close>, for a \<open>limit\<close> and an
  \<open>offset\<close> that \<open>parseInt\<close> reads as natural numbers (50 and 0 when absent).
\<close>

definition session_events ::
  "(nat \<Rightarrow> string) \<Rightarrow> session_db \<Rightarrow> clock \<Rightarrow> string option \<Rightarrow> nat option \<Rightarrow> nat option \<Rightarrow>
   AuthResult \<Rightarrow> (string \<times> string) list \<Rightarrow> response" where
  "session_events ts db t session_q limit_q offset_q authResult ctx =
     (let sessionId = (case session_q of Some s \<Rightarrow> s | None \<Rightarrow> []);
          limit = min (case limit_q of Some n \<Rightarrow> n | None \<Rightarrow> 50) 200;
          offset = (case offset_q of Some n \<Rightarrow> n | None \<Rightarrow> 0)
      in if \<not> db_configured db
         then c_json ctx (JObj [(''error'', JStr ''Session recording not configured'')]) 503
         else
           (case db_failure db of
              Some m \<Rightarrow> c_json ctx (JObj [(''error'', JStr ''Failed to fetch session events''),
                                          (''detail'', JStr m)]) 500
            | None \<Rightarrow>
                (let data = events_query (db_rows db) (userId authResult) sessionId offset limit
                 in c_json ctx
                      (JObj [(''events'', JArr (map (event_json ts) data)),
                             (''pagination'', JObj
                                [(''limit'', JNum (of_nat limit)),
                                 (''offset'', JNum (of_nat offset)),
                                 (''hasMore'', JBool (length data = limit))]),
                             (''_meta'', JObj
                                [(''sessionId'', JStr (if sessionId = [] then ''all'' else sessionId)),
                                 (''user'', js_of_opt (email authResult)),
                                 (''timestamp'', JStr (now_iso t))])]) 200)))"

text \<open>A table with one login event, and the identity it belongs to.\<close>

definition demo_event :: session_event where
  "demo_event =
     \<lparr>ev_id = 7, ev_session_id = ''s-1'', ev_user_id = ''u-1'', ev_event_type = ''login'',
      ev_event_payload = JObj [], ev_timestamp_utc = 1767225600000000\<rparr>"

definition demo_db :: session_db where
  "demo_db = \<lparr>db_configured = True, db_failure = None, db_rows = [demo_event]\<rparr>"


section \<open>The routes under the versioned prefix\<close>

text \<open>
  The snapshot as \<open>c.json\<close> writes it: the properties of the object that
  \<open>getHealthSnapshot\<close> returns, in its order, the per-endpoint reports keyed by endpoint.
\<close>

definition js_or_null :: "string option \<Rightarrow> jsval" where
  "js_or_null s = (case s of Some x \<Rightarrow> JStr x | None \<Rightarrow> JNull)"

definition status_js :: "health_status \<Rightarrow> jsval" where
  "status_js st = JStr (case st of healthy \<Rightarrow> ''healthy'' | degraded \<Rightarrow> ''degraded'' | down \<Rightarrow> ''down'')"

definition endpoint_health_js :: "endpoint_health \<Rightarrow> jsval" where
  "endpoint_health_js r =
     JObj [(''status'', status_js (ep_status r)),
           (''lastSuccess'', js_or_null (ep_lastSuccess r)),
           (''lastFailure'', js_or_null (ep_lastFailure r)),
           (''successRate'', JNum (of_int (ep_successRate r))),
           (''avgLatencyMs'', JNum (of_int (ep_avgLatencyMs r)))]"

definition snapshot_js :: "HealthSnapshot \<Rightarrow> (string \<times> jsval) list" where
  "snapshot_js snapshot =
     [(''vpsReachable'', JBool (vpsReachable snapshot)),
      (''totalEndpoints'', JNum (of_nat (totalEndpoints snapshot))),
      (''healthyEndpoints'', JNum (of_nat (healthyEndpoints snapshot))),
      (''degradedEndpoints'', JNum (of_nat (degradedEndpoints snapshot))),
      (''avgOverallLatencyMs'', JNum (of_int (avgOverallLatencyMs snapshot))),
      (''endpoints'', JObj (map (\<lambda>p. (fst p, endpoint_health_js (snd p))) (endpoints snapshot))),
      (''lastChecked'', JStr (lastChecked snapshot))]"

text \<open>
  The handler of \<open>GET /metrics-proxy-jwt/v1/health/detailed\<close>: the snapshot taken at
  \<open>t_snapshot\<close>, under a \<open>status\<close> and followed by \<open>_meta\<close> with the timestamp of
  \<open>t\<close>.
\<close>

definition health_detailed ::
  "clock \<Rightarrow> clock \<Rightarrow> health_map \<Rightarrow> AuthResult \<Rightarrow> (string \<times> string) list \<Rightarrow> response" where
  "health_detailed t_snapshot t healthState authResult ctx =
     (let snapshot = getHealthSnapshot t_snapshot healthState
      in c_json ctx
           (JObj ((''status'', JStr (if vpsReachable snapshot then ''ok'' else ''degraded'')) #
                  snapshot_js snapshot @
                  [(''_meta'', JObj
                      [(''service'', JStr ''metrics-proxy-jwt''),
                       (''version'', JStr ''2.1.0''),
                       (''user'', js_of_opt (email authResult)),
                       (''timestamp'', JStr (now_iso t))])])) 200)"

text \<open>The stub of \<open>GET /metrics-proxy-jwt/v1/metrics/replay\<close>.\<close>

definition metrics_replay :: "(string \<times> string) list \<Rightarrow> response" where
  "metrics_replay ctx =
     c_json ctx
       (JObj [(''error'', JStr ''Not Implemented''),
              (''feature'', JStr ''Forensic Replay''),
              (''status'', JNum 501),
              (''message'', JStr (''Forensic replay will allow re-playing historical session data '' @
                                  ''with full market context. Coming in a future release.'')),
              (''plannedEndpoints'', string_list_js
                 [''GET /v1/metrics/replay?session_id=&start=&end='',
                  ''GET /v1/metrics/replay/snapshot?timestamp=''])]) 501"

text \<open>
  The five routes registered under \<open>/metrics-proxy-jwt/v1/\<close>, and what a \<open>GET\<close>
  request to one of them carries: the \<open>Authorization\<close> and \<open>X-Session-Id\<close> headers
  and the query parameters \<open>session_id\<close>, \<open>format\<close>, \<open>limit\<close> and \<open>offset\<close>.
\<close>

datatype v1_route = MetricsAggregate | HealthDetailed | SessionsEvents | SessionsExport | MetricsReplay

record v1_request =
  rq_authorization :: "string option"
  rq_x_session_id :: "string option"
  rq_session_id :: "string option"
  rq_format :: "string option"
  rq_limit :: "nat option"
  rq_offset :: "nat option"

text \<open>
  A request to a route under the prefix: the middleware first, then the route's handler.
  \<open>t\<close> is the clock of the middleware; \<open>tm\<close> holds the clock readings of the handler,
  of which the handlers other than the aggregate take only the snapshot's and the one of
  their timestamp. Only the aggregate changes the health map or has effects of its own.
\<close>

definition route_v1 ::
  "(jws \<Rightarrow> string) \<Rightarrow> env \<Rightarrow> (string \<Rightarrow> provider_reply) \<Rightarrow> (string \<Rightarrow> string \<Rightarrow> fetched) \<Rightarrow>
   (real \<Rightarrow> string) \<Rightarrow> (nat \<Rightarrow> string) \<Rightarrow> session_db \<Rightarrow>
   clock \<Rightarrow> call_times \<Rightarrow> health_map \<Rightarrow> v1_route \<Rightarrow> v1_request \<Rightarrow>
   response \<times> health_map \<times> effect list" where
  "route_v1 serialise e getUser fetch num ts db t tm healthState route rq =
     v1_middleware getUser t (rq_authorization rq) healthState
       (case route of
          MetricsAggregate \<Rightarrow>
            v1_aggregate_handler serialise e fetch tm healthState (rq_x_session_id rq)
        | HealthDetailed \<Rightarrow>
            (\<lambda>authResult ctx.
               (health_detailed (snapshot_at tm) (server_at tm) healthState authResult ctx,
                healthState, []))
        | SessionsEvents \<Rightarrow>
            (\<lambda>authResult ctx.
               (session_events ts db (server_at tm) (rq_session_id rq) (rq_limit rq) (rq_offset rq)
                  authResult ctx,
                healthState, []))
        | SessionsExport \<Rightarrow>
            (\<lambda>authResult ctx.
               (session_export num ts db (server_at tm) (rq_session_id rq) (rq_format rq)
                  authResult ctx,
                healthState, []))
        | MetricsReplay \<Rightarrow> (\<lambda>authResult ctx. (metrics_replay ctx, healthState, [])))"

text \<open>A request for the csv export of the session of the table above.\<close>

definition demo_export_request :: v1_request where
  "demo_export_request =
     \<lparr>rq_authorization = Some ''Bearer abc'', rq_x_session_id = None,
      rq_session_id = Some ''s-1'', rq_format = Some ''csv'', rq_limit = None, rq_offset = None\<rparr>"

section \<open>Properties\<close>

subsection \<open>The generic proxy rejects a path outside the whitelist first\<close>

lemma path_allowed_iff:
  "path_allowed path \<longleftrightarrow> (\<exists>p \<in> set ALLOWED_PATHS. path = p \<or> prefix (p @ ''/'') path)"
  by (simp add: path_allowed_def list_ex_iff)

lemma route_proxy_rejects:
  assumes "q = None \<or> q = Some [] \<or> (\<exists>p. q = Some p \<and> \<not> path_allowed p)"
  shows "route_proxy serialise e getUser fetch mt t q hdr =
           (c_json []
              (JObj [(''error'', JStr ''Invalid path''),
                     (''allowed'', string_list_js ALLOWED_PATHS),
                     (''received'', JStr (case q of Some p \<Rightarrow> p | None \<Rightarrow> []))]) 400, [])"
  using assms by (auto simp: route_proxy_def Let_def)

text \<open>
  C10. A request to the generic proxy whose \<open>path\<close> parameter is missing or empty, or is
  neither one of the seven whitelisted paths nor one of them followed by \<open>/\<close> and more,
  is answered with status 400 and the error \<open>Invalid path\<close>, and the handler has
  performed no effect at all: the credential has not been verified, no token has been
  minted and nothing has been fetched from the upstream.
\<close>

theorem proxy_invalid_path_rejected_first:
  assumes "q = None \<or>
           (\<exists>path. q = Some path \<and>
              (path = [] \<or> (\<forall>p \<in> set ALLOWED_PATHS. path \<noteq> p \<and> \<not> prefix (p @ ''/'') path)))"
  shows "length ALLOWED_PATHS = 7 \<and>
         status (fst (route_proxy serialise e getUser fetch mt t q hdr)) = 400 \<and>
         js_field (body (fst (route_proxy serialise e getUser fetch mt t q hdr))) ''error''
           = JStr ''Invalid path'' \<and>
         snd (route_proxy serialise e getUser fetch mt t q hdr) = []"
proof -
  from assms have "q = None \<or> q = Some [] \<or> (\<exists>p. q = Some p \<and> \<not> path_allowed p)"
    by (auto simp: path_allowed_iff)
  then have "route_proxy serialise e getUser fetch mt t q hdr =
           (c_json []
              (JObj [(''error'', JStr ''Invalid path''),
                     (''allowed'', string_list_js ALLOWED_PATHS),
                     (''received'', JStr (case q of Some p \<Rightarrow> p | None \<Rightarrow> []))]) 400, [])"
    by (rule route_proxy_rejects)
  then show ?thesis
    by (simp add: c_json_def js_field_def ALLOWED_PATHS_def)
qed

theorem proxy_invalid_path_rejected_first_witness:
  "\<not> path_allowed ''/admin/keys'' \<and>
   status (fst (route_proxy (\<lambda>j. ''tok'')
      \<lparr>VPS_METRICS_ENDPOINT = ''https://vps.example'', INTERNAL_JWT_SECRET = ''k''\<rparr>
      (\<lambda>tok. ProviderReply (Some (''u1'', Some ''a@b.c'', None)) None)
      (\<lambda>url tok. FetchResponse 200 ''OK'' (Some (JObj [])))
      \<lparr>at_setIssuedAt = \<lparr>now_ms = 0, now_iso = ''1970-01-01T00:00:00.000Z''\<rparr>,
       at_setExpirationTime = \<lparr>now_ms = 0, now_iso = ''1970-01-01T00:00:00.000Z''\<rparr>\<rparr>
      \<lparr>now_ms = 0, now_iso = ''1970-01-01T00:00:00.000Z''\<rparr>
      (Some ''/admin/keys'') (Some ''Bearer abc''))) = 400 \<and>
   snd (route_proxy (\<lambda>j. ''tok'')
      \<lparr>VPS_METRICS_ENDPOINT = ''https://vps.example'', INTERNAL_JWT_SECRET = ''k''\<rparr>
      (\<lambda>tok. ProviderReply (Some (''u1'', Some ''a@b.c'', None)) None)
      (\<lambda>url tok. FetchResponse 200 ''OK'' (Some (JObj [])))
      \<lparr>at_setIssuedAt = \<lparr>now_ms = 0, now_iso = ''1970-01-01T00:00:00.000Z''\<rparr>,
       at_setExpirationTime = \<lparr>now_ms = 0, now_iso = ''1970-01-01T00:00:00.000Z''\<rparr>\<rparr>
      \<lparr>now_ms = 0, now_iso = ''1970-01-01T00:00:00.000Z''\<rparr>
      (Some ''/admin/keys'') (Some ''Bearer abc'')) = []"
proof -
  have h: "\<forall>p \<in> set ALLOWED_PATHS. ''/admin/keys'' \<noteq> p \<and> \<not> prefix (p @ ''/'') ''/admin/keys''"
    by (simp add: ALLOWED_PATHS_def)
  then have "Some ''/admin/keys'' = None \<or>
           (\<exists>path. Some ''/admin/keys'' = Some path \<and>
              (path = [] \<or> (\<forall>p \<in> set ALLOWED_PATHS. path \<noteq> p \<and> \<not> prefix (p @ ''/'') path)))"
    by blast
  from proxy_invalid_path_rejected_first [OF this] h show ?thesis
    by (simp add: path_allowed_iff)
qed

subsection \<open>The rounding of the reported success rate\<close>

lemma js_round_double:
  "js_round (double_value d) = int ((2 * significand d + 2 ^ shift d) div 2 ^ (shift d + 1))"
proof -
  have "double_value d + 1 / 2 = real (2 * significand d + 2 ^ shift d) / real (2 ^ (shift d + 1))"
    by (simp add: double_value_def field_simps)
  then have "js_round (double_value d) = \<lfloor>real (2 * significand d + 2 ^ shift d) / real (2 ^ (shift d + 1))\<rfloor>"
    by (simp add: js_round_def)
  also have "\<dots> = int ((2 * significand d + 2 ^ shift d) div 2 ^ (shift d + 1))"
    by (rule floor_divide_of_nat_eq)
  finally show ?thesis .
qed





lemma successPercent_positive:
  "0 < s + f \<Longrightarrow>
   successPercent s f = js_round (double_value (double_times (double_of_quotient s (s + f)) 100))"
  by (simp add: successPercent_def Let_def)


lemma percent_1_2: "js_round (double_value (double_times (double_of_quotient 1 2) 100)) = 50"
  by (simp add: js_round_double double_times_def double_of_quotient_def find_shift.simps
        nearest_even_def Let_def)

lemma percent_23_40: "js_round (double_value (double_times (double_of_quotient 23 40) 100)) = 57"
  by (simp add: js_round_double double_times_def double_of_quotient_def find_shift.simps
        nearest_even_def Let_def)


subsection \<open>The latency window and the counters of an endpoint\<close>

lemma foldl_plus_sum_list: "foldl (+) a xs = a + sum_list (xs :: real list)"
  by (induction xs arbitrary: a) (simp_all add: add.assoc)

lemma window_step:
  "(let p = drop (length ls - HEALTH_WINDOW_SIZE) ls @ [l]
    in if length p > HEALTH_WINDOW_SIZE then tl p else p)
   = drop (Suc (length ls) - HEALTH_WINDOW_SIZE) (ls @ [l])"
proof (cases "length ls < HEALTH_WINDOW_SIZE")
  case True
  then show ?thesis by (simp add: Let_def)
next
  case False
  then have ge: "HEALTH_WINDOW_SIZE \<le> length ls" by simp
  then have ne: "drop (length ls - HEALTH_WINDOW_SIZE) ls \<noteq> []"
    by (simp add: HEALTH_WINDOW_SIZE_def)
  have "tl (drop (length ls - HEALTH_WINDOW_SIZE) ls @ [l])
        = drop (Suc (length ls - HEALTH_WINDOW_SIZE)) ls @ [l]"
    using ne by (simp add: tl_drop drop_Suc)
  moreover have "Suc (length ls - HEALTH_WINDOW_SIZE) = Suc (length ls) - HEALTH_WINDOW_SIZE"
    using ge by simp
  ultimately show ?thesis using ge
    by (simp add: Let_def HEALTH_WINDOW_SIZE_def)
qed

lemma record_all_snoc: "record_all (obs @ [ob]) = record_obs ob (record_all obs)"
  by (simp add: record_all_def)

lemma map_of_record_other:
  "ep \<noteq> obs_endpoint ob \<Longrightarrow> map_of (record_obs ob hs) ep = map_of hs ep"
  by (simp add: record_obs_def recordEndpointResult_def Let_def update_conv')

lemma observed_snoc:
  "observed ep (obs @ [ob]) = (if obs_endpoint ob = ep then observed ep obs @ [ob] else observed ep obs)"
  by (simp add: observed_def)

lemma entry_absent: "map_of (record_all obs) ep = None \<longleftrightarrow> observed ep obs = []"
proof (induction obs rule: rev_induct)
  case Nil
  show ?case by (simp add: record_all_def observed_def)
next
  case (snoc ob obs)
  show ?case
  proof (cases "obs_endpoint ob = ep")
    case True
    then show ?thesis
      by (simp add: record_all_snoc observed_snoc record_obs_def recordEndpointResult_def Let_def update_conv')
  next
    case False
    then show ?thesis using snoc
      by (simp add: record_all_snoc observed_snoc map_of_record_other)
  qed
qed

lemma entry_matches_init: "entry_matches ep [] (initEndpointHealth ep)"
  by (simp add: entry_matches_def initEndpointHealth_def)

lemma record_same:
  assumes "obs_endpoint ob = ep"
      and "en0 = (case map_of hs ep of Some en \<Rightarrow> en | None \<Rightarrow> initEndpointHealth ep)"
  shows "\<exists>en'. map_of (record_obs ob hs) ep = Some en' \<and>
           endpoint en' = endpoint en0 \<and>
           successCount en' = successCount en0 + (if obs_success ob then 1 else 0) \<and>
           failureCount en' = failureCount en0 + (if obs_success ob then 0 else 1) \<and>
           latencies en' =
             (let p = latencies en0 @ [obs_latency ob]
              in if length p > HEALTH_WINDOW_SIZE then tl p else p) \<and>
           avgLatencyMs en' = sum_list (latencies en') / of_nat (length (latencies en'))"
  using assms
  by (simp add: record_obs_def recordEndpointResult_def update_conv' Let_def foldl_plus_sum_list)

lemma record_step:
  assumes m: "entry_matches ep mine en0" and ep: "obs_endpoint ob = ep"
      and en0: "en0 = (case map_of hs ep of Some en \<Rightarrow> en | None \<Rightarrow> initEndpointHealth ep)"
  shows "\<exists>en'. map_of (record_obs ob hs) ep = Some en' \<and> entry_matches ep (mine @ [ob]) en'"
proof -
  from record_same [OF ep en0] obtain en' where
    1: "map_of (record_obs ob hs) ep = Some en'" and
    2: "endpoint en' = endpoint en0" and
    3: "successCount en' = successCount en0 + (if obs_success ob then 1 else 0)" and
    4: "failureCount en' = failureCount en0 + (if obs_success ob then 0 else 1)" and
    5: "latencies en' =
             (let p = latencies en0 @ [obs_latency ob]
              in if length p > HEALTH_WINDOW_SIZE then tl p else p)" and
    6: "avgLatencyMs en' = sum_list (latencies en') / of_nat (length (latencies en'))"
    by blast
  have l0: "latencies en0 = drop (length (map obs_latency mine) - HEALTH_WINDOW_SIZE) (map obs_latency mine)"
    using m by (simp add: entry_matches_def)
  have "latencies en' = drop (Suc (length (map obs_latency mine)) - HEALTH_WINDOW_SIZE)
                          (map obs_latency mine @ [obs_latency ob])"
    unfolding 5 l0 by (rule window_step)
  then have 7: "latencies en' = drop (length (mine @ [ob]) - HEALTH_WINDOW_SIZE) (map obs_latency (mine @ [ob]))"
    by simp
  have "entry_matches ep (mine @ [ob]) en'"
    unfolding entry_matches_def
    using m 2 3 4 6 7 by (simp add: entry_matches_def)
  with 1 show ?thesis by blast
qed

lemma entry_present:
  "observed ep obs \<noteq> [] \<Longrightarrow>
     \<exists>en. map_of (record_all obs) ep = Some en \<and> entry_matches ep (observed ep obs) en"
proof (induction obs rule: rev_induct)
  case Nil
  then show ?case by (simp add: observed_def)
next
  case (snoc ob obs)
  show ?case
  proof (cases "obs_endpoint ob = ep")
    case False
    with snoc show ?thesis
      by (simp add: record_all_snoc observed_snoc map_of_record_other)
  next
    case same: True
    define en0 where "en0 = (case map_of (record_all obs) ep of Some en \<Rightarrow> en | None \<Rightarrow> initEndpointHealth ep)"
    have "entry_matches ep (observed ep obs) en0"
    proof (cases "observed ep obs = []")
      case True
      then have "map_of (record_all obs) ep = None" by (simp add: entry_absent)
      then show ?thesis using True by (simp add: en0_def entry_matches_init)
    next
      case False
      with snoc obtain en where "map_of (record_all obs) ep = Some en"
         "entry_matches ep (observed ep obs) en" by blast
      then show ?thesis by (simp add: en0_def)
    qed
    from record_step [OF this same en0_def] show ?thesis
      using same by (simp add: record_all_snoc observed_snoc)
  qed
qed


lemma distinct_record_obs: "distinct (map fst hs) \<Longrightarrow> distinct (map fst (record_obs ob hs))"
  by (simp add: record_obs_def recordEndpointResult_def Let_def distinct_update)

lemma distinct_record_all: "distinct (map fst (record_all obs))"
proof (induction obs rule: rev_induct)
  case Nil
  show ?case by (simp add: record_all_def)
next
  case (snoc ob obs)
  then show ?case by (simp add: record_all_snoc distinct_record_obs)
qed

lemma loop_endpoints:
  "distinct (map fst hs) \<Longrightarrow>
   map_of (v_endpoints (snapshot_loop hs v)) k =
     (case map_of hs k of Some en \<Rightarrow> Some (report en) | None \<Rightarrow> map_of (v_endpoints v) k)"
proof (induction hs arbitrary: v)
  case Nil
  show ?case by simp
next
  case (Cons p rest)
  obtain ep en where p: "p = (ep, en)" by (cases p)
  from Cons.prems have d: "distinct (map fst rest)" and nin: "ep \<notin> fst ` set rest"
    by (simp_all add: p)
  from nin have none: "map_of rest ep = None"
    by (simp add: map_of_eq_None_iff)
  show ?case
    using Cons.IH [OF d] none
    by (simp add: p Let_def update_conv' report_def split: option.splits)
qed

lemma loop_distinct:
  "distinct (map fst (v_endpoints v)) \<Longrightarrow> distinct (map fst (v_endpoints (snapshot_loop hs v)))"
proof (induction hs arbitrary: v)
  case Nil
  then show ?case by simp
next
  case (Cons p rest)
  obtain ep en where p: "p = (ep, en)" by (cases p)
  show ?case
    using Cons.prems by (simp add: p Let_def Cons.IH distinct_update)
qed

lemma snapshot_endpoints:
  "map_of (endpoints (getHealthSnapshot t (record_all obs))) ep =
     map_option report (map_of (record_all obs) ep)"
  by (simp add: getHealthSnapshot_def Let_def loop_endpoints distinct_record_all
        split: option.splits)

lemma snapshot_distinct: "distinct (map fst (endpoints (getHealthSnapshot t hs)))"
  by (simp add: getHealthSnapshot_def Let_def loop_distinct)

lemma counts_total:
  "length (filter obs_success xs) + length (filter (\<lambda>ob. \<not> obs_success ob) xs) = length xs"
  by (induction xs) simp_all





subsection \<open>What a snapshot reports\<close>

text \<open>
  C6. The states of the health map are those reached from the empty map by recording
  observations. In the snapshot of any such state every reported endpoint has an entry
  with at least one observation, whose counters are the endpoint's successes and failures
  in the history, and its status is healthy when successCount / (successCount +
  failureCount) is at least 0.9, degraded when it is at least 0.5 and below 0.9, and down
  otherwise. An endpoint is absent from the snapshot exactly when it has no observation.
\<close>

theorem snapshot_status_of_observed:
  "(\<forall>(ep, r) \<in> set (endpoints (getHealthSnapshot t (record_all obs))).
      \<exists>entry. map_of (record_all obs) ep = Some entry \<and>
        successCount entry = length (filter obs_success (observed ep obs)) \<and>
        failureCount entry = length (filter (\<lambda>ob. \<not> obs_success ob) (observed ep obs)) \<and>
        1 \<le> successCount entry + failureCount entry \<and>
        ep_status r =
          (let rate = (of_nat (successCount entry) / of_nat (successCount entry + failureCount entry) :: real)
           in if rate \<ge> 9 / 10 then healthy else if rate \<ge> 1 / 2 then degraded else down)) \<and>
   (\<forall>ep. observed ep obs = [] \<longleftrightarrow> ep \<notin> fst ` set (endpoints (getHealthSnapshot t (record_all obs))))"
proof (intro conjI ballI allI)
  fix p assume mem: "p \<in> set (endpoints (getHealthSnapshot t (record_all obs)))"
  obtain ep r where p: "p = (ep, r)" by (cases p)
  from mem have "map_of (endpoints (getHealthSnapshot t (record_all obs))) ep = Some r"
    by (simp add: p snapshot_distinct)
  then obtain en where en: "map_of (record_all obs) ep = Some en" and r: "r = report en"
    by (auto simp: snapshot_endpoints)
  from en have ne: "observed ep obs \<noteq> []"
    using entry_absent [of obs ep] by auto
  from entry_present [OF ne] en have m: "entry_matches ep (observed ep obs) en"
    by auto
  then have sc: "successCount en = length (filter obs_success (observed ep obs))"
    and fc: "failureCount en = length (filter (\<lambda>ob. \<not> obs_success ob) (observed ep obs))"
    by (simp_all add: entry_matches_def)
  from sc fc have tot: "successCount en + failureCount en = length (observed ep obs)"
    by (simp add: counts_total)
  with ne have pos: "1 \<le> successCount en + failureCount en"
    by (cases "observed ep obs") simp_all
  then have rate: "successRate en = of_nat (successCount en) / of_nat (successCount en + failureCount en)"
    by (simp add: successRate_def Let_def)
  have "ep_status r =
          (let rate = (of_nat (successCount en) / of_nat (successCount en + failureCount en) :: real)
           in if rate \<ge> 9 / 10 then healthy else if rate \<ge> 1 / 2 then degraded else down)"
    by (simp add: r report_def rate status_of_def Let_def)
  with en sc fc pos
  show "case p of (ep, r) \<Rightarrow>
      \<exists>entry. map_of (record_all obs) ep = Some entry \<and>
        successCount entry = length (filter obs_success (observed ep obs)) \<and>
        failureCount entry = length (filter (\<lambda>ob. \<not> obs_success ob) (observed ep obs)) \<and>
        1 \<le> successCount entry + failureCount entry \<and>
        ep_status r =
          (let rate = (of_nat (successCount entry) / of_nat (successCount entry + failureCount entry) :: real)
           in if rate \<ge> 9 / 10 then healthy else if rate \<ge> 1 / 2 then degraded else down)"
    unfolding p by blast
next
  fix ep
  have "ep \<notin> fst ` set (endpoints (getHealthSnapshot t (record_all obs)))
        \<longleftrightarrow> map_of (endpoints (getHealthSnapshot t (record_all obs))) ep = None"
    by (simp add: map_of_eq_None_iff)
  also have "\<dots> \<longleftrightarrow> map_of (record_all obs) ep = None"
    by (simp add: snapshot_endpoints)
  also have "\<dots> \<longleftrightarrow> observed ep obs = []"
    by (rule entry_absent)
  finally show "observed ep obs = [] \<longleftrightarrow>
      ep \<notin> fst ` set (endpoints (getHealthSnapshot t (record_all obs)))"
    by simp
qed


lemma successPercent_of_one_in_two: "successPercent (Suc 0) (Suc 0) = 50"
proof -
  have "successPercent 1 1 = js_round (double_value (double_times (double_of_quotient 1 (1 + 1)) 100))"
    by (rule successPercent_positive) simp
  also have "(1 :: nat) + 1 = 2" by simp
  also note percent_1_2
  finally have "successPercent 1 1 = 50" .
  then show ?thesis by simp
qed

theorem snapshot_status_of_observed_witness:
  "(''/trades/live'', demo_report) \<in> set (endpoints (getHealthSnapshot demo_clock (record_all demo_pair))) \<and>
   (\<exists>entry. map_of (record_all demo_pair) ''/trades/live'' = Some entry \<and>
      successCount entry = 1 \<and> failureCount entry = 1 \<and> ep_status demo_report = degraded)"
proof -
  have mem: "(''/trades/live'', demo_report) \<in> set (endpoints (getHealthSnapshot demo_clock (record_all demo_pair)))"
    by (simp add: demo_pair_def demo_report_def record_all_def record_obs_def recordEndpointResult_def
          Let_def initEndpointHealth_def HEALTH_WINDOW_SIZE_def getHealthSnapshot_def
          status_of_def successRate_def js_round_def successPercent_of_one_in_two)
  from snapshot_status_of_observed [of demo_clock demo_pair] mem
  have "\<exists>entry. map_of (record_all demo_pair) ''/trades/live'' = Some entry \<and>
        successCount entry = length (filter obs_success (observed ''/trades/live'' demo_pair)) \<and>
        failureCount entry = length (filter (\<lambda>ob. \<not> obs_success ob) (observed ''/trades/live'' demo_pair)) \<and>
        1 \<le> successCount entry + failureCount entry \<and>
        ep_status demo_report =
          (let rate = (of_nat (successCount entry) / of_nat (successCount entry + failureCount entry) :: real)
           in if rate \<ge> 9 / 10 then healthy else if rate \<ge> 1 / 2 then degraded else down)"
    by fast
  then obtain entry where e: "map_of (record_all demo_pair) ''/trades/live'' = Some entry"
    and s: "successCount entry = length (filter obs_success (observed ''/trades/live'' demo_pair))"
    and f: "failureCount entry = length (filter (\<lambda>ob. \<not> obs_success ob) (observed ''/trades/live'' demo_pair))"
    and st: "ep_status demo_report =
          (let rate = (of_nat (successCount entry) / of_nat (successCount entry + failureCount entry) :: real)
           in if rate \<ge> 9 / 10 then healthy else if rate \<ge> 1 / 2 then degraded else down)"
    by blast
  have s': "successCount entry = 1" unfolding s by (simp add: observed_def demo_pair_def)
  have f': "failureCount entry = 1" unfolding f by (simp add: observed_def demo_pair_def)
  have "ep_status demo_report = degraded" unfolding st s' f' by (simp add: Let_def)
  with mem e s' f' show ?thesis by blast
qed

subsection \<open>The minted internal token\<close>

text \<open>
  C1 (amended). With a shared secret configured, minting for an identity (userId, email,
  role) yields the compact text of a token whose protected header names HS256, whose
  signature is computed under the configured secret, and whose payload has exactly the
  claims sub, email, roles, aud, iat, iss and exp, with sub = userId, email = email,
  roles = [role], aud = vps-metrics-api and iss = supabase-metrics-proxy. iat is the clock
  in epoch seconds when the issue time is set, and exp is the clock in epoch seconds when
  the expiry is set, plus the TTL of 60 seconds. So exp - iat is 60 plus the epoch seconds
  that pass between the two readings of the clock: exactly 60 when both readings fall
  within the same second, and at least 60 when the clock does not go back between them.
\<close>

theorem internal_token_claims:
  assumes "INTERNAL_JWT_SECRET e \<noteq> []"
  shows "\<exists>tok iat exp.
           createInternalJWT serialise e mt (JStr uid) (JStr mail) (JStr rl) = Inr (serialise tok) \<and>
           alg tok = ''HS256'' \<and> signing_key tok = INTERNAL_JWT_SECRET e \<and>
           (\<exists>kvs. payload tok = JObj kvs \<and>
              map fst kvs = [''sub'', ''email'', ''roles'', ''aud'', ''iat'', ''iss'', ''exp'']) \<and>
           js_field (payload tok) ''sub'' = JStr uid \<and>
           js_field (payload tok) ''email'' = JStr mail \<and>
           js_field (payload tok) ''roles'' = JArr [JStr rl] \<and>
           js_field (payload tok) ''aud'' = JStr ''vps-metrics-api'' \<and>
           js_field (payload tok) ''iss'' = JStr ''supabase-metrics-proxy'' \<and>
           js_field (payload tok) ''iat'' = JNum (of_nat iat) \<and>
           js_field (payload tok) ''exp'' = JNum (of_nat exp) \<and>
           iat = now_ms (at_setIssuedAt mt) div 1000 \<and>
           exp = now_ms (at_setExpirationTime mt) div 1000 + INTERNAL_JWT_TTL_SECONDS \<and>
           int exp - int iat =
             60 + (int (now_ms (at_setExpirationTime mt) div 1000) -
                   int (now_ms (at_setIssuedAt mt) div 1000)) \<and>
           (now_ms (at_setExpirationTime mt) div 1000 = now_ms (at_setIssuedAt mt) div 1000
              \<longrightarrow> exp - iat = 60) \<and>
           (now_ms (at_setIssuedAt mt) \<le> now_ms (at_setExpirationTime mt) \<longrightarrow> 60 \<le> exp - iat)"
proof -
  let ?iat = "epoch_seconds (at_setIssuedAt mt)"
  let ?exp = "epoch_seconds (at_setExpirationTime mt) + INTERNAL_JWT_TTL_SECONDS"
  let ?claims = "JObj
            [(''sub'', JStr uid), (''email'', JStr mail), (''roles'', JArr [JStr rl]),
             (''aud'', JStr INTERNAL_JWT_AUDIENCE),
             (''iat'', JNum (of_nat ?iat)),
             (''iss'', JStr INTERNAL_JWT_ISSUER),
             (''exp'', JNum (of_nat ?exp))]"
  let ?tok = "\<lparr>alg = ''HS256'', payload = ?claims, signing_key = INTERNAL_JWT_SECRET e\<rparr>"
  have mint: "createInternalJWT serialise e mt (JStr uid) (JStr mail) (JStr rl) = Inr (serialise ?tok)"
    using assms by (simp add: createInternalJWT_def sign_def Let_def)
  have mono: "now_ms (at_setIssuedAt mt) \<le> now_ms (at_setExpirationTime mt) \<Longrightarrow>
              now_ms (at_setIssuedAt mt) div 1000 \<le> now_ms (at_setExpirationTime mt) div 1000"
    by (rule div_le_mono)
  have span: "now_ms (at_setIssuedAt mt) \<le> now_ms (at_setExpirationTime mt) \<longrightarrow> 60 \<le> ?exp - ?iat"
    using mono by (auto simp: INTERNAL_JWT_TTL_SECONDS_def epoch_seconds_def)
  have fields: "alg ?tok = ''HS256'' \<and> signing_key ?tok = INTERNAL_JWT_SECRET e \<and>
           (\<exists>kvs. payload ?tok = JObj kvs \<and>
              map fst kvs = [''sub'', ''email'', ''roles'', ''aud'', ''iat'', ''iss'', ''exp'']) \<and>
           js_field (payload ?tok) ''sub'' = JStr uid \<and>
           js_field (payload ?tok) ''email'' = JStr mail \<and>
           js_field (payload ?tok) ''roles'' = JArr [JStr rl] \<and>
           js_field (payload ?tok) ''aud'' = JStr ''vps-metrics-api'' \<and>
           js_field (payload ?tok) ''iss'' = JStr ''supabase-metrics-proxy'' \<and>
           js_field (payload ?tok) ''iat'' = JNum (of_nat ?iat) \<and>
           js_field (payload ?tok) ''exp'' = JNum (of_nat ?exp)"
    by (simp add: js_field_def INTERNAL_JWT_AUDIENCE_def INTERNAL_JWT_ISSUER_def)
  have times: "?iat = now_ms (at_setIssuedAt mt) div 1000 \<and>
           ?exp = now_ms (at_setExpirationTime mt) div 1000 + INTERNAL_JWT_TTL_SECONDS \<and>
           int ?exp - int ?iat =
             60 + (int (now_ms (at_setExpirationTime mt) div 1000) -
                   int (now_ms (at_setIssuedAt mt) div 1000)) \<and>
           (now_ms (at_setExpirationTime mt) div 1000 = now_ms (at_setIssuedAt mt) div 1000
              \<longrightarrow> ?exp - ?iat = 60)"
    by (simp add: INTERNAL_JWT_TTL_SECONDS_def epoch_seconds_def)
  show ?thesis
    apply (rule exI [of _ ?tok])
    apply (rule exI [of _ ?iat])
    apply (rule exI [of _ ?exp])
    using mint fields times span by blast
qed

theorem internal_token_claims_witness:
  "INTERNAL_JWT_SECRET demo_env \<noteq> [] \<and>
   now_ms (at_setExpirationTime demo_mint) div 1000 = now_ms (at_setIssuedAt demo_mint) div 1000 \<and>
   (\<exists>tok. createInternalJWT demo_serialise demo_env demo_mint
             (JStr ''u-1'') (JStr ''a@b.c'') (JStr ''authenticated'') = Inr (demo_serialise tok) \<and>
          alg tok = ''HS256'' \<and> signing_key tok = ''s3cret'' \<and>
          js_field (payload tok) ''iat'' = JNum 1767225600 \<and>
          js_field (payload tok) ''exp'' = JNum 1767225660)"
proof -
  have h: "INTERNAL_JWT_SECRET demo_env \<noteq> []" by (simp add: demo_env_def)
  have same: "now_ms (at_setExpirationTime demo_mint) div 1000 = now_ms (at_setIssuedAt demo_mint) div 1000"
    by (simp add: demo_mint_def)
  from internal_token_claims [OF h, of demo_serialise demo_mint "''u-1''" "''a@b.c''" "''authenticated''"]
  obtain tok iat exp where
    m: "createInternalJWT demo_serialise demo_env demo_mint
          (JStr ''u-1'') (JStr ''a@b.c'') (JStr ''authenticated'') = Inr (demo_serialise tok)"
    and a: "alg tok = ''HS256''" and k: "signing_key tok = INTERNAL_JWT_SECRET demo_env"
    and i: "js_field (payload tok) ''iat'' = JNum (of_nat iat)"
    and x: "js_field (payload tok) ''exp'' = JNum (of_nat exp)"
    and iv: "iat = now_ms (at_setIssuedAt demo_mint) div 1000"
    and xv: "exp = now_ms (at_setExpirationTime demo_mint) div 1000 + INTERNAL_JWT_TTL_SECONDS"
    by blast
  have i': "js_field (payload tok) ''iat'' = JNum 1767225600"
    unfolding i iv by (simp add: demo_mint_def demo_clock_def)
  have x': "js_field (payload tok) ''exp'' = JNum 1767225660"
    unfolding x xv by (simp add: demo_mint_def demo_clock_def INTERNAL_JWT_TTL_SECONDS_def)
  have k': "signing_key tok = ''s3cret''" using k by (simp add: demo_env_def)
  from h same m a k' i' x' show ?thesis by blast
qed

text \<open>
  The claim as stated fails: when the clock passes from one second to the next between
  the two readings, here from 999 to 1000 milliseconds, the token is issued at second 0
  and expires at second 61, so that exp - iat is 61.
\<close>

theorem internal_token_lifetime_exceeds_ttl:
  "INTERNAL_JWT_SECRET demo_env \<noteq> [] \<and>
   (\<forall>serialise.
      createInternalJWT serialise demo_env demo_mint_late
        (JStr ''u-1'') (JStr ''a@b.c'') (JStr ''authenticated'') =
      Inr (serialise
        \<lparr>alg = ''HS256'',
         payload = JObj
           [(''sub'', JStr ''u-1''), (''email'', JStr ''a@b.c''),
            (''roles'', JArr [JStr ''authenticated'']),
            (''aud'', JStr ''vps-metrics-api''),
            (''iat'', JNum 0),
            (''iss'', JStr ''supabase-metrics-proxy''),
            (''exp'', JNum 61)],
         signing_key = ''s3cret''\<rparr>))"
  by (simp add: createInternalJWT_def sign_def Let_def demo_env_def demo_mint_late_def
        epoch_seconds_def INTERNAL_JWT_TTL_SECONDS_def INTERNAL_JWT_AUDIENCE_def
        INTERNAL_JWT_ISSUER_def)

subsection \<open>The decision of the internal gatekeeper\<close>

lemma validate_with_token:
  assumes "prefix ''Bearer '' a" and "parse (remove_bearer 0 a) = Some v"
  shows "validate_jwt parse (Some k) now (Some a) =
     (if \<not> signature_ok k v then
        http_401 (''Invalid token: '' @ (if tv_alg v \<noteq> ''HS256''
           then ''The specified alg value is not allowed'' else ''Signature verification failed''))
      else if not_yet_valid now v then
        http_401 (''Invalid token: '' @
           (if (case tv_iat v of Some i \<Rightarrow> now < of_int i | None \<Rightarrow> False)
            then ''The token is not yet valid (iat)'' else ''The token is not yet valid (nbf)''))
      else if expired now v then http_401 ''Token expired''
      else case tv_iss v of
             None \<Rightarrow> http_401 (''Invalid token: '' @ ''Token is missing the '' @ dquote @ ''iss'' @ dquote @ '' claim'')
           | Some i \<Rightarrow>
               if i \<noteq> EXPECTED_ISSUER then http_401 ''Invalid issuer''
               else case tv_aud v of
                      None \<Rightarrow> http_401 (''Invalid token: '' @ ''Token is missing the '' @ dquote @ ''aud'' @ dquote @ '' claim'')
                    | Some c \<Rightarrow>
                        if aud_empty c
                        then http_401 (''Invalid token: '' @ ''Token is missing the '' @ dquote @ ''aud'' @ dquote @ '' claim'')
                        else if EXPECTED_AUDIENCE \<notin> set (aud_values c) then http_401 ''Invalid audience''
                        else \<lparr>status = 200,
                              headers =
                                [(''X-Auth-User-Id'', case tv_sub v of Some s \<Rightarrow> s | None \<Rightarrow> []),
                                 (''X-Auth-User-Email'', case tv_email v of Some s \<Rightarrow> s | None \<Rightarrow> [])],
                              body = JObj [(''valid'', JBool True),
                                    (''sub'', case tv_sub v of Some s \<Rightarrow> JStr s | None \<Rightarrow> JNull),
                                    (''email'', case tv_email v of Some s \<Rightarrow> JStr s | None \<Rightarrow> JNull)]\<rparr>)"
proof -
  from assms(1) have ne: "a \<noteq> []" by auto
  show ?thesis
    using assms ne
    by (simp add: validate_jwt_def jwt_decode_def signature_ok_def not_yet_valid_def expired_def
          split: option.splits)
qed

lemma validate_status_cases:
  "status (validate_jwt parse sf now authorization) = 200 \<or>
   status (validate_jwt parse sf now authorization) = 401 \<or>
   status (validate_jwt parse sf now authorization) = 500"
  by (simp add: validate_jwt_def http_401_def split: option.splits sum.splits jwt_error.splits)

lemma expected_audience_nonempty: "aud_empty c \<Longrightarrow> EXPECTED_AUDIENCE \<notin> set (aud_values c)"
  by (cases c) (simp_all add: aud_empty_def aud_values_def EXPECTED_AUDIENCE_def)

lemma validate_without_token:
  "authorization = None \<or> authorization = Some [] \<or>
   (\<exists>a. authorization = Some a \<and> \<not> prefix ''Bearer '' a) \<or>
   (\<exists>a. authorization = Some a \<and> parse (remove_bearer 0 a) = None \<and> sf \<noteq> None)
   \<Longrightarrow> status (validate_jwt parse sf now authorization) = 401"
  by (auto simp: validate_jwt_def http_401_def jwt_decode_def split: option.splits)

lemma validate_without_secret:
  "prefix ''Bearer '' a \<Longrightarrow> validate_jwt parse None now (Some a) =
      \<lparr>status = 500, headers = [], body = JStr ''Internal Server Error''\<rparr>"
  by (auto simp: validate_jwt_def)

lemma validate_200_iff:
  "status (validate_jwt parse sf now authorization) = 200 \<longleftrightarrow>
     (\<exists>a k v. authorization = Some a \<and> prefix ''Bearer '' a \<and> sf = Some k \<and>
        parse (remove_bearer 0 a) = Some v \<and>
        signature_ok k v \<and> \<not> not_yet_valid now v \<and> \<not> expired now v \<and> issuer_ok v \<and> audience_ok v)"
proof (cases "\<exists>a k v. authorization = Some a \<and> prefix ''Bearer '' a \<and> sf = Some k \<and>
        parse (remove_bearer 0 a) = Some v")
  case True
  then obtain a k v where av: "authorization = Some a" "prefix ''Bearer '' a" "sf = Some k"
     "parse (remove_bearer 0 a) = Some v" by blast
  show ?thesis
    unfolding av(1,3) validate_with_token [of a parse v, OF av(2,4)]
    using av(2,4) expected_audience_nonempty
    by (auto simp: http_401_def issuer_ok_def audience_ok_def split: option.splits)
next
  case False
  then consider "authorization = None \<or> authorization = Some [] \<or>
   (\<exists>a. authorization = Some a \<and> \<not> prefix ''Bearer '' a) \<or>
   (\<exists>a. authorization = Some a \<and> parse (remove_bearer 0 a) = None \<and> sf \<noteq> None)"
    | a where "authorization = Some a" "prefix ''Bearer '' a" "sf = None"
    by (cases authorization; cases sf) auto
  then have "status (validate_jwt parse sf now authorization) \<noteq> 200"
  proof cases
    case 1
    from validate_without_token [OF this] show ?thesis by simp
  next
    case 2
    then show ?thesis by (simp add: validate_without_secret)
  qed
  with False show ?thesis by blast
qed

lemma gate_forwards_iff:
  "(\<exists>hs. gatekeeper parse sf now authorization = Forward hs) \<longleftrightarrow>
     status (validate_jwt parse sf now authorization) = 200"
  using validate_status_cases [of parse sf now authorization]
  by (auto simp: gatekeeper_def auth_request_def)

lemma gate_rejects:
  "status (validate_jwt parse sf now authorization) \<noteq> 200 \<Longrightarrow>
     gatekeeper parse sf now authorization = Reject (status (validate_jwt parse sf now authorization))"
  using validate_status_cases [of parse sf now authorization]
  by (auto simp: gatekeeper_def auth_request_def)

text \<open>
  C2. The validator answers 200, 401 or 500 (the last only when its secret file is
  missing), and the reverse proxy passes a request on to the metrics service exactly when
  the answer is 200; on every other answer the request is rejected with that status. The
  answer is 200 exactly for a bearer header whose token is signed under the shared key
  with HS256, already valid, unexpired and carries the expected issuer and audience, and
  then the attribution headers X-Auth-User-Id and X-Auth-User-Email are the token's sub and
  email. For a presented token, each failed check gives 401 with a reason of its own: a
  signature mismatch a reason starting with "Invalid token: ", expiry "Token expired", a
  different issuer "Invalid issuer", and an audience claim that does not contain
  vps-metrics-api "Invalid audience"; the checks are made in this order, the first failure
  giving the reason.
\<close>

theorem gatekeeper_decision:
  "(status (validate_jwt parse sf now authorization) = 200 \<or>
    status (validate_jwt parse sf now authorization) = 401 \<or>
    status (validate_jwt parse sf now authorization) = 500) \<and>
   ((\<exists>hs. gatekeeper parse sf now authorization = Forward hs) \<longleftrightarrow>
      status (validate_jwt parse sf now authorization) = 200) \<and>
   (status (validate_jwt parse sf now authorization) \<noteq> 200 \<longrightarrow>
      gatekeeper parse sf now authorization = Reject (status (validate_jwt parse sf now authorization))) \<and>
   (status (validate_jwt parse sf now authorization) = 200 \<longleftrightarrow>
     (\<exists>a k v. authorization = Some a \<and> prefix ''Bearer '' a \<and> sf = Some k \<and>
        parse (remove_bearer 0 a) = Some v \<and>
        signature_ok k v \<and> \<not> not_yet_valid now v \<and> \<not> expired now v \<and> issuer_ok v \<and> audience_ok v)) \<and>
   (\<forall>a k v. authorization = Some a \<and> prefix ''Bearer '' a \<and> sf = Some k \<and>
        parse (remove_bearer 0 a) = Some v \<longrightarrow>
      (\<not> signature_ok k v \<longrightarrow>
         status (validate_jwt parse sf now authorization) = 401 \<and>
         (\<exists>m. detail_of (validate_jwt parse sf now authorization) = JStr (''Invalid token: '' @ m))) \<and>
      (signature_ok k v \<and> \<not> not_yet_valid now v \<and> expired now v \<longrightarrow>
         status (validate_jwt parse sf now authorization) = 401 \<and>
         detail_of (validate_jwt parse sf now authorization) = JStr ''Token expired'') \<and>
      (signature_ok k v \<and> \<not> not_yet_valid now v \<and> \<not> expired now v \<and>
         (\<exists>i. tv_iss v = Some i \<and> i \<noteq> EXPECTED_ISSUER) \<longrightarrow>
         status (validate_jwt parse sf now authorization) = 401 \<and>
         detail_of (validate_jwt parse sf now authorization) = JStr ''Invalid issuer'') \<and>
      (signature_ok k v \<and> \<not> not_yet_valid now v \<and> \<not> expired now v \<and> issuer_ok v \<and>
         (\<exists>c. tv_aud v = Some c \<and> \<not> aud_empty c \<and> EXPECTED_AUDIENCE \<notin> set (aud_values c)) \<longrightarrow>
         status (validate_jwt parse sf now authorization) = 401 \<and>
         detail_of (validate_jwt parse sf now authorization) = JStr ''Invalid audience'') \<and>
      (signature_ok k v \<and> \<not> not_yet_valid now v \<and> \<not> expired now v \<and> issuer_ok v \<and> audience_ok v \<longrightarrow>
         headers (validate_jwt parse sf now authorization) =
           [(''X-Auth-User-Id'', case tv_sub v of Some s \<Rightarrow> s | None \<Rightarrow> []),
            (''X-Auth-User-Email'', case tv_email v of Some s \<Rightarrow> s | None \<Rightarrow> [])] \<and>
         gatekeeper parse sf now authorization =
           Forward [(''X-Auth-User-Id'', case tv_sub v of Some s \<Rightarrow> s | None \<Rightarrow> []),
                    (''X-Auth-User-Email'', case tv_email v of Some s \<Rightarrow> s | None \<Rightarrow> [])]))"
proof (intro conjI allI impI)
  show "status (validate_jwt parse sf now authorization) = 200 \<or>
    status (validate_jwt parse sf now authorization) = 401 \<or>
    status (validate_jwt parse sf now authorization) = 500"
    by (rule validate_status_cases)
  show "(\<exists>hs. gatekeeper parse sf now authorization = Forward hs) \<longleftrightarrow>
      status (validate_jwt parse sf now authorization) = 200"
    by (rule gate_forwards_iff)
  show "gatekeeper parse sf now authorization = Reject (status (validate_jwt parse sf now authorization))"
    if "status (validate_jwt parse sf now authorization) \<noteq> 200"
    using that by (rule gate_rejects)
  show "status (validate_jwt parse sf now authorization) = 200 \<longleftrightarrow>
     (\<exists>a k v. authorization = Some a \<and> prefix ''Bearer '' a \<and> sf = Some k \<and>
        parse (remove_bearer 0 a) = Some v \<and>
        signature_ok k v \<and> \<not> not_yet_valid now v \<and> \<not> expired now v \<and> issuer_ok v \<and> audience_ok v)"
    by (rule validate_200_iff)
next
  fix a k v
  assume tok: "authorization = Some a \<and> prefix ''Bearer '' a \<and> sf = Some k \<and>
        parse (remove_bearer 0 a) = Some v"
  then have eq: "validate_jwt parse sf now authorization = validate_jwt parse (Some k) now (Some a)"
    and vt: "prefix ''Bearer '' a" "parse (remove_bearer 0 a) = Some v"
    by simp_all
  note w = validate_with_token [of a parse v k now, OF vt]
  { assume "\<not> signature_ok k v"
    then show "status (validate_jwt parse sf now authorization) = 401"
      and "\<exists>m. detail_of (validate_jwt parse sf now authorization) = JStr (''Invalid token: '' @ m)"
      unfolding eq w by (simp_all add: http_401_def detail_of_def js_field_def) }
  { assume "signature_ok k v \<and> \<not> not_yet_valid now v \<and> expired now v"
    then show "status (validate_jwt parse sf now authorization) = 401"
      and "detail_of (validate_jwt parse sf now authorization) = JStr ''Token expired''"
      unfolding eq w by (simp_all add: http_401_def detail_of_def js_field_def) }
  { assume "signature_ok k v \<and> \<not> not_yet_valid now v \<and> \<not> expired now v \<and>
         (\<exists>i. tv_iss v = Some i \<and> i \<noteq> EXPECTED_ISSUER)"
    then show "status (validate_jwt parse sf now authorization) = 401"
      and "detail_of (validate_jwt parse sf now authorization) = JStr ''Invalid issuer''"
      unfolding eq w by (auto simp: http_401_def detail_of_def js_field_def) }
  { assume "signature_ok k v \<and> \<not> not_yet_valid now v \<and> \<not> expired now v \<and> issuer_ok v \<and>
         (\<exists>c. tv_aud v = Some c \<and> \<not> aud_empty c \<and> EXPECTED_AUDIENCE \<notin> set (aud_values c))"
    then show "status (validate_jwt parse sf now authorization) = 401"
      and "detail_of (validate_jwt parse sf now authorization) = JStr ''Invalid audience''"
      unfolding eq w by (auto simp: http_401_def detail_of_def js_field_def issuer_ok_def) }
  { assume ok: "signature_ok k v \<and> \<not> not_yet_valid now v \<and> \<not> expired now v \<and> issuer_ok v \<and> audience_ok v"
    then obtain c where c: "tv_aud v = Some c" "EXPECTED_AUDIENCE \<in> set (aud_values c)"
      by (auto simp: audience_ok_def split: option.splits)
    with expected_audience_nonempty [of c] have ne: "\<not> aud_empty c" by blast
    from ok c ne
    have r: "validate_jwt parse sf now authorization =
        \<lparr>status = 200,
         headers = [(''X-Auth-User-Id'', case tv_sub v of Some s \<Rightarrow> s | None \<Rightarrow> []),
                    (''X-Auth-User-Email'', case tv_email v of Some s \<Rightarrow> s | None \<Rightarrow> [])],
         body = JObj [(''valid'', JBool True),
                      (''sub'', case tv_sub v of Some s \<Rightarrow> JStr s | None \<Rightarrow> JNull),
                      (''email'', case tv_email v of Some s \<Rightarrow> JStr s | None \<Rightarrow> JNull)]\<rparr>"
      unfolding eq w by (simp add: issuer_ok_def)
    show "headers (validate_jwt parse sf now authorization) =
           [(''X-Auth-User-Id'', case tv_sub v of Some s \<Rightarrow> s | None \<Rightarrow> []),
            (''X-Auth-User-Email'', case tv_email v of Some s \<Rightarrow> s | None \<Rightarrow> [])]"
      by (simp add: r)
    show "gatekeeper parse sf now authorization =
           Forward [(''X-Auth-User-Id'', case tv_sub v of Some s \<Rightarrow> s | None \<Rightarrow> []),
                    (''X-Auth-User-Email'', case tv_email v of Some s \<Rightarrow> s | None \<Rightarrow> [])]"
      by (simp add: gatekeeper_def r auth_request_def upstream_header_def) }
qed

theorem gatekeeper_decision_witness:
  "signature_ok ''s3cret'' demo_token \<and> \<not> not_yet_valid 1767225601 demo_token \<and>
   \<not> expired 1767225601 demo_token \<and> issuer_ok demo_token \<and>
   tv_aud demo_token = Some (AudString ''orders-api'') \<and>
   status (validate_jwt demo_parse (Some ''s3cret'') 1767225601 (Some ''Bearer e30.e30.sig'')) = 401 \<and>
   detail_of (validate_jwt demo_parse (Some ''s3cret'') 1767225601 (Some ''Bearer e30.e30.sig''))
     = JStr ''Invalid audience'' \<and>
   gatekeeper demo_parse (Some ''s3cret'') 1767225601 (Some ''Bearer e30.e30.sig'') = Reject 401 \<and>
   audience_ok demo_valid_token \<and> expired 1767225660 demo_valid_token \<and>
   detail_of (validate_jwt demo_parse (Some ''s3cret'') 1767225660 (Some ''Bearer e30.e31.sig''))
     = JStr ''Token expired'' \<and>
   gatekeeper demo_parse (Some ''s3cret'') 1767225601 (Some ''Bearer e30.e31.sig'')
     = Forward [(''X-Auth-User-Id'', ''u-1''), (''X-Auth-User-Email'', ''a@b.c'')]"
proof -
  have tok: "Some ''Bearer e30.e30.sig'' = Some ''Bearer e30.e30.sig'' \<and>
             prefix ''Bearer '' ''Bearer e30.e30.sig'' \<and> Some ''s3cret'' = Some ''s3cret'' \<and>
             demo_parse (remove_bearer 0 ''Bearer e30.e30.sig'') = Some demo_token"
    by (simp add: demo_parse_def eval_nat_numeral)
  have tok2: "Some ''Bearer e30.e31.sig'' = Some ''Bearer e30.e31.sig'' \<and>
             prefix ''Bearer '' ''Bearer e30.e31.sig'' \<and> Some ''s3cret'' = Some ''s3cret'' \<and>
             demo_parse (remove_bearer 0 ''Bearer e30.e31.sig'') = Some demo_valid_token"
    by (simp add: demo_parse_def eval_nat_numeral)
  have ok: "signature_ok ''s3cret'' demo_token \<and> \<not> not_yet_valid 1767225601 demo_token \<and>
            \<not> expired 1767225601 demo_token \<and> issuer_ok demo_token"
    by (simp add: signature_ok_def not_yet_valid_def expired_def issuer_ok_def demo_token_def
          EXPECTED_ISSUER_def)
  have ok2: "signature_ok ''s3cret'' demo_valid_token \<and> \<not> not_yet_valid 1767225601 demo_valid_token \<and>
            \<not> expired 1767225601 demo_valid_token \<and> issuer_ok demo_valid_token \<and>
            audience_ok demo_valid_token"
    by (simp add: signature_ok_def not_yet_valid_def expired_def issuer_ok_def audience_ok_def
          aud_values_def demo_token_def demo_valid_token_def EXPECTED_ISSUER_def EXPECTED_AUDIENCE_def)
  have late: "signature_ok ''s3cret'' demo_valid_token \<and> \<not> not_yet_valid 1767225660 demo_valid_token \<and>
            expired 1767225660 demo_valid_token"
    by (simp add: signature_ok_def not_yet_valid_def expired_def demo_token_def demo_valid_token_def)
  have aud: "\<exists>c. tv_aud demo_token = Some c \<and> \<not> aud_empty c \<and> EXPECTED_AUDIENCE \<notin> set (aud_values c)"
    by (simp add: demo_token_def aud_empty_def aud_values_def EXPECTED_AUDIENCE_def)
  from gatekeeper_decision [of demo_parse "Some ''s3cret''" 1767225601 "Some ''Bearer e30.e30.sig''"]
    tok ok aud
  have 1: "status (validate_jwt demo_parse (Some ''s3cret'') 1767225601 (Some ''Bearer e30.e30.sig'')) = 401"
    and 2: "detail_of (validate_jwt demo_parse (Some ''s3cret'') 1767225601 (Some ''Bearer e30.e30.sig''))
       = JStr ''Invalid audience''"
    and 3: "status (validate_jwt demo_parse (Some ''s3cret'') 1767225601 (Some ''Bearer e30.e30.sig'')) \<noteq> 200 \<longrightarrow>
      gatekeeper demo_parse (Some ''s3cret'') 1767225601 (Some ''Bearer e30.e30.sig'') =
        Reject (status (validate_jwt demo_parse (Some ''s3cret'') 1767225601 (Some ''Bearer e30.e30.sig'')))"
    by blast+
  from 1 3 have 4: "gatekeeper demo_parse (Some ''s3cret'') 1767225601 (Some ''Bearer e30.e30.sig'') = Reject 401"
    by simp
  from gatekeeper_decision [of demo_parse "Some ''s3cret''" 1767225660 "Some ''Bearer e30.e31.sig''"]
    tok2 late
  have 5: "detail_of (validate_jwt demo_parse (Some ''s3cret'') 1767225660 (Some ''Bearer e30.e31.sig''))
       = JStr ''Token expired''"
    by blast
  from gatekeeper_decision [of demo_parse "Some ''s3cret''" 1767225601 "Some ''Bearer e30.e31.sig''"]
    tok2 ok2
  have "gatekeeper demo_parse (Some ''s3cret'') 1767225601 (Some ''Bearer e30.e31.sig'')
     = Forward [(''X-Auth-User-Id'', case tv_sub demo_valid_token of Some s \<Rightarrow> s | None \<Rightarrow> []),
                (''X-Auth-User-Email'', case tv_email demo_valid_token of Some s \<Rightarrow> s | None \<Rightarrow> [])]"
    by blast
  then have 6: "gatekeeper demo_parse (Some ''s3cret'') 1767225601 (Some ''Bearer e30.e31.sig'')
     = Forward [(''X-Auth-User-Id'', ''u-1''), (''X-Auth-User-Email'', ''a@b.c'')]"
    by (simp add: demo_valid_token_def demo_token_def)
  from ok ok2 late 1 2 4 5 6 show ?thesis by (simp add: demo_token_def)
qed

subsection \<open>Aggregation when upstream calls fail\<close>

lemma fetch_endpoint_failed:
  assumes "call_failed f"
  shows "snd (fetch_endpoint f ep hs) = recordEndpointResult (f_at f) ep False (f_latencyMs f) hs"
    and "r_data (fst (fetch_endpoint f ep hs)) = JNull"
    and "\<not> r_success (fst (fetch_endpoint f ep hs))"
  using assms
  by (auto simp: call_failed_def fetch_endpoint_def split: fetch_result.splits option.splits)

lemma set_settle_order: "set (settle_order fetch eps) = set eps"
  by (simp add: settle_order_def)

lemma fan_out_failed_data:
  "\<forall>ep \<in> set eps. call_failed (fetch ep) \<Longrightarrow>
     \<forall>r \<in> set (fst (fan_out fetch eps hs)). r_data r = JNull \<and> \<not> r_success r"
  by (simp add: fan_out_def fetch_endpoint_failed)

lemma fetch_endpoint_state:
  "snd (fetch_endpoint f ep hs) = recordEndpointResult (f_at f) ep (\<not> call_failed f) (f_latencyMs f) hs"
  by (auto simp: call_failed_def fetch_endpoint_def split: fetch_result.splits option.splits)

lemma fan_out_state:
  "snd (fan_out fetch eps hs) =
     fold (\<lambda>ep. recordEndpointResult (f_at (fetch ep)) ep (\<not> call_failed (fetch ep))
                  (f_latencyMs (fetch ep))) (settle_order fetch eps) hs"
  by (simp add: fan_out_def fetch_endpoint_state)

lemma fan_out_failed_state:
  assumes "\<forall>ep \<in> set eps. call_failed (fetch ep)"
  shows "snd (fan_out fetch eps hs) =
       fold (\<lambda>ep. recordEndpointResult (f_at (fetch ep)) ep False (f_latencyMs (fetch ep)))
         (settle_order fetch eps) hs"
  unfolding fan_out_state
  using assms by (intro fold_cong refl) (simp add: set_settle_order)

lemma result_data_failed:
  "\<forall>r \<in> set rs. r_data r = JNull \<and> \<not> r_success r \<Longrightarrow> result_data rs ep = JObj []"
  by (auto simp: result_data_def js_or_def split: option.splits dest!: find_Some_iff [THEN iffD1])

lemma merge_results_defaults:
  assumes "\<forall>ep. result_data rs ep = JObj []"
  shows "\<exists>p. merge_results tm a rs snap = Inr p \<and>
           js_path p [''markets'', ''futures'', ''connected''] = JBool False \<and>
           js_path p [''markets'', ''crypto'', ''connected''] = JBool False \<and>
           js_path p [''positions''] = JArr [] \<and>
           js_path p [''_health'', ''vpsReachable''] = JBool (vpsReachable snap)"
  using assms
  by (simp add: merge_results_def Let_def js_field_def count_by_state_def slice5_or_empty_def
        map_positions_def js_or_def)


lemma loop_healthy_count:
  "v_healthyCount (snapshot_loop hs v) =
     v_healthyCount v + length (filter (\<lambda>p. status_of (successRate (snd p)) = healthy) hs)"
proof (induction hs arbitrary: v)
  case Nil
  show ?case by simp
next
  case (Cons p rest)
  obtain ep en where p: "p = (ep, en)" by (cases p)
  show ?case by (simp add: p Let_def Cons.IH)
qed

lemma status_healthy_iff: "status_of x = healthy \<longleftrightarrow> 9 / 10 \<le> x"
  by (auto simp: status_of_def)

lemma vpsReachable_iff:
  "vpsReachable (getHealthSnapshot t hs) \<longleftrightarrow> (\<exists>p \<in> set hs. 9 / 10 \<le> successRate (snd p))"
proof -
  have "vpsReachable (getHealthSnapshot t hs) \<longleftrightarrow>
          0 < length (filter (\<lambda>p. status_of (successRate (snd p)) = healthy) hs)"
    by (simp add: getHealthSnapshot_def Let_def loop_healthy_count)
  also have "\<dots> \<longleftrightarrow> (\<exists>p \<in> set hs. status_of (successRate (snd p)) = healthy)"
    by (simp add: filter_empty_conv)
  also have "\<dots> \<longleftrightarrow> (\<exists>p \<in> set hs. 9 / 10 \<le> successRate (snd p))"
    by (simp only: status_healthy_iff)
  finally show ?thesis .
qed


lemma mint_for_identity:
  "INTERNAL_JWT_SECRET e \<noteq> [] \<Longrightarrow>
   createInternalJWT serialise e mt (js_of_opt (userId a)) (js_of_opt (email a)) (js_of_opt (role a))
     = Inr (internal_token serialise e mt a)"
  by (simp add: createInternalJWT_def sign_def Let_def internal_token_def)

lemma mint_without_secret:
  "INTERNAL_JWT_SECRET e = [] \<Longrightarrow>
   createInternalJWT serialise e mt uid mail rl = Inl (JsError ''Key length is zero'')"
  by (simp add: createInternalJWT_def sign_def Let_def)

lemma aggregate_state:
  assumes "INTERNAL_JWT_SECRET e \<noteq> []"
  shows "fst (snd (fetchAndAggregateMetrics serialise e fetch tm hs a sid)) =
           snd (fan_out (\<lambda>ep. fetch (VPS_METRICS_ENDPOINT e @ ep) (internal_token serialise e (mint_at tm) a))
                  AGGREGATE_ENDPOINTS hs)"
  by (simp add: fetchAndAggregateMetrics_def mint_for_identity [OF assms]
        split: prod.splits sum.splits)

lemma set_update_subset: "set (AList.update k v al) \<subseteq> insert (k, v) (set al)"
  by (induction al) auto

lemma record_failure_keeps_zero:
  assumes "\<forall>q \<in> set hs. successCount (snd q) = 0"
  shows "\<forall>q \<in> set (recordEndpointResult t ep False l hs). successCount (snd q) = 0"
proof -
  have "successCount (case map_of hs ep of Some en \<Rightarrow> en | None \<Rightarrow> initEndpointHealth ep) = 0"
    using assms by (auto simp: initEndpointHealth_def split: option.splits dest!: map_of_SomeD)
  then show ?thesis
    using assms set_update_subset
    by (fastforce simp: recordEndpointResult_def Let_def)
qed

lemma fold_failures_keep_zero:
  "\<forall>q \<in> set hs. successCount (snd q) = 0 \<Longrightarrow>
   \<forall>q \<in> set (fold (\<lambda>ep. recordEndpointResult (t ep) ep False (l ep)) eps hs). successCount (snd q) = 0"
proof (induction eps arbitrary: hs)
  case Nil
  then show ?case by simp
next
  case (Cons ep eps)
  from record_failure_keeps_zero [OF Cons.prems, of "t ep" ep "l ep"]
  show ?case by (simp add: Cons.IH)
qed

lemma zero_successes_rate: "successCount en = 0 \<Longrightarrow> successRate en = 0"
  by (simp add: successRate_def Let_def)

lemma aggregate_all_failed:
  assumes secret: "INTERNAL_JWT_SECRET e \<noteq> []"
      and failed: "\<forall>ep \<in> set AGGREGATE_ENDPOINTS.
                     \<forall>tok. call_failed (fetch (VPS_METRICS_ENDPOINT e @ ep) tok)"
  shows "\<exists>agg hs' effs.
           fetchAndAggregateMetrics serialise e fetch tm hs a sid = (Inr agg, hs', effs) \<and>
           js_path (payload_of agg) [''markets'', ''futures'', ''connected''] = JBool False \<and>
           js_path (payload_of agg) [''markets'', ''crypto'', ''connected''] = JBool False \<and>
           js_path (payload_of agg) [''positions''] = JArr [] \<and>
           js_path (payload_of agg) [''_health'', ''vpsReachable'']
             = JBool (\<exists>q \<in> set hs'. 9 / 10 \<le> successRate (snd q)) \<and>
           ((\<forall>q \<in> set hs. successCount (snd q) = 0) \<longrightarrow>
              js_path (payload_of agg) [''_health'', ''vpsReachable''] = JBool False)"
proof -
  define tok where "tok = internal_token serialise e (mint_at tm) a"
  have mint: "createInternalJWT serialise e (mint_at tm) (js_of_opt (userId a))
             (js_of_opt (email a)) (js_of_opt (role a)) = Inr tok"
    using secret by (simp add: mint_for_identity tok_def)
  define f where "f = (\<lambda>ep. fetch (VPS_METRICS_ENDPOINT e @ ep) tok)"
  from failed have ff: "\<forall>ep \<in> set AGGREGATE_ENDPOINTS. call_failed (f ep)"
    by (simp add: f_def)
  obtain rs hs' where fo: "fan_out f AGGREGATE_ENDPOINTS hs = (rs, hs')"
    by (cases "fan_out f AGGREGATE_ENDPOINTS hs")
  from fan_out_failed_data [OF ff, of hs] fo
  have "\<forall>r \<in> set rs. r_data r = JNull \<and> \<not> r_success r" by simp
  then have rd: "\<forall>ep. result_data rs ep = JObj []"
    by (simp add: result_data_failed)
  from fan_out_failed_state [OF ff, of hs] fo
  have st: "hs' = fold (\<lambda>ep. recordEndpointResult (f_at (f ep)) ep False (f_latencyMs (f ep)))
                    (settle_order f AGGREGATE_ENDPOINTS) hs" by simp
  from merge_results_defaults [OF rd, of tm a "getHealthSnapshot (snapshot_at tm) hs'"]
  obtain p where p: "merge_results tm a rs (getHealthSnapshot (snapshot_at tm) hs') = Inr p"
    "js_path p [''markets'', ''futures'', ''connected''] = JBool False"
    "js_path p [''markets'', ''crypto'', ''connected''] = JBool False"
    "js_path p [''positions''] = JArr []"
    "js_path p [''_health'', ''vpsReachable''] = JBool (vpsReachable (getHealthSnapshot (snapshot_at tm) hs'))"
    by blast
  have zero: "\<not> (\<exists>q \<in> set hs'. 9 / 10 \<le> successRate (snd q))"
    if "\<forall>q \<in> set hs. successCount (snd q) = 0"
  proof -
    from fold_failures_keep_zero [OF that, of "\<lambda>ep. f_at (f ep)" "\<lambda>ep. f_latencyMs (f ep)"
           "settle_order f AGGREGATE_ENDPOINTS"]
    have "\<forall>q \<in> set hs'. successCount (snd q) = 0" by (simp add: st)
    then have "\<forall>q \<in> set hs'. successRate (snd q) = 0" by (simp add: zero_successes_rate)
    then show ?thesis by simp
  qed
  have "\<exists>effs. fetchAndAggregateMetrics serialise e fetch tm hs a sid =
          (Inr \<lparr>payload_of = p, endpointResults = rs, totalLatencyMs = total_latency tm\<rparr>, hs', effs)"
    using mint fo p(1) by (simp add: fetchAndAggregateMetrics_def f_def)
  then show ?thesis
    using p(2-5) zero unfolding vpsReachable_iff
    by auto
qed


lemma route_v1_verified:
  assumes "valid (verifySupabaseJWT getUser (case hdr of Some h \<Rightarrow> h | None \<Rightarrow> []))"
  shows "route_v1_aggregate serialise e getUser fetch t tm hs hdr session =
           (case v1_aggregate_handler serialise e fetch tm hs session
                   (verifySupabaseJWT getUser (case hdr of Some h \<Rightarrow> h | None \<Rightarrow> []))
                   (rate_limit_headers t) of
              (r, hs', effs) \<Rightarrow> (r, hs', CredentialCheck (case hdr of Some h \<Rightarrow> h | None \<Rightarrow> []) # effs))"
  using assms by (simp add: route_v1_aggregate_def v1_middleware_def Let_def)

lemma route_v1_state:
  assumes "valid (verifySupabaseJWT getUser (case hdr of Some h \<Rightarrow> h | None \<Rightarrow> []))"
      and "VPS_METRICS_ENDPOINT e \<noteq> []" "INTERNAL_JWT_SECRET e \<noteq> []"
  shows "fst (snd (route_v1_aggregate serialise e getUser fetch t tm hs hdr session)) =
           fold (\<lambda>ep. record_obs
                   \<lparr>obs_at = f_at (fetch (VPS_METRICS_ENDPOINT e @ ep)
                       (internal_token serialise e (mint_at tm)
                          (verifySupabaseJWT getUser (case hdr of Some h \<Rightarrow> h | None \<Rightarrow> [])))),
                    obs_endpoint = ep,
                    obs_success = (\<not> call_failed (fetch (VPS_METRICS_ENDPOINT e @ ep)
                       (internal_token serialise e (mint_at tm)
                          (verifySupabaseJWT getUser (case hdr of Some h \<Rightarrow> h | None \<Rightarrow> []))))),
                    obs_latency = f_latencyMs (fetch (VPS_METRICS_ENDPOINT e @ ep)
                       (internal_token serialise e (mint_at tm)
                          (verifySupabaseJWT getUser (case hdr of Some h \<Rightarrow> h | None \<Rightarrow> []))))\<rparr>)
             (settle_order
                (\<lambda>ep. fetch (VPS_METRICS_ENDPOINT e @ ep)
                   (internal_token serialise e (mint_at tm)
                      (verifySupabaseJWT getUser (case hdr of Some h \<Rightarrow> h | None \<Rightarrow> []))))
                AGGREGATE_ENDPOINTS) hs"
proof -
  let ?a = "verifySupabaseJWT getUser (case hdr of Some h \<Rightarrow> h | None \<Rightarrow> [])"
  let ?sid = "case session of Some s \<Rightarrow> s | None \<Rightarrow> []"
  have "fst (snd (route_v1_aggregate serialise e getUser fetch t tm hs hdr session)) =
          fst (snd (fetchAndAggregateMetrics serialise e fetch tm hs ?a ?sid))"
    using assms(2)
    by (simp add: route_v1_verified [OF assms(1)] v1_aggregate_handler_def Let_def
          split: prod.splits sum.splits js_exn.splits)
  then show ?thesis
    by (simp add: aggregate_state [OF assms(3)] fan_out_state record_obs_def)
qed

lemma valid_demo: "valid (verifySupabaseJWT demo_getUser (case Some ''Bearer abc'' of Some h \<Rightarrow> h | None \<Rightarrow> []))"
  by (simp add: verifySupabaseJWT_def demo_getUser_def)

lemma demo_env_configured: "VPS_METRICS_ENDPOINT demo_env \<noteq> []" "INTERNAL_JWT_SECRET demo_env \<noteq> []"
  by (simp_all add: demo_env_def)

lemma insort_key_first:
  "\<forall>y \<in> set xs. f x \<le> f y \<Longrightarrow> insort_key f x xs = x # xs"
  by (cases xs) simp_all

lemma settle_order_together:
  "\<forall>ep \<in> set eps. f_settled (fetch ep) = c \<Longrightarrow> settle_order fetch eps = eps"
  unfolding settle_order_def
  by (induction eps) (simp_all add: insort_key_first)

lemma demo_ok_step:
  "fst (snd (route_v1_aggregate demo_serialise demo_env demo_getUser demo_fetch_ok
               demo_clock demo_times hs (Some ''Bearer abc'') None)) = fold record_obs (demo_round True 8) hs"
  unfolding route_v1_state [OF valid_demo demo_env_configured]
  by (simp add: settle_order_together [where c = 0] demo_fetch_ok_def)
     (simp add: demo_fetch_ok_def call_failed_def res_ok_def demo_round_def fold_map o_def)

lemma demo_down_step:
  "fst (snd (route_v1_aggregate demo_serialise demo_env demo_getUser demo_fetch_down
               demo_clock demo_times hs (Some ''Bearer abc'') None)) = fold record_obs (demo_round False 30) hs"
  unfolding route_v1_state [OF valid_demo demo_env_configured]
  by (simp add: settle_order_together [where c = 0] demo_fetch_down_def)
     (simp add: demo_fetch_down_def call_failed_def demo_round_def fold_map o_def)

lemma record_all_append: "fold record_obs ys (record_all xs) = record_all (xs @ ys)"
  by (simp add: record_all_def)

lemma demo_warm_history:
  "demo_warm = record_all (concat (replicate 9 (demo_round True 8)))"
  by (simp add: demo_warm_def demo_ok_step eval_nat_numeral record_all_append)
     (simp add: record_all_def)


lemma route_v1_all_failed:
  assumes auth: "valid (verifySupabaseJWT getUser (case hdr of Some h \<Rightarrow> h | None \<Rightarrow> []))"
      and cfg: "VPS_METRICS_ENDPOINT e \<noteq> []" "INTERNAL_JWT_SECRET e \<noteq> []"
      and failed: "\<forall>ep \<in> set AGGREGATE_ENDPOINTS.
                     \<forall>tok. call_failed (fetch (VPS_METRICS_ENDPOINT e @ ep) tok)"
  shows "\<exists>p hs' effs.
           route_v1_aggregate serialise e getUser fetch t tm hs hdr session
             = (c_json (rate_limit_headers t) p 200, hs', effs) \<and>
           js_path p [''markets'', ''futures'', ''connected''] = JBool False \<and>
           js_path p [''markets'', ''crypto'', ''connected''] = JBool False \<and>
           js_path p [''positions''] = JArr [] \<and>
           js_path p [''_health'', ''vpsReachable'']
             = JBool (\<exists>q \<in> set hs'. 9 / 10 \<le> successRate (snd q)) \<and>
           ((\<forall>q \<in> set hs. successCount (snd q) = 0) \<longrightarrow>
              js_path p [''_health'', ''vpsReachable''] = JBool False)"
proof -
  let ?a = "verifySupabaseJWT getUser (case hdr of Some h \<Rightarrow> h | None \<Rightarrow> [])"
  let ?sid = "case session of Some s \<Rightarrow> s | None \<Rightarrow> []"
  from aggregate_all_failed [OF cfg(2) failed, of serialise tm hs ?a ?sid]
  obtain agg hs' effs where
    r: "fetchAndAggregateMetrics serialise e fetch tm hs ?a ?sid = (Inr agg, hs', effs)" and
    p: "js_path (payload_of agg) [''markets'', ''futures'', ''connected''] = JBool False"
       "js_path (payload_of agg) [''markets'', ''crypto'', ''connected''] = JBool False"
       "js_path (payload_of agg) [''positions''] = JArr []"
       "js_path (payload_of agg) [''_health'', ''vpsReachable'']
             = JBool (\<exists>q \<in> set hs'. 9 / 10 \<le> successRate (snd q))"
       "(\<forall>q \<in> set hs. successCount (snd q) = 0) \<longrightarrow>
              js_path (payload_of agg) [''_health'', ''vpsReachable''] = JBool False"
    by blast
  have "route_v1_aggregate serialise e getUser fetch t tm hs hdr session
          = (c_json (rate_limit_headers t) (payload_of agg) 200, hs',
             CredentialCheck (case hdr of Some h \<Rightarrow> h | None \<Rightarrow> []) # effs)"
    using cfg(1) r by (simp add: route_v1_verified [OF auth] v1_aggregate_handler_def Let_def)
  with p show ?thesis by blast
qed

text \<open>
  C4 (amended). For a verified credential, with the upstream base address and the signing
  key configured, an aggregation whose five fan-out calls all fail still completes: the
  versioned route answers 200 with a payload in which markets.futures.connected and
  markets.crypto.connected are false and positions is empty. Its _health.vpsReachable is
  true exactly when, after the five failures have been recorded, some endpoint of the
  health map still has a success rate of at least 0.9 over its whole history; it is false
  in particular when no endpoint had a recorded success before the call, as on a cold
  start.
\<close>

theorem aggregate_survives_total_upstream_failure:
  assumes "valid (verifySupabaseJWT getUser (case hdr of Some h \<Rightarrow> h | None \<Rightarrow> []))"
      and "VPS_METRICS_ENDPOINT e \<noteq> []" and "INTERNAL_JWT_SECRET e \<noteq> []"
      and "\<forall>ep \<in> set AGGREGATE_ENDPOINTS.
             \<forall>tok. call_failed (fetch (VPS_METRICS_ENDPOINT e @ ep) tok)"
  shows "\<exists>p hs' effs.
           route_v1_aggregate serialise e getUser fetch t tm hs hdr session
             = (c_json (rate_limit_headers t) p 200, hs', effs) \<and>
           js_path p [''markets'', ''futures'', ''connected''] = JBool False \<and>
           js_path p [''markets'', ''crypto'', ''connected''] = JBool False \<and>
           js_path p [''positions''] = JArr [] \<and>
           js_path p [''_health'', ''vpsReachable'']
             = JBool (\<exists>q \<in> set hs'. 9 / 10 \<le> successRate (snd q)) \<and>
           ((\<forall>q \<in> set hs. successCount (snd q) = 0) \<longrightarrow>
              js_path p [''_health'', ''vpsReachable''] = JBool False)"
  using assms by (rule route_v1_all_failed)

lemma demo_down_failed:
  "\<forall>ep \<in> set AGGREGATE_ENDPOINTS.
     \<forall>tok. call_failed (demo_fetch_down (VPS_METRICS_ENDPOINT demo_env @ ep) tok)"
  by (simp add: demo_fetch_down_def call_failed_def)

theorem aggregate_survives_total_upstream_failure_witness:
  "valid (verifySupabaseJWT demo_getUser ''Bearer abc'') \<and>
   VPS_METRICS_ENDPOINT demo_env \<noteq> [] \<and> INTERNAL_JWT_SECRET demo_env \<noteq> [] \<and>
   list_all (\<lambda>ep. call_failed (demo_fetch_down (VPS_METRICS_ENDPOINT demo_env @ ep) ''any''))
     AGGREGATE_ENDPOINTS \<and>
   (\<exists>p hs' effs.
      route_v1_aggregate demo_serialise demo_env demo_getUser demo_fetch_down demo_clock demo_times
          [] (Some ''Bearer abc'') None
        = (c_json (rate_limit_headers demo_clock) p 200, hs', effs) \<and>
      js_path p [''markets'', ''futures'', ''connected''] = JBool False \<and>
      js_path p [''markets'', ''crypto'', ''connected''] = JBool False \<and>
      js_path p [''positions''] = JArr [] \<and>
      js_path p [''_health'', ''vpsReachable''] = JBool False)"
proof -
  have h: "list_all (\<lambda>ep. call_failed (demo_fetch_down (VPS_METRICS_ENDPOINT demo_env @ ep) ''any''))
     AGGREGATE_ENDPOINTS"
    using demo_down_failed by (simp add: list_all_iff)
  from aggregate_survives_total_upstream_failure
         [OF valid_demo demo_env_configured demo_down_failed,
          of demo_serialise demo_clock demo_times "[]" None]
  have "\<exists>p hs' effs.
      route_v1_aggregate demo_serialise demo_env demo_getUser demo_fetch_down demo_clock demo_times
          [] (Some ''Bearer abc'') None
        = (c_json (rate_limit_headers demo_clock) p 200, hs', effs) \<and>
      js_path p [''markets'', ''futures'', ''connected''] = JBool False \<and>
      js_path p [''markets'', ''crypto'', ''connected''] = JBool False \<and>
      js_path p [''positions''] = JArr [] \<and>
      js_path p [''_health'', ''vpsReachable''] = JBool False"
    by auto
  with h valid_demo demo_env_configured show ?thesis by simp
qed

text \<open>
  The claim as stated fails: after nine aggregations against an answering upstream, an
  aggregation in which all five calls fail reports _health.vpsReachable = true, each
  endpoint standing at nine successes in ten observations.
\<close>

theorem all_failing_yet_reachable:
  "list_all (\<lambda>ep. call_failed (demo_fetch_down (VPS_METRICS_ENDPOINT demo_env @ ep) ''any''))
     AGGREGATE_ENDPOINTS \<and>
   status (fst (route_v1_aggregate demo_serialise demo_env demo_getUser demo_fetch_down demo_clock
                  demo_times demo_warm (Some ''Bearer abc'') None)) = 200 \<and>
   js_path (body (fst (route_v1_aggregate demo_serialise demo_env demo_getUser demo_fetch_down
                         demo_clock demo_times demo_warm (Some ''Bearer abc'') None)))
      [''_health'', ''vpsReachable''] = JBool True"
proof -
  let ?route = "route_v1_aggregate demo_serialise demo_env demo_getUser demo_fetch_down demo_clock
                  demo_times demo_warm (Some ''Bearer abc'') None"
  have h: "list_all (\<lambda>ep. call_failed (demo_fetch_down (VPS_METRICS_ENDPOINT demo_env @ ep) ''any''))
     AGGREGATE_ENDPOINTS"
    using demo_down_failed by (simp add: list_all_iff)
  from route_v1_all_failed [OF valid_demo demo_env_configured demo_down_failed,
          of demo_serialise demo_clock demo_times demo_warm None]
  obtain p hs' effs where
    r: "?route = (c_json (rate_limit_headers demo_clock) p 200, hs', effs)" and
    v: "js_path p [''_health'', ''vpsReachable''] = JBool (\<exists>q \<in> set hs'. 9 / 10 \<le> successRate (snd q))"
    by blast
  from r have "hs' = fst (snd ?route)" by simp
  then have hs': "hs' = record_all (concat (replicate 9 (demo_round True 8)) @ demo_round False 30)"
    by (simp add: demo_down_step demo_warm_history record_all_append)
  let ?h = "concat (replicate 9 (demo_round True 8)) @ demo_round False 30"
  have obs: "observed ''/brokers/status'' ?h =
      replicate 9 \<lparr>obs_at = demo_clock, obs_endpoint = ''/brokers/status'', obs_success = True, obs_latency = 8\<rparr>
      @ [\<lparr>obs_at = demo_clock, obs_endpoint = ''/brokers/status'', obs_success = False, obs_latency = 30\<rparr>]"
    by (simp add: observed_def demo_round_def AGGREGATE_ENDPOINTS_def eval_nat_numeral)
  then have ne: "observed ''/brokers/status'' ?h \<noteq> []" by simp
  from entry_present [OF ne] obtain en where
    en: "map_of (record_all ?h) ''/brokers/status'' = Some en" and
    m: "entry_matches ''/brokers/status'' (observed ''/brokers/status'' ?h) en" by blast
  from m have "successCount en = 9" "failureCount en = 1"
    unfolding obs by (simp_all add: entry_matches_def)
  then have "successRate en = 9 / 10" by (simp add: successRate_def Let_def)
  moreover from en have "(''/brokers/status'', en) \<in> set hs'"
    unfolding hs' by (rule map_of_SomeD)
  ultimately have "\<exists>q \<in> set hs'. 9 / 10 \<le> successRate (snd q)" by force
  with v have "js_path p [''_health'', ''vpsReachable''] = JBool True" by simp
  with r h show ?thesis by (simp add: c_json_def)
qed


lemma filter_by_state_total:
  "list_all (\<lambda>x. x \<noteq> JNull \<and> x \<noteq> JUndefined) xs \<Longrightarrow> \<exists>kept. filter_by_state tag xs = Inr kept"
proof (induction xs)
  case Nil
  show ?case by simp
next
  case (Cons x xs)
  then obtain kept where k: "filter_by_state tag xs = Inr kept" by auto
  from Cons.prems have "x \<noteq> JNull" "x \<noteq> JUndefined" by simp_all
  then obtain v where "js_get x ''state'' = Inr v" by (cases x) simp_all
  with k show ?case by simp
qed

lemma count_by_state_total: "elements_ok v \<Longrightarrow> \<exists>n. count_by_state v tag = Inr n"
proof (cases v)
  case (JArr xs)
  assume "elements_ok v"
  with JArr filter_by_state_total [of xs tag] show ?thesis
    by (auto simp: count_by_state_def)
qed (simp_all add: count_by_state_def)

lemma slice5_total: "sliceable v \<Longrightarrow> \<exists>x. slice5_or_empty v = Inr x"
  by (cases v) (simp_all add: slice5_or_empty_def)

lemma positions_from_total:
  "list_all (\<lambda>x. x \<noteq> JNull \<and> x \<noteq> JUndefined) xs \<Longrightarrow> \<exists>ps. positions_from i xs = Inr ps"
proof (induction xs arbitrary: i)
  case Nil
  show ?case by simp
next
  case (Cons x xs)
  then obtain ps where k: "positions_from (i + 1) xs = Inr ps" by fastforce
  from Cons.prems have "x \<noteq> JNull" "x \<noteq> JUndefined" by simp_all
  then obtain v where "js_get x ''symbol'' = Inr v" by (cases x) simp_all
  then obtain y where "position_of i x = Inr y" by (simp add: position_of_def)
  with k show ?case by simp
qed

lemma map_positions_total:
  "\<not> truthy v \<or> elements_ok v \<Longrightarrow> \<exists>x. map_positions v = Inr x"
proof (cases "truthy v")
  case False
  then show ?thesis by (simp add: map_positions_def js_or_def)
next
  case True
  assume "\<not> truthy v \<or> elements_ok v"
  with True have ok: "elements_ok v" by simp
  with True obtain xs where v: "v = JArr xs" by (cases v) simp_all
  with ok positions_from_total [of xs 0] show ?thesis
    by (auto simp: map_positions_def js_or_def)
qed

lemma merge_results_total:
  assumes "\<forall>ep. mergeable (result_data rs ep)"
  shows "\<exists>p. merge_results tm a rs snap = Inr p"
proof -
  from assms have m1: "mergeable (result_data rs ''/strategies/proving'')"
    and m2: "mergeable (result_data rs ''/strategies/promotions'')"
    and m3: "mergeable (result_data rs ''/trades/live'')" by blast+
  from m1 count_by_state_total obtain n1 n2 where
    c1: "count_by_state (js_field (result_data rs ''/strategies/proving'') ''strategies'') ''active'' = Inr n1" and
    c2: "count_by_state (js_field (result_data rs ''/strategies/proving'') ''strategies'') ''queued'' = Inr n2"
    unfolding mergeable_def by meson
  from m2 slice5_total obtain h where
    c3: "slice5_or_empty (js_field (result_data rs ''/strategies/promotions'') ''history'') = Inr h"
    unfolding mergeable_def by meson
  from m3 map_positions_total obtain ps where
    c4: "map_positions (js_field (result_data rs ''/trades/live'') ''positions'') = Inr ps"
    unfolding mergeable_def by meson
  show ?thesis
    by (simp add: merge_results_def Let_def c1 c2 c3 c4)
qed

lemma mergeable_empty: "mergeable (JObj [])"
  by (simp add: mergeable_def js_field_def)

lemma fetch_endpoint_absorbed:
  "absorbed f \<Longrightarrow> mergeable (js_or (r_data (fst (fetch_endpoint f ep hs))) (JObj []))"
  by (auto simp: absorbed_def fetch_endpoint_def js_or_def mergeable_empty
        split: fetch_result.splits option.splits)

lemma fan_out_absorbed:
  "\<forall>ep \<in> set eps. absorbed (fetch ep) \<Longrightarrow>
     \<forall>r \<in> set (fst (fan_out fetch eps hs)). mergeable (js_or (r_data r) (JObj []))"
  by (simp add: fan_out_def fetch_endpoint_absorbed)

lemma result_data_mergeable:
  "\<forall>r \<in> set rs. mergeable (js_or (r_data r) (JObj [])) \<Longrightarrow> mergeable (result_data rs ep)"
  by (auto simp: result_data_def mergeable_empty split: option.splits dest!: find_Some_iff [THEN iffD1])

lemma aggregate_absorbs:
  assumes secret: "INTERNAL_JWT_SECRET e \<noteq> []"
      and ok: "\<forall>ep \<in> set AGGREGATE_ENDPOINTS. \<forall>tok. absorbed (fetch (VPS_METRICS_ENDPOINT e @ ep) tok)"
  shows "\<exists>agg hs' effs. fetchAndAggregateMetrics serialise e fetch tm hs a sid = (Inr agg, hs', effs)"
proof -
  define tok where "tok = internal_token serialise e (mint_at tm) a"
  have mint: "createInternalJWT serialise e (mint_at tm) (js_of_opt (userId a))
             (js_of_opt (email a)) (js_of_opt (role a)) = Inr tok"
    using secret by (simp add: mint_for_identity tok_def)
  define f where "f = (\<lambda>ep. fetch (VPS_METRICS_ENDPOINT e @ ep) tok)"
  from ok have ff: "\<forall>ep \<in> set AGGREGATE_ENDPOINTS. absorbed (f ep)" by (simp add: f_def)
  obtain rs hs' where fo: "fan_out f AGGREGATE_ENDPOINTS hs = (rs, hs')"
    by (cases "fan_out f AGGREGATE_ENDPOINTS hs")
  from fan_out_absorbed [OF ff, of hs] fo
  have "\<forall>ep. mergeable (result_data rs ep)" by (simp add: result_data_mergeable)
  from merge_results_total [OF this, of tm a "getHealthSnapshot (snapshot_at tm) hs'"]
  obtain p where "merge_results tm a rs (getHealthSnapshot (snapshot_at tm) hs') = Inr p" by blast
  then show ?thesis
    using mint fo by (simp add: fetchAndAggregateMetrics_def f_def)
qed

lemma aggregate_without_secret:
  "INTERNAL_JWT_SECRET e = [] \<Longrightarrow>
   fetchAndAggregateMetrics serialise e fetch tm hs a sid =
     (Inl (JsError ''Key length is zero''), hs, [TokenMint])"
  by (simp add: fetchAndAggregateMetrics_def mint_without_secret)

subsection \<open>How the aggregate operation fails\<close>

lemma route_v1_unconfigured:
  assumes "valid (verifySupabaseJWT getUser (case hdr of Some h \<Rightarrow> h | None \<Rightarrow> []))"
      and "VPS_METRICS_ENDPOINT e = []"
  shows "route_v1_aggregate serialise e getUser fetch t tm hs hdr session =
           (c_json (rate_limit_headers t) (JObj [(''error'', JStr ''VPS endpoint not configured'')]) 503,
            hs, [CredentialCheck (case hdr of Some h \<Rightarrow> h | None \<Rightarrow> [])])"
  using assms(2) by (simp add: route_v1_verified [OF assms(1)] v1_aggregate_handler_def Let_def)

lemma route_v1_configured:
  assumes "valid (verifySupabaseJWT getUser (case hdr of Some h \<Rightarrow> h | None \<Rightarrow> []))"
      and "VPS_METRICS_ENDPOINT e \<noteq> []"
  shows "route_v1_aggregate serialise e getUser fetch t tm hs hdr session =
           (case fetchAndAggregateMetrics serialise e fetch tm hs
                   (verifySupabaseJWT getUser (case hdr of Some h \<Rightarrow> h | None \<Rightarrow> []))
                   (case session of Some s \<Rightarrow> s | None \<Rightarrow> []) of
              (Inr agg, hs', effs) \<Rightarrow>
                (c_json (rate_limit_headers t) (payload_of agg) 200, hs',
                 CredentialCheck (case hdr of Some h \<Rightarrow> h | None \<Rightarrow> []) # effs)
            | (Inl (JsError m), hs', effs) \<Rightarrow>
                (c_json (rate_limit_headers t)
                   (JObj [(''error'', JStr ''Aggregation error''), (''message'', JStr m)]) 500, hs',
                 CredentialCheck (case hdr of Some h \<Rightarrow> h | None \<Rightarrow> []) # effs))"
  using assms(2)
  by (simp add: route_v1_verified [OF assms(1)] v1_aggregate_handler_def Let_def
        split: prod.splits sum.splits js_exn.splits)

lemma route_v1_without_secret:
  assumes "valid (verifySupabaseJWT getUser (case hdr of Some h \<Rightarrow> h | None \<Rightarrow> []))"
      and "VPS_METRICS_ENDPOINT e \<noteq> []" and "INTERNAL_JWT_SECRET e = []"
  shows "route_v1_aggregate serialise e getUser fetch t tm hs hdr session =
           (c_json (rate_limit_headers t)
              (JObj [(''error'', JStr ''Aggregation error''),
                     (''message'', JStr ''Key length is zero'')]) 500,
            hs, [CredentialCheck (case hdr of Some h \<Rightarrow> h | None \<Rightarrow> []), TokenMint])"
  by (simp add: route_v1_configured [OF assms(1,2)] aggregate_without_secret [OF assms(3)])

lemma route_v1_status_cases:
  assumes "valid (verifySupabaseJWT getUser (case hdr of Some h \<Rightarrow> h | None \<Rightarrow> []))"
  shows "status (fst (route_v1_aggregate serialise e getUser fetch t tm hs hdr session)) = 200 \<or>
         status (fst (route_v1_aggregate serialise e getUser fetch t tm hs hdr session)) = 500 \<or>
         status (fst (route_v1_aggregate serialise e getUser fetch t tm hs hdr session)) = 503"
proof (cases "VPS_METRICS_ENDPOINT e = []")
  case True
  then show ?thesis by (simp add: route_v1_unconfigured [OF assms] c_json_def)
next
  case False
  then show ?thesis
    by (simp add: route_v1_configured [OF assms] c_json_def split: prod.splits sum.splits js_exn.splits)
qed

lemma route_v1_503_iff:
  assumes "valid (verifySupabaseJWT getUser (case hdr of Some h \<Rightarrow> h | None \<Rightarrow> []))"
  shows "status (fst (route_v1_aggregate serialise e getUser fetch t tm hs hdr session)) = 503
           \<longleftrightarrow> VPS_METRICS_ENDPOINT e = []"
proof (cases "VPS_METRICS_ENDPOINT e = []")
  case True
  then show ?thesis by (simp add: route_v1_unconfigured [OF assms] c_json_def)
next
  case False
  then show ?thesis
    by (simp add: route_v1_configured [OF assms] c_json_def split: prod.splits sum.splits js_exn.splits)
qed

lemma route_v1_absorbs:
  assumes "valid (verifySupabaseJWT getUser (case hdr of Some h \<Rightarrow> h | None \<Rightarrow> []))"
      and "VPS_METRICS_ENDPOINT e \<noteq> []" and "INTERNAL_JWT_SECRET e \<noteq> []"
      and "\<forall>ep \<in> set AGGREGATE_ENDPOINTS. \<forall>tok. absorbed (fetch (VPS_METRICS_ENDPOINT e @ ep) tok)"
  shows "status (fst (route_v1_aggregate serialise e getUser fetch t tm hs hdr session)) = 200"
proof -
  from aggregate_absorbs [OF assms(3,4)] obtain agg hs' effs where
    "fetchAndAggregateMetrics serialise e fetch tm hs
                   (verifySupabaseJWT getUser (case hdr of Some h \<Rightarrow> h | None \<Rightarrow> []))
                   (case session of Some s \<Rightarrow> s | None \<Rightarrow> []) = (Inr agg, hs', effs)"
    by blast
  then show ?thesis
    by (simp add: route_v1_configured [OF assms(1,2)] c_json_def)
qed

text \<open>
  C7 (amended). For a verified credential the versioned aggregate route answers 200, 500
  or 503. It answers 503 exactly when the upstream base address is not configured, with
  the error "VPS endpoint not configured" and before any token is minted or anything is
  fetched. A missing signing key makes minting fail; the failure is caught by the
  handler's catch-all and answered 500 with the error "Aggregation error", nothing having
  been fetched and nothing retried. With both configured, faults of the fan-out calls are
  absorbed: when every call either failed (network exception, status outside 2xx, body
  that is not JSON) or returned a body of a shape the merge can read, the answer is 200.
\<close>

theorem aggregate_failure_kinds:
  assumes "valid (verifySupabaseJWT getUser (case hdr of Some h \<Rightarrow> h | None \<Rightarrow> []))"
  shows "(status (fst (route_v1_aggregate serialise e getUser fetch t tm hs hdr session)) = 200 \<or>
          status (fst (route_v1_aggregate serialise e getUser fetch t tm hs hdr session)) = 500 \<or>
          status (fst (route_v1_aggregate serialise e getUser fetch t tm hs hdr session)) = 503) \<and>
         (status (fst (route_v1_aggregate serialise e getUser fetch t tm hs hdr session)) = 503
            \<longleftrightarrow> VPS_METRICS_ENDPOINT e = []) \<and>
         (VPS_METRICS_ENDPOINT e = [] \<longrightarrow>
            route_v1_aggregate serialise e getUser fetch t tm hs hdr session =
              (c_json (rate_limit_headers t)
                 (JObj [(''error'', JStr ''VPS endpoint not configured'')]) 503,
               hs, [CredentialCheck (case hdr of Some h \<Rightarrow> h | None \<Rightarrow> [])])) \<and>
         (VPS_METRICS_ENDPOINT e \<noteq> [] \<and> INTERNAL_JWT_SECRET e = [] \<longrightarrow>
            route_v1_aggregate serialise e getUser fetch t tm hs hdr session =
              (c_json (rate_limit_headers t)
                 (JObj [(''error'', JStr ''Aggregation error''),
                        (''message'', JStr ''Key length is zero'')]) 500,
               hs, [CredentialCheck (case hdr of Some h \<Rightarrow> h | None \<Rightarrow> []), TokenMint])) \<and>
         (VPS_METRICS_ENDPOINT e \<noteq> [] \<and> INTERNAL_JWT_SECRET e \<noteq> [] \<and>
          (\<forall>ep \<in> set AGGREGATE_ENDPOINTS. \<forall>tok. absorbed (fetch (VPS_METRICS_ENDPOINT e @ ep) tok)) \<longrightarrow>
            status (fst (route_v1_aggregate serialise e getUser fetch t tm hs hdr session)) = 200)"
proof (intro conjI impI)
  show "status (fst (route_v1_aggregate serialise e getUser fetch t tm hs hdr session)) = 200 \<or>
        status (fst (route_v1_aggregate serialise e getUser fetch t tm hs hdr session)) = 500 \<or>
        status (fst (route_v1_aggregate serialise e getUser fetch t tm hs hdr session)) = 503"
    by (rule route_v1_status_cases [OF assms])
  show "status (fst (route_v1_aggregate serialise e getUser fetch t tm hs hdr session)) = 503
          \<longleftrightarrow> VPS_METRICS_ENDPOINT e = []"
    by (rule route_v1_503_iff [OF assms])
  show "route_v1_aggregate serialise e getUser fetch t tm hs hdr session =
          (c_json (rate_limit_headers t)
             (JObj [(''error'', JStr ''VPS endpoint not configured'')]) 503,
           hs, [CredentialCheck (case hdr of Some h \<Rightarrow> h | None \<Rightarrow> [])])"
    if "VPS_METRICS_ENDPOINT e = []"
    using that by (rule route_v1_unconfigured [OF assms])
  show "route_v1_aggregate serialise e getUser fetch t tm hs hdr session =
          (c_json (rate_limit_headers t)
             (JObj [(''error'', JStr ''Aggregation error''),
                    (''message'', JStr ''Key length is zero'')]) 500,
           hs, [CredentialCheck (case hdr of Some h \<Rightarrow> h | None \<Rightarrow> []), TokenMint])"
    if "VPS_METRICS_ENDPOINT e \<noteq> [] \<and> INTERNAL_JWT_SECRET e = []"
    using that by (simp add: route_v1_without_secret [OF assms])
  show "status (fst (route_v1_aggregate serialise e getUser fetch t tm hs hdr session)) = 200"
    if "VPS_METRICS_ENDPOINT e \<noteq> [] \<and> INTERNAL_JWT_SECRET e \<noteq> [] \<and>
        (\<forall>ep \<in> set AGGREGATE_ENDPOINTS. \<forall>tok. absorbed (fetch (VPS_METRICS_ENDPOINT e @ ep) tok))"
    using that route_v1_absorbs [OF assms, of e fetch] by blast
qed

theorem aggregate_failure_kinds_witness:
  "valid (verifySupabaseJWT demo_getUser ''Bearer abc'') \<and>
   VPS_METRICS_ENDPOINT demo_env_no_key \<noteq> [] \<and> INTERNAL_JWT_SECRET demo_env_no_key = [] \<and>
   route_v1_aggregate demo_serialise demo_env_no_key demo_getUser demo_fetch_ok demo_clock demo_times
       [] (Some ''Bearer abc'') None =
     (c_json (rate_limit_headers demo_clock)
        (JObj [(''error'', JStr ''Aggregation error''),
               (''message'', JStr ''Key length is zero'')]) 500,
      [], [CredentialCheck ''Bearer abc'', TokenMint]) \<and>
   VPS_METRICS_ENDPOINT demo_env_no_upstream = [] \<and>
   route_v1_aggregate demo_serialise demo_env_no_upstream demo_getUser demo_fetch_ok demo_clock
       demo_times [] (Some ''Bearer abc'') None =
     (c_json (rate_limit_headers demo_clock)
        (JObj [(''error'', JStr ''VPS endpoint not configured'')]) 503,
      [], [CredentialCheck ''Bearer abc'']) \<and>
   list_all (\<lambda>ep. absorbed (demo_fetch_down (VPS_METRICS_ENDPOINT demo_env @ ep) ''any''))
     AGGREGATE_ENDPOINTS \<and>
   status (fst (route_v1_aggregate demo_serialise demo_env demo_getUser demo_fetch_down demo_clock
                  demo_times [] (Some ''Bearer abc'') None)) = 200"
proof -
  have c: "VPS_METRICS_ENDPOINT demo_env_no_key \<noteq> [] \<and> INTERNAL_JWT_SECRET demo_env_no_key = []"
    by (simp add: demo_env_no_key_def)
  have u: "VPS_METRICS_ENDPOINT demo_env_no_upstream = []"
    by (simp add: demo_env_no_upstream_def)
  have d: "\<forall>ep \<in> set AGGREGATE_ENDPOINTS.
             \<forall>tok. absorbed (demo_fetch_down (VPS_METRICS_ENDPOINT demo_env @ ep) tok)"
    by (simp add: demo_fetch_down_def absorbed_def)
  then have d': "list_all (\<lambda>ep. absorbed (demo_fetch_down (VPS_METRICS_ENDPOINT demo_env @ ep) ''any''))
     AGGREGATE_ENDPOINTS"
    by (simp add: list_all_iff)
  note t = aggregate_failure_kinds [OF valid_demo, where serialise = demo_serialise
             and t = demo_clock and tm = demo_times and hs = "[]" and session = None]
  from t [where e = demo_env_no_key and fetch = demo_fetch_ok] c
  have 1: "route_v1_aggregate demo_serialise demo_env_no_key demo_getUser demo_fetch_ok demo_clock demo_times
       [] (Some ''Bearer abc'') None =
     (c_json (rate_limit_headers demo_clock)
        (JObj [(''error'', JStr ''Aggregation error''),
               (''message'', JStr ''Key length is zero'')]) 500,
      [], [CredentialCheck ''Bearer abc'', TokenMint])"
    by simp
  from t [where e = demo_env_no_upstream and fetch = demo_fetch_ok] u
  have 2: "route_v1_aggregate demo_serialise demo_env_no_upstream demo_getUser demo_fetch_ok demo_clock
       demo_times [] (Some ''Bearer abc'') None =
     (c_json (rate_limit_headers demo_clock)
        (JObj [(''error'', JStr ''VPS endpoint not configured'')]) 503,
      [], [CredentialCheck ''Bearer abc''])"
    by simp
  from t [where e = demo_env and fetch = demo_fetch_down] d demo_env_configured
  have 3: "status (fst (route_v1_aggregate demo_serialise demo_env demo_getUser demo_fetch_down demo_clock
                  demo_times [] (Some ''Bearer abc'') None)) = 200"
    by blast
  from valid_demo c u d' 1 2 3 show ?thesis by simp
qed

text \<open>
  The claim as stated fails: with the signing key missing the response is 500 with the
  generic aggregation error, not a 503-class configuration error.
\<close>

theorem missing_signing_key_is_500:
  "INTERNAL_JWT_SECRET demo_env_no_key = [] \<and>
   status (fst (route_v1_aggregate demo_serialise demo_env_no_key demo_getUser demo_fetch_ok
                  demo_clock demo_times [] (Some ''Bearer abc'') None)) = 500 \<and>
   js_path (body (fst (route_v1_aggregate demo_serialise demo_env_no_key demo_getUser demo_fetch_ok
                  demo_clock demo_times [] (Some ''Bearer abc'') None))) [''error'']
     = JStr ''Aggregation error''"
proof -
  have c: "VPS_METRICS_ENDPOINT demo_env_no_key \<noteq> []" "INTERNAL_JWT_SECRET demo_env_no_key = []"
    by (simp_all add: demo_env_no_key_def)
  show ?thesis
    by (simp add: route_v1_without_secret [OF valid_demo c] c c_json_def js_field_def)
qed


subsection \<open>The legacy dashboard path and the versioned aggregate path\<close>

lemma route_dashboard_verified:
  assumes "valid (verifySupabaseJWT getUser (case hdr of Some h \<Rightarrow> h | None \<Rightarrow> []))"
  shows "route_dashboard serialise e getUser fetch tm hs hdr session =
           (if VPS_METRICS_ENDPOINT e = []
            then (c_json [] (JObj [(''error'', JStr ''VPS endpoint not configured'')]) 503,
                  hs, [CredentialCheck (case hdr of Some h \<Rightarrow> h | None \<Rightarrow> [])])
            else
              (case fetchAndAggregateMetrics serialise e fetch tm hs
                      (verifySupabaseJWT getUser (case hdr of Some h \<Rightarrow> h | None \<Rightarrow> []))
                      (case session of Some s \<Rightarrow> s | None \<Rightarrow> []) of
                 (Inr agg, hs', effs) \<Rightarrow>
                   (c_json deprecation_headers (payload_of agg) 200, hs',
                    CredentialCheck (case hdr of Some h \<Rightarrow> h | None \<Rightarrow> []) # effs)
               | (Inl (JsError m), hs', effs) \<Rightarrow>
                   (c_json [] (JObj [(''error'', JStr ''Dashboard proxy error''), (''message'', JStr m)]) 500,
                    hs', CredentialCheck (case hdr of Some h \<Rightarrow> h | None \<Rightarrow> []) # effs)))"
  using assms
  by (simp add: route_dashboard_def Let_def split: prod.splits sum.splits js_exn.splits)

lemma route_v1_cases:
  assumes "valid (verifySupabaseJWT getUser (case hdr of Some h \<Rightarrow> h | None \<Rightarrow> []))"
  shows "route_v1_aggregate serialise e getUser fetch t tm hs hdr session =
           (if VPS_METRICS_ENDPOINT e = []
            then (c_json (rate_limit_headers t) (JObj [(''error'', JStr ''VPS endpoint not configured'')]) 503,
                  hs, [CredentialCheck (case hdr of Some h \<Rightarrow> h | None \<Rightarrow> [])])
            else
              (case fetchAndAggregateMetrics serialise e fetch tm hs
                      (verifySupabaseJWT getUser (case hdr of Some h \<Rightarrow> h | None \<Rightarrow> []))
                      (case session of Some s \<Rightarrow> s | None \<Rightarrow> []) of
                 (Inr agg, hs', effs) \<Rightarrow>
                   (c_json (rate_limit_headers t) (payload_of agg) 200, hs',
                    CredentialCheck (case hdr of Some h \<Rightarrow> h | None \<Rightarrow> []) # effs)
               | (Inl (JsError m), hs', effs) \<Rightarrow>
                   (c_json (rate_limit_headers t)
                      (JObj [(''error'', JStr ''Aggregation error''), (''message'', JStr m)]) 500,
                    hs', CredentialCheck (case hdr of Some h \<Rightarrow> h | None \<Rightarrow> []) # effs)))"
  using route_v1_unconfigured [OF assms] route_v1_configured [OF assms]
  by (cases "VPS_METRICS_ENDPOINT e = []") simp_all

lemma legacy_and_versioned:
  assumes "valid (verifySupabaseJWT getUser (case hdr of Some h \<Rightarrow> h | None \<Rightarrow> []))"
  shows "status (fst (route_dashboard serialise e getUser fetch tm hs hdr session))
           = status (fst (route_v1_aggregate serialise e getUser fetch t tm hs hdr session))"
    and "snd (route_dashboard serialise e getUser fetch tm hs hdr session)
           = snd (route_v1_aggregate serialise e getUser fetch t tm hs hdr session)"
    and "status (fst (route_v1_aggregate serialise e getUser fetch t tm hs hdr session)) \<noteq> 500 \<Longrightarrow>
         body (fst (route_dashboard serialise e getUser fetch tm hs hdr session))
           = body (fst (route_v1_aggregate serialise e getUser fetch t tm hs hdr session))"
    and "headers (fst (route_v1_aggregate serialise e getUser fetch t tm hs hdr session))
           = rate_limit_headers t"
    and "headers (fst (route_dashboard serialise e getUser fetch tm hs hdr session))
           = (if status (fst (route_dashboard serialise e getUser fetch tm hs hdr session)) = 200
              then deprecation_headers else [])"
  unfolding route_dashboard_verified [OF assms] route_v1_cases [OF assms]
  by (auto simp: c_json_def split: prod.splits sum.splits js_exn.splits if_splits)


text \<open>
  C5 (amended). For the same verified credential, session id, upstream answers, clock
  readings and health map, the legacy dashboard path and the versioned aggregate path run
  the same aggregation: they answer with the same status, leave the same health map and
  perform the same effects, and their bodies are identical unless the aggregation throws
  (status 500, where only the error label differs). Their headers differ both ways: the
  legacy path carries Deprecation: true, Sunset: 2026-06-01 and the successor-version Link
  on its 200 response and no header otherwise; the versioned path carries
  X-RateLimit-Limit, X-RateLimit-Remaining, X-RateLimit-Reset and X-API-Version on every
  response, which the legacy path never carries.
\<close>

theorem legacy_matches_versioned:
  assumes "valid (verifySupabaseJWT getUser (case hdr of Some h \<Rightarrow> h | None \<Rightarrow> []))"
  shows "status (fst (route_dashboard serialise e getUser fetch tm hs hdr session))
           = status (fst (route_v1_aggregate serialise e getUser fetch t tm hs hdr session)) \<and>
         snd (route_dashboard serialise e getUser fetch tm hs hdr session)
           = snd (route_v1_aggregate serialise e getUser fetch t tm hs hdr session) \<and>
         (status (fst (route_v1_aggregate serialise e getUser fetch t tm hs hdr session)) \<noteq> 500 \<longrightarrow>
            body (fst (route_dashboard serialise e getUser fetch tm hs hdr session))
              = body (fst (route_v1_aggregate serialise e getUser fetch t tm hs hdr session))) \<and>
         headers (fst (route_dashboard serialise e getUser fetch tm hs hdr session))
           = (if status (fst (route_dashboard serialise e getUser fetch tm hs hdr session)) = 200
              then [(''Deprecation'', ''true''), (''Sunset'', ''2026-06-01''),
                    (''Link'', ''</metrics-proxy-jwt/v1/metrics/aggregate>; rel='' @ dquote @
                               ''successor-version'' @ dquote)]
              else []) \<and>
         headers (fst (route_v1_aggregate serialise e getUser fetch t tm hs hdr session))
           = [(''X-RateLimit-Limit'', ''60''), (''X-RateLimit-Remaining'', ''59''),
              (''X-RateLimit-Reset'', show_nat (now_ms t div 1000 + 60)),
              (''X-API-Version'', ''v1'')]"
proof (intro conjI impI)
  show "status (fst (route_dashboard serialise e getUser fetch tm hs hdr session))
           = status (fst (route_v1_aggregate serialise e getUser fetch t tm hs hdr session))"
    by (rule legacy_and_versioned(1) [OF assms])
  show "snd (route_dashboard serialise e getUser fetch tm hs hdr session)
           = snd (route_v1_aggregate serialise e getUser fetch t tm hs hdr session)"
    by (rule legacy_and_versioned(2) [OF assms])
  show "body (fst (route_dashboard serialise e getUser fetch tm hs hdr session))
              = body (fst (route_v1_aggregate serialise e getUser fetch t tm hs hdr session))"
    if "status (fst (route_v1_aggregate serialise e getUser fetch t tm hs hdr session)) \<noteq> 500"
    using that by (rule legacy_and_versioned(3) [OF assms])
  show "headers (fst (route_dashboard serialise e getUser fetch tm hs hdr session))
           = (if status (fst (route_dashboard serialise e getUser fetch tm hs hdr session)) = 200
              then [(''Deprecation'', ''true''), (''Sunset'', ''2026-06-01''),
                    (''Link'', ''</metrics-proxy-jwt/v1/metrics/aggregate>; rel='' @ dquote @
                               ''successor-version'' @ dquote)]
              else [])"
    using legacy_and_versioned(5) [OF assms, of serialise e fetch tm hs session]
    by (simp add: deprecation_headers_def)
  show "headers (fst (route_v1_aggregate serialise e getUser fetch t tm hs hdr session))
           = [(''X-RateLimit-Limit'', ''60''), (''X-RateLimit-Remaining'', ''59''),
              (''X-RateLimit-Reset'', show_nat (now_ms t div 1000 + 60)),
              (''X-API-Version'', ''v1'')]"
    using legacy_and_versioned(4) [OF assms, of serialise e fetch t tm hs session]
    by (simp add: rate_limit_headers_def API_VERSION_def)
qed

lemma demo_ok_absorbed:
  "\<forall>ep \<in> set AGGREGATE_ENDPOINTS. \<forall>tok. absorbed (demo_fetch_ok (VPS_METRICS_ENDPOINT demo_env @ ep) tok)"
  by (simp add: demo_fetch_ok_def absorbed_def mergeable_def js_field_def)

lemma demo_v1_200:
  "status (fst (route_v1_aggregate demo_serialise demo_env demo_getUser demo_fetch_ok demo_clock
                  demo_times [] (Some ''Bearer abc'') (Some ''s-1''))) = 200"
  by (rule route_v1_absorbs [OF valid_demo demo_env_configured demo_ok_absorbed])

theorem legacy_matches_versioned_witness:
  "valid (verifySupabaseJWT demo_getUser ''Bearer abc'') \<and>
   status (fst (route_dashboard demo_serialise demo_env demo_getUser demo_fetch_ok demo_times []
                  (Some ''Bearer abc'') (Some ''s-1''))) = 200 \<and>
   body (fst (route_dashboard demo_serialise demo_env demo_getUser demo_fetch_ok demo_times []
                  (Some ''Bearer abc'') (Some ''s-1'')))
     = body (fst (route_v1_aggregate demo_serialise demo_env demo_getUser demo_fetch_ok demo_clock
                  demo_times [] (Some ''Bearer abc'') (Some ''s-1''))) \<and>
   map fst (headers (fst (route_dashboard demo_serialise demo_env demo_getUser demo_fetch_ok demo_times []
                  (Some ''Bearer abc'') (Some ''s-1''))))
     = [''Deprecation'', ''Sunset'', ''Link'']"
  using legacy_matches_versioned [OF valid_demo, of demo_serialise demo_env demo_fetch_ok demo_times
          "[]" "Some ''s-1''" demo_clock] demo_v1_200 valid_demo
  by simp

text \<open>
  The claim as stated fails: on a completed aggregation the versioned response is not the
  legacy response without its deprecation headers, since it carries X-API-Version (and
  the rate-limit headers), which the legacy response lacks.
\<close>

theorem versioned_has_headers_legacy_lacks:
  "status (fst (route_v1_aggregate demo_serialise demo_env demo_getUser demo_fetch_ok demo_clock
                  demo_times [] (Some ''Bearer abc'') (Some ''s-1''))) = 200 \<and>
   fst (route_v1_aggregate demo_serialise demo_env demo_getUser demo_fetch_ok demo_clock
          demo_times [] (Some ''Bearer abc'') (Some ''s-1''))
     \<noteq> without_deprecation
          (fst (route_dashboard demo_serialise demo_env demo_getUser demo_fetch_ok demo_times []
                  (Some ''Bearer abc'') (Some ''s-1''))) \<and>
   map_of (headers (fst (route_v1_aggregate demo_serialise demo_env demo_getUser demo_fetch_ok
          demo_clock demo_times [] (Some ''Bearer abc'') (Some ''s-1'')))) ''X-API-Version''
     = Some ''v1'' \<and>
   map_of (headers (fst (route_dashboard demo_serialise demo_env demo_getUser demo_fetch_ok
          demo_times [] (Some ''Bearer abc'') (Some ''s-1'')))) ''X-API-Version'' = None"
proof -
  let ?v = "fst (route_v1_aggregate demo_serialise demo_env demo_getUser demo_fetch_ok demo_clock
                  demo_times [] (Some ''Bearer abc'') (Some ''s-1''))"
  let ?d = "fst (route_dashboard demo_serialise demo_env demo_getUser demo_fetch_ok demo_times []
                  (Some ''Bearer abc'') (Some ''s-1''))"
  note l = legacy_and_versioned [OF valid_demo]
  have hv: "headers ?v = rate_limit_headers demo_clock" by (rule l(4))
  have "status ?d = status ?v" by (rule l(1))
  then have sd: "status ?d = 200" using demo_v1_200 by simp
  have hd: "headers ?d = deprecation_headers" using l(5) [of demo_serialise demo_env demo_fetch_ok demo_times "[]" "Some ''s-1''"] sd by simp
  have "headers (without_deprecation ?d) = []"
    by (simp add: without_deprecation_def hd deprecation_headers_def)
  moreover have "headers ?v \<noteq> []" by (simp add: hv rate_limit_headers_def)
  ultimately have ne: "?v \<noteq> without_deprecation ?d" by auto
  have 1: "map_of (headers ?v) ''X-API-Version'' = Some ''v1''"
    by (simp add: hv rate_limit_headers_def API_VERSION_def)
  have 2: "map_of (headers ?d) ''X-API-Version'' = None"
    by (simp add: hd deprecation_headers_def)
  from demo_v1_200 ne 1 2 show ?thesis by blast
qed


subsection \<open>Session export\<close>





lemma raw_response_parts:
  "status (raw_response ctx own txt) = 200"
  "body (raw_response ctx own txt) = JStr txt"
  by (simp_all add: raw_response_def)

lemma session_export_csv:
  assumes "db_configured db" "db_failure db = None" "sid \<noteq> []"
  shows "session_export num ts db t (Some sid) (Some ''csv'') a ctx =
           raw_response ctx
             [(''Content-Type'', ''text/csv''),
              (''Content-Disposition'',
               ''attachment; filename='' @ dquote @ ''session_'' @ sid @ ''.csv'' @ dquote)]
             (csv_header @ join newline
                (map (csv_row num ts) (export_query (db_rows db) (userId a) sid)))"
  using assms by (simp add: session_export_def Let_def)







subsection \<open>Advisory headers\<close>

lemma route_proxy_headers: "headers (fst (route_proxy serialise e getUser fetch mt t q hdr)) = []"
  by (simp add: route_proxy_def Let_def c_json_def
        split: sum.splits js_exn.splits fetch_result.splits option.splits)

lemma route_dashboard_headers:
  "headers (fst (route_dashboard serialise e getUser fetch tm hs hdr session)) = [] \<or>
   headers (fst (route_dashboard serialise e getUser fetch tm hs hdr session)) = deprecation_headers"
  by (simp add: route_dashboard_def Let_def c_json_def
        split: prod.splits sum.splits js_exn.splits)

lemma raw_response_carries:
  "set (rate_limit_headers t)
     \<subseteq> set (headers (raw_response (rate_limit_headers t)
                      [(''Content-Type'', x), (''Content-Disposition'', y)] txt))"
  by (simp add: raw_response_def rate_limit_headers_def)

lemma session_export_headers:
  "set (rate_limit_headers t)
     \<subseteq> set (headers (session_export num ts db th session_q format_q a (rate_limit_headers t)))"
  using raw_response_carries [of t]
  by (simp add: session_export_def Let_def c_json_def split: option.splits)

lemma session_events_headers:
  "headers (session_events ts db th session_q limit_q offset_q a ctx) = ctx"
  by (simp add: session_events_def Let_def c_json_def split: option.splits)

lemma health_detailed_headers: "headers (health_detailed t_snapshot th hs a ctx) = ctx"
  by (simp add: health_detailed_def Let_def c_json_def)

lemma metrics_replay_headers: "headers (metrics_replay ctx) = ctx"
  by (simp add: metrics_replay_def c_json_def)

lemma v1_aggregate_handler_headers:
  "headers (fst (v1_aggregate_handler serialise e fetch tm hs session a ctx)) = ctx"
  by (simp add: v1_aggregate_handler_def Let_def c_json_def
        split: prod.splits sum.splits js_exn.splits)

lemma v1_middleware_verified:
  assumes "valid (verifySupabaseJWT getUser (case hdr of Some h \<Rightarrow> h | None \<Rightarrow> []))"
  shows "fst (v1_middleware getUser t hdr hs handler) =
           fst (handler (verifySupabaseJWT getUser (case hdr of Some h \<Rightarrow> h | None \<Rightarrow> []))
                  (rate_limit_headers t))"
  using assms by (simp add: v1_middleware_def Let_def split: prod.splits)

lemma route_v1_verified_headers:
  assumes "valid (verifySupabaseJWT getUser (case rq_authorization rq of Some h \<Rightarrow> h | None \<Rightarrow> []))"
  shows "set (rate_limit_headers t)
           \<subseteq> set (headers (fst (route_v1 serialise e getUser fetch num ts db t tm hs route rq)))"
  unfolding route_v1_def v1_middleware_verified [OF assms]
  using session_export_headers [of t num ts db "server_at tm" "rq_session_id rq" "rq_format rq"]
  by (cases route)
     (simp_all add: v1_aggregate_handler_headers health_detailed_headers session_events_headers
        metrics_replay_headers)

lemma route_v1_unverified:
  assumes "\<not> valid (verifySupabaseJWT getUser (case rq_authorization rq of Some h \<Rightarrow> h | None \<Rightarrow> []))"
  shows "status (fst (route_v1 serialise e getUser fetch num ts db t tm hs route rq)) = 401"
    and "headers (fst (route_v1 serialise e getUser fetch num ts db t tm hs route rq)) = []"
  using assms by (simp_all add: route_v1_def v1_middleware_def Let_def c_json_def)

lemma route_v1_aggregate_route:
  "route_v1 serialise e getUser fetch num ts db t tm hs MetricsAggregate rq =
     route_v1_aggregate serialise e getUser fetch t tm hs (rq_authorization rq) (rq_x_session_id rq)"
  by (simp add: route_v1_def route_v1_aggregate_def)

text \<open>
  C8 (amended). For a request whose credential verifies, the response of every route
  under the /v1/ prefix (the aggregate, the detailed health, the session events, the
  session export in each of its formats, the replay stub), whatever its status, carries
  X-RateLimit-Limit: 60, X-RateLimit-Remaining: 59, X-RateLimit-Reset (the clock of the
  middleware in epoch seconds plus 60) and X-API-Version: v1. A request to such a route
  whose credential does not verify is answered 401 by the middleware, with none of them.
  The legacy paths /dashboard and /proxy carry none of these four headers, whatever the
  request.
\<close>

theorem advisory_headers_on_versioned_paths:
  "(valid (verifySupabaseJWT getUser (case rq_authorization rq of Some h \<Rightarrow> h | None \<Rightarrow> [])) \<longrightarrow>
      (\<forall>route.
         set [(''X-RateLimit-Limit'', ''60''), (''X-RateLimit-Remaining'', ''59''),
              (''X-RateLimit-Reset'', show_nat (now_ms t div 1000 + 60)),
              (''X-API-Version'', ''v1'')]
           \<subseteq> set (headers (fst (route_v1 serialise e getUser fetch num ts db t tm hs route rq))))) \<and>
   (\<not> valid (verifySupabaseJWT getUser (case rq_authorization rq of Some h \<Rightarrow> h | None \<Rightarrow> [])) \<longrightarrow>
      (\<forall>route.
         status (fst (route_v1 serialise e getUser fetch num ts db t tm hs route rq)) = 401 \<and>
         headers (fst (route_v1 serialise e getUser fetch num ts db t tm hs route rq)) = [])) \<and>
   advisory_names = [''X-RateLimit-Limit'', ''X-RateLimit-Remaining'', ''X-RateLimit-Reset'', ''X-API-Version''] \<and>
   (\<forall>name \<in> set advisory_names.
      name \<notin> fst ` set (headers (fst (route_dashboard serialise e getUser fetch tm hs hdr session))) \<and>
      name \<notin> fst ` set (headers (fst (route_proxy serialise e getUser pfetch mt t q hdr))))"
proof (intro conjI impI allI ballI)
  assume v: "valid (verifySupabaseJWT getUser (case rq_authorization rq of Some h \<Rightarrow> h | None \<Rightarrow> []))"
  show "set [(''X-RateLimit-Limit'', ''60''), (''X-RateLimit-Remaining'', ''59''),
             (''X-RateLimit-Reset'', show_nat (now_ms t div 1000 + 60)),
             (''X-API-Version'', ''v1'')]
          \<subseteq> set (headers (fst (route_v1 serialise e getUser fetch num ts db t tm hs route rq)))"
    for route
    using route_v1_verified_headers [OF v, of t serialise e fetch num ts db tm hs route]
    by (simp add: rate_limit_headers_def API_VERSION_def)
next
  assume nv: "\<not> valid (verifySupabaseJWT getUser (case rq_authorization rq of Some h \<Rightarrow> h | None \<Rightarrow> []))"
  show "status (fst (route_v1 serialise e getUser fetch num ts db t tm hs route rq)) = 401" for route
    using nv by (rule route_v1_unverified(1))
  show "headers (fst (route_v1 serialise e getUser fetch num ts db t tm hs route rq)) = []" for route
    using nv by (rule route_v1_unverified(2))
next
  show "advisory_names = [''X-RateLimit-Limit'', ''X-RateLimit-Remaining'', ''X-RateLimit-Reset'', ''X-API-Version'']"
    by (simp add: advisory_names_def)
next
  fix name assume n: "name \<in> set advisory_names"
  show "name \<notin> fst ` set (headers (fst (route_dashboard serialise e getUser fetch tm hs hdr session)))"
    using route_dashboard_headers [of serialise e getUser fetch tm hs hdr session] n
    by (auto simp: deprecation_headers_def advisory_names_def)
  show "name \<notin> fst ` set (headers (fst (route_proxy serialise e getUser pfetch mt t q hdr)))"
    by (simp add: route_proxy_headers)
qed

lemma valid_demo_export:
  "valid (verifySupabaseJWT demo_getUser
            (case rq_authorization demo_export_request of Some h \<Rightarrow> h | None \<Rightarrow> []))"
  by (simp add: verifySupabaseJWT_def demo_getUser_def demo_export_request_def)

lemma demo_export_response:
  "fst (route_v1 demo_serialise demo_env demo_getUser demo_fetch_ok num ts demo_db
          demo_clock demo_times [] SessionsExport demo_export_request) =
     raw_response (rate_limit_headers demo_clock)
       [(''Content-Type'', ''text/csv''),
        (''Content-Disposition'',
         ''attachment; filename='' @ dquote @ ''session_'' @ ''s-1'' @ ''.csv'' @ dquote)]
       (csv_header @ join newline
          (map (csv_row num ts) (export_query (db_rows demo_db) (Some ''u-1'') ''s-1'')))"
proof -
  have a: "verifySupabaseJWT demo_getUser ''Bearer abc'' =
             \<lparr>valid = True, userId = Some ''u-1'', email = Some ''a@b.c'',
              role = Some ''authenticated'', error = None\<rparr>"
    by (simp add: verifySupabaseJWT_def demo_getUser_def)
  have db: "db_configured demo_db" "db_failure demo_db = None" by (simp_all add: demo_db_def)
  have "session_export num ts demo_db (server_at demo_times) (Some ''s-1'') (Some ''csv'')
          (verifySupabaseJWT demo_getUser ''Bearer abc'') (rate_limit_headers demo_clock) =
        raw_response (rate_limit_headers demo_clock)
          [(''Content-Type'', ''text/csv''),
           (''Content-Disposition'',
            ''attachment; filename='' @ dquote @ ''session_'' @ ''s-1'' @ ''.csv'' @ dquote)]
          (csv_header @ join newline
             (map (csv_row num ts) (export_query (db_rows demo_db) (Some ''u-1'') ''s-1'')))"
    using session_export_csv [OF db, of "''s-1''" num ts "server_at demo_times"
            "verifySupabaseJWT demo_getUser ''Bearer abc''" "rate_limit_headers demo_clock"]
    by (simp add: a)
  then show ?thesis
    by (simp add: route_v1_def v1_middleware_def Let_def demo_export_request_def a)
qed

theorem advisory_headers_on_versioned_paths_witness:
  "valid (verifySupabaseJWT demo_getUser ''Bearer abc'') \<and>
   ''X-RateLimit-Reset'' \<in> set advisory_names \<and>
   status (fst (route_v1 demo_serialise demo_env demo_getUser demo_fetch_ok (\<lambda>x. ''0'') show_nat demo_db
                  demo_clock demo_times [] SessionsExport demo_export_request)) = 200 \<and>
   (''Content-Type'', ''text/csv'')
      \<in> set (headers (fst (route_v1 demo_serialise demo_env demo_getUser demo_fetch_ok (\<lambda>x. ''0'') show_nat
                  demo_db demo_clock demo_times [] SessionsExport demo_export_request))) \<and>
   (''X-RateLimit-Reset'', ''1767225660'')
      \<in> set (headers (fst (route_v1 demo_serialise demo_env demo_getUser demo_fetch_ok (\<lambda>x. ''0'') show_nat
                  demo_db demo_clock demo_times [] SessionsExport demo_export_request))) \<and>
   (''X-API-Version'', ''v1'')
      \<in> set (headers (fst (route_v1 demo_serialise demo_env demo_getUser demo_fetch_ok (\<lambda>x. ''0'') show_nat
                  demo_db demo_clock demo_times [] MetricsReplay demo_export_request))) \<and>
   ''X-RateLimit-Reset'' \<notin> fst ` set (headers (fst (route_dashboard demo_serialise demo_env demo_getUser
                           demo_fetch_ok demo_times [] (Some ''Bearer abc'') None)))"
proof -
  have n: "''X-RateLimit-Reset'' \<in> set advisory_names" by (simp add: advisory_names_def)
  have s: "show_nat (now_ms demo_clock div 1000 + 60) = ''1767225660''"
    by (simp add: demo_clock_def show_nat.simps digit_char_def)
  have v: "valid (verifySupabaseJWT demo_getUser ''Bearer abc'')"
    using valid_demo by simp
  note t = advisory_headers_on_versioned_paths
             [where getUser = demo_getUser and rq = demo_export_request and serialise = demo_serialise
                and e = demo_env and fetch = demo_fetch_ok and t = demo_clock and tm = demo_times
                and hs = "[]" and session = None and hdr = "Some ''Bearer abc''"
                and num = "\<lambda>x. ''0''" and ts = show_nat and db = demo_db]
  from t valid_demo_export have all:
    "\<forall>route.
       set [(''X-RateLimit-Limit'', ''60''), (''X-RateLimit-Remaining'', ''59''),
            (''X-RateLimit-Reset'', show_nat (now_ms demo_clock div 1000 + 60)),
            (''X-API-Version'', ''v1'')]
         \<subseteq> set (headers (fst (route_v1 demo_serialise demo_env demo_getUser demo_fetch_ok (\<lambda>x. ''0'')
                   show_nat demo_db demo_clock demo_times [] route demo_export_request)))"
    by blast
  from all [rule_format, of SessionsExport]
  have 1: "(''X-RateLimit-Reset'', ''1767225660'')
      \<in> set (headers (fst (route_v1 demo_serialise demo_env demo_getUser demo_fetch_ok (\<lambda>x. ''0'') show_nat
                  demo_db demo_clock demo_times [] SessionsExport demo_export_request)))"
    by (simp add: s)
  from all [rule_format, of MetricsReplay]
  have 2: "(''X-API-Version'', ''v1'')
      \<in> set (headers (fst (route_v1 demo_serialise demo_env demo_getUser demo_fetch_ok (\<lambda>x. ''0'') show_nat
                  demo_db demo_clock demo_times [] MetricsReplay demo_export_request)))"
    by simp
  have 3: "status (fst (route_v1 demo_serialise demo_env demo_getUser demo_fetch_ok (\<lambda>x. ''0'') show_nat demo_db
                  demo_clock demo_times [] SessionsExport demo_export_request)) = 200"
    by (simp add: demo_export_response raw_response_parts)
  have 4: "(''Content-Type'', ''text/csv'')
      \<in> set (headers (fst (route_v1 demo_serialise demo_env demo_getUser demo_fetch_ok (\<lambda>x. ''0'') show_nat
                  demo_db demo_clock demo_times [] SessionsExport demo_export_request)))"
    by (simp add: demo_export_response raw_response_def rate_limit_headers_def)
  from t n have 5: "''X-RateLimit-Reset'' \<notin> fst ` set (headers (fst (route_dashboard demo_serialise demo_env demo_getUser
                           demo_fetch_ok demo_times [] (Some ''Bearer abc'') None)))"
    by blast
  from v n 1 2 3 4 5 show ?thesis by simp
qed

lemma demo_dashboard_200:
  "status (fst (route_dashboard demo_serialise demo_env demo_getUser demo_fetch_ok demo_times []
                  (Some ''Bearer abc'') (Some ''s-1''))) = 200"
  using legacy_and_versioned(1) [OF valid_demo, of demo_serialise demo_env demo_fetch_ok demo_times
          "[]" "Some ''s-1''" demo_clock] demo_v1_200
  by simp

text \<open>
  The claim as stated fails: the 200 response of the legacy dashboard path to a verified
  credential carries only the deprecation headers.
\<close>

theorem legacy_dashboard_lacks_rate_limit_headers:
  "valid (verifySupabaseJWT demo_getUser ''Bearer abc'') \<and>
   status (fst (route_dashboard demo_serialise demo_env demo_getUser demo_fetch_ok demo_times []
                  (Some ''Bearer abc'') (Some ''s-1''))) = 200 \<and>
   headers (fst (route_dashboard demo_serialise demo_env demo_getUser demo_fetch_ok demo_times []
                  (Some ''Bearer abc'') (Some ''s-1''))) = deprecation_headers \<and>
   list_all (\<lambda>name. map_of (headers (fst (route_dashboard demo_serialise demo_env demo_getUser
                  demo_fetch_ok demo_times [] (Some ''Bearer abc'') (Some ''s-1'')))) name = None)
     [''X-RateLimit-Limit'', ''X-RateLimit-Remaining'', ''X-RateLimit-Reset'', ''X-API-Version'']"
proof -
  have hd: "headers (fst (route_dashboard demo_serialise demo_env demo_getUser demo_fetch_ok demo_times []
                  (Some ''Bearer abc'') (Some ''s-1''))) = deprecation_headers"
    using legacy_and_versioned(5) [OF valid_demo, of demo_serialise demo_env demo_fetch_ok demo_times
          "[]" "Some ''s-1''"] demo_dashboard_200
    by simp
  show ?thesis
    using valid_demo demo_dashboard_200
    by (simp add: hd) (simp add: deprecation_headers_def)
qed

end
